theory Spec2Isabelle
  imports Main "HOL-Library.Word" "HOL-Library.State_Monad" "HOL-Library.Monad_Syntax"
    "HOL-Library.Multiset" "HOL-Library.Sublist"
begin

unbundle bit_operations_syntax

section \<open>The line-E translator of Emu68 (M68k_LINEE.c)\<close>

text \<open>
  This theory embeds the shift, rotate and bitfield family of the 68k-to-AArch64 translator:
  the handlers \<open>EMIT_ASL\<close> ... \<open>EMIT_BFINS\<close>, the dispatch table \<open>InsnTable\<close>, the family
  entry point \<open>EMIT_lineE\<close> and the two metadata queries \<open>GetSR_LineE\<close> and
  \<open>M68K_GetLineELength\<close>.

  The source selects between two host back ends with the preprocessor.  The embedding follows
  the branches taken when \<^verbatim>\<open>__aarch64__\<close> is defined.

  A handler is a computation in the state monad over the translator state \<open>tstate\<close>.  The C
  statement \<^verbatim>\<open>*ptr++ = lsl(tmp, tmp, 1)\<close> becomes \<open>emit ''lsl'' [R tmp, R tmp, I 1]\<close>: the
  host instruction encoders are not part of the sources, so an emitted word is kept as the
  encoder's name with its arguments (\<open>R\<close> for an argument held in a host-register variable,
  \<open>I\<close> for a number).  The guest instruction stream is a function \<open>m\<close> from word positions
  to 16-bit guest words (already in host byte order, that is, after \<^verbatim>\<open>BE16\<close>); the pointer
  \<^verbatim>\<open>*m68k_ptr\<close> is the position \<open>m68k_ptr\<close> of the state.
\<close>

subsection \<open>Data\<close>

type_synonym u8 = "8 word"
type_synonym u16 = "16 word"
type_synonym u32 = "32 word"

text \<open>
  Host registers.  \<open>Scratch k\<close> is the handle of the \<open>k\<close>-th scratch register handed out by
  the allocator, \<open>Guest n\<close> the host register that holds guest register \<open>n\<close> (0-7 data, 8-15
  address), \<open>CC\<close> the host register holding the guest condition codes, and \<open>Unassigned\<close> the
  value \<^verbatim>\<open>0xff\<close> a handler stores in a register variable before the effective-address
  resolver fills it in.
\<close>

datatype hreg = Scratch nat | Guest int | CC | Unassigned

datatype arg = R hreg | I int

text \<open>
  A host word: \<open>Insn\<close> is written by a function of this file through an encoder, \<open>Raw\<close>
  is a literal word, and \<open>Ext n k\<close> is the \<open>k\<close>-th word written by one call of the
  collaborator \<open>n\<close>.
\<close>

datatype insn = Insn string "arg list" | Raw u32 | Ext string nat

record tstate =
  code :: "insn list"
  trace :: "(string \<times> arg list) list"
  pc_adv :: int
  m68k_ptr :: int
  ra_next :: nat
  ra_freed :: "nat list"

text \<open>
  \<open>code\<close> is the host code emitted so far (the emission cursor \<^verbatim>\<open>ptr\<close> is its length),
  \<open>trace\<close> the calls made to collaborators that receive the cursor, in order, with their
  arguments, \<open>pc_adv\<close> the number of bytes by which \<^verbatim>\<open>EMIT_AdvancePC\<close> has been asked to
  advance the virtual program counter, \<open>m68k_ptr\<close> the guest read position in words,
  \<open>ra_next\<close> the number of scratch handles handed out so far, and \<open>ra_freed\<close> the scratch
  handles released so far in the order of their release.
\<close>

text \<open>
  The collaborators of the family that are not among the sources are collected in an
  environment: the flag-liveness query \<^verbatim>\<open>M68K_GetSRMask\<close>, the length query
  \<^verbatim>\<open>SR_GetEALength\<close>, what the effective-address resolver does (\<open>EA_ext_words\<close>: the number
  it adds to \<^verbatim>\<open>*ext_words\<close>; \<open>EA_maps_guest\<close>: whether it hands back the host register of a
  guest address register instead of a scratch register), how many host words a collaborator
  writes (\<open>ext_len\<close>, by its name, its arguments and the state it is called in), and the
  value \<^verbatim>\<open>EMIT_GetNZ00\<close> and \<^verbatim>\<open>EMIT_GetNZxx\<close> leave in the mask passed by
  reference.
\<close>

record env =
  M68K_GetSRMask :: "(int \<Rightarrow> u16) \<Rightarrow> int \<Rightarrow> u8"
  SR_GetEALength :: "(int \<Rightarrow> u16) \<Rightarrow> int \<Rightarrow> u16 \<Rightarrow> int \<Rightarrow> int"
  EA_ext_words :: "(int \<Rightarrow> u16) \<Rightarrow> int \<Rightarrow> u16 \<Rightarrow> u8"
  EA_maps_guest :: "u16 \<Rightarrow> int \<Rightarrow> bool"
  ext_len :: "string \<Rightarrow> arg list \<Rightarrow> tstate \<Rightarrow> nat"
  GetNZ00_mask :: "u8 \<Rightarrow> u8"
  GetNZxx_mask :: "u8 \<Rightarrow> u8"

subsection \<open>Constants of M68k.h and of the instruction encoders\<close>

text \<open>
  Modelled from the spec: the header M68k.h is not among the sources.  The five status flags
  are the low five bits of the guest condition-code register, with X at bit 4.
\<close>

definition SR_C :: u8 where "SR_C = 0x01"
definition SR_V :: u8 where "SR_V = 0x02"
definition SR_Z :: u8 where "SR_Z = 0x04"
definition SR_N :: u8 where "SR_N = 0x08"
definition SR_X :: u8 where "SR_X = 0x10"
definition SR_NZV :: u8 where "SR_NZV = 0x0e"
definition SR_XC :: u8 where "SR_XC = 0x11"
definition SR_NZVC :: u8 where "SR_NZVC = 0x0f"
definition SR_CCR :: u8 where "SR_CCR = 0x1f"
definition SRB_Z :: int where "SRB_Z = 2"
definition SRB_N :: int where "SRB_N = 3"
definition SRB_X :: int where "SRB_X = 4"
definition VECTOR_ILLEGAL_INSTRUCTION :: int where "VECTOR_ILLEGAL_INSTRUCTION = 0x10"

text \<open>Shift kinds (ArchCompat.h) and the condition codes of the host.\<close>

definition LSL :: int where "LSL = 0"
definition LSR :: int where "LSR = 1"
definition ASR :: int where "ASR = 2"
definition ROR :: int where "ROR = 3"
definition A64_CC_EQ :: int where "A64_CC_EQ = 0"
definition A64_CC_NE :: int where "A64_CC_NE = 1"
definition A64_CC_CS :: int where "A64_CC_CS = 2"
definition A64_CC_MI :: int where "A64_CC_MI = 4"
definition ARM_CC_EQ :: int where "ARM_CC_EQ = 0"
definition ARM_CC_CS :: int where "ARM_CC_CS = 2"
definition ARM_CC_MI :: int where "ARM_CC_MI = 4"

subsection \<open>Emission and the guest stream\<close>

definition emit :: "string \<Rightarrow> arg list \<Rightarrow> (tstate, unit) state" where
  "emit n as = State (\<lambda>s. ((), s\<lparr>code := code s @ [Insn n as]\<rparr>))"

definition emit_raw :: "u32 \<Rightarrow> (tstate, unit) state" where
  "emit_raw w = State (\<lambda>s. ((), s\<lparr>code := code s @ [Raw w]\<rparr>))"

definition ext_emit :: "env \<Rightarrow> string \<Rightarrow> arg list \<Rightarrow> (tstate, unit) state" where
  "ext_emit e n as = State (\<lambda>s. ((),
     s\<lparr>code := code s @ map (Ext n) [0..<ext_len e n as s], trace := trace s @ [(n, as)]\<rparr>))"

definition skip :: "(tstate, unit) state" where
  "skip = State_Monad.return ()"

text \<open>The cursor \<^verbatim>\<open>ptr\<close> as a word offset, and \<^verbatim>\<open>*tmp_ptr = ...\<close> for a word already emitted.\<close>

definition cursor :: "(tstate, int) state" where
  "cursor = State (\<lambda>s. (int (length (code s)), s))"

definition patch :: "int \<Rightarrow> string \<Rightarrow> arg list \<Rightarrow> (tstate, unit) state" where
  "patch i n as = State (\<lambda>s. ((), s\<lparr>code := (code s)[nat i := Insn n as]\<rparr>))"

text \<open>\<^verbatim>\<open>BE16((*m68k_ptr)[k])\<close>, \<^verbatim>\<open>M68K_GetSRMask(&(*m68k_ptr)[k])\<close> and \<^verbatim>\<open>(*m68k_ptr) += n\<close>.\<close>

definition BE16_at :: "(int \<Rightarrow> u16) \<Rightarrow> int \<Rightarrow> (tstate, u16) state" where
  "BE16_at m k = State (\<lambda>s. (m (m68k_ptr s + k), s))"

definition SRMask_at :: "env \<Rightarrow> (int \<Rightarrow> u16) \<Rightarrow> int \<Rightarrow> (tstate, u8) state" where
  "SRMask_at e m k = State (\<lambda>s. (M68K_GetSRMask e m (m68k_ptr s + k), s))"

definition m68k_ptr_add :: "int \<Rightarrow> (tstate, unit) state" where
  "m68k_ptr_add n = State (\<lambda>s. ((), s\<lparr>m68k_ptr := m68k_ptr s + n\<rparr>))"

subsection \<open>The register allocator and the other collaborators\<close>

text \<open>
  Modelled from the spec: the register allocator (RegisterAllocator.h) is not among the
  sources.  \<open>allocScratch\<close> and \<open>copyFromGuestReg\<close> hand out a fresh scratch register,
  \<open>freeScratch\<close> releases one, \<open>map\<close> and \<open>mapForWrite\<close> give the host register of a guest
  register, \<open>markDirty\<close> records a guest register as written, and \<open>getWritable\<close> gives the
  host register of the condition codes.  Releasing a register that is not a scratch register
  releases nothing.  Every collaborator receives the cursor and may write host words.
\<close>

definition ra_fresh :: "(tstate, hreg) state" where
  "ra_fresh = State (\<lambda>s. (Scratch (ra_next s), s\<lparr>ra_next := Suc (ra_next s)\<rparr>))"

definition scratch_handles :: "hreg \<Rightarrow> nat list" where
  "scratch_handles r = (case r of Scratch k \<Rightarrow> [k] | _ \<Rightarrow> [])"

definition ra_release :: "hreg \<Rightarrow> (tstate, unit) state" where
  "ra_release r = State (\<lambda>s. ((), s\<lparr>ra_freed := ra_freed s @ scratch_handles r\<rparr>))"

definition RA_AllocARMRegister :: "env \<Rightarrow> (tstate, hreg) state" where
  "RA_AllocARMRegister e = do {
     ext_emit e ''RA_AllocARMRegister'' [];
     ra_fresh
   }"

definition RA_CopyFromM68kRegister :: "env \<Rightarrow> int \<Rightarrow> (tstate, hreg) state" where
  "RA_CopyFromM68kRegister e n = do {
     ext_emit e ''RA_CopyFromM68kRegister'' [I n];
     ra_fresh
   }"

definition RA_FreeARMRegister :: "env \<Rightarrow> hreg \<Rightarrow> (tstate, unit) state" where
  "RA_FreeARMRegister e r = do {
     ext_emit e ''RA_FreeARMRegister'' [R r];
     ra_release r
   }"

definition RA_MapM68kRegister :: "env \<Rightarrow> int \<Rightarrow> (tstate, hreg) state" where
  "RA_MapM68kRegister e n = do {
     ext_emit e ''RA_MapM68kRegister'' [I n];
     State_Monad.return (Guest n)
   }"

definition RA_MapM68kRegisterForWrite :: "env \<Rightarrow> int \<Rightarrow> (tstate, hreg) state" where
  "RA_MapM68kRegisterForWrite e n = do {
     ext_emit e ''RA_MapM68kRegisterForWrite'' [I n];
     State_Monad.return (Guest n)
   }"

definition RA_SetDirtyM68kRegister :: "env \<Rightarrow> int \<Rightarrow> (tstate, unit) state" where
  "RA_SetDirtyM68kRegister e n = ext_emit e ''RA_SetDirtyM68kRegister'' [I n]"

definition RA_ModifyCC :: "env \<Rightarrow> (tstate, hreg) state" where
  "RA_ModifyCC e = do {
     ext_emit e ''RA_ModifyCC'' [];
     State_Monad.return CC
   }"

text \<open>
  Modelled from the spec: the program-counter and exception services and the flag helpers are
  not among the sources.  \<open>advancePC(cursor, byteDelta)\<close> advances the virtual program
  counter; the others only write host words.  \<^verbatim>\<open>EMIT_GetNZ00\<close> and \<^verbatim>\<open>EMIT_GetNZxx\<close>
  update the mask they are passed by reference.
\<close>

definition EMIT_AdvancePC :: "env \<Rightarrow> int \<Rightarrow> (tstate, unit) state" where
  "EMIT_AdvancePC e n = do {
     ext_emit e ''EMIT_AdvancePC'' [I n];
     State (\<lambda>s. ((), s\<lparr>pc_adv := pc_adv s + n\<rparr>))
   }"

definition EMIT_FlushPC :: "env \<Rightarrow> (tstate, unit) state" where
  "EMIT_FlushPC e = ext_emit e ''EMIT_FlushPC'' []"

definition EMIT_InjectDebugString :: "env \<Rightarrow> string \<Rightarrow> arg list \<Rightarrow> (tstate, unit) state" where
  "EMIT_InjectDebugString e fmt as = ext_emit e (''EMIT_InjectDebugString '' @ fmt) as"

definition EMIT_Exception :: "env \<Rightarrow> int \<Rightarrow> int \<Rightarrow> (tstate, unit) state" where
  "EMIT_Exception e vector flags = ext_emit e ''EMIT_Exception'' [I vector, I flags]"

definition EMIT_GetNZ00 :: "env \<Rightarrow> hreg \<Rightarrow> u8 \<Rightarrow> (tstate, u8) state" where
  "EMIT_GetNZ00 e cc not_done = do {
     ext_emit e ''EMIT_GetNZ00'' [R cc, I (uint not_done)];
     State_Monad.return (GetNZ00_mask e not_done)
   }"

definition EMIT_GetNZxx :: "env \<Rightarrow> hreg \<Rightarrow> u8 \<Rightarrow> (tstate, u8) state" where
  "EMIT_GetNZxx e cc not_done = do {
     ext_emit e ''EMIT_GetNZxx'' [R cc, I (uint not_done)];
     State_Monad.return (GetNZxx_mask e not_done)
   }"

definition EMIT_SetFlagsConditional :: "env \<Rightarrow> hreg \<Rightarrow> u8 \<Rightarrow> int \<Rightarrow> (tstate, unit) state" where
  "EMIT_SetFlagsConditional e cc flags cond =
     ext_emit e ''EMIT_SetFlagsConditional'' [R cc, I (uint flags), I cond]"

text \<open>
  Modelled from the spec: the effective-address resolver is not among the sources.
  \<open>resolve(cursor, regSlot, addressingModeField, guestInsnPtr, &extWordsConsumed, ...)\<close>
  computes a host register holding the effective address and reports how many extension
  words the addressing mode consumed.  The handlers call it with size 0 and a register slot
  holding \<^verbatim>\<open>0xff\<close>; the register it then hands back is a fresh scratch register or, where
  the environment says so, the host register of guest address register \<open>ea AND 7\<close>.  The
  count is added to \<^verbatim>\<open>*ext_words\<close>, an 8-bit variable; the extension words of the addressing
  mode start at \<^verbatim>\<open>(*m68k_ptr)[*ext_words]\<close>.
\<close>

definition EMIT_LoadFromEffectiveAddress ::
  "env \<Rightarrow> (int \<Rightarrow> u16) \<Rightarrow> int \<Rightarrow> hreg \<Rightarrow> u16 \<Rightarrow> u8 \<Rightarrow> int \<Rightarrow> (tstate, hreg \<times> u8) state" where
  "EMIT_LoadFromEffectiveAddress e m sz arm_reg ea ext_words read_only = do {
     ext_emit e ''EMIT_LoadFromEffectiveAddress''
       [I sz, R arm_reg, I (uint ea), I (uint ext_words), I read_only];
     reg \<leftarrow> (if arm_reg \<noteq> Unassigned then State_Monad.return arm_reg
             else if EA_maps_guest e ea read_only then State_Monad.return (Guest (8 + uint (ea AND 7)))
             else ra_fresh);
     n \<leftarrow> State (\<lambda>s. (EA_ext_words e m (m68k_ptr s + uint ext_words) ea, s));
     State_Monad.return (reg, ext_words + n)
   }"

subsection \<open>The handlers\<close>

definition EMIT_ASL_mem :: "env \<Rightarrow> (int \<Rightarrow> u16) \<Rightarrow> u16 \<Rightarrow> (tstate, unit) state" where
  "EMIT_ASL_mem e m opcode = do {
    update_mask \<leftarrow> SRMask_at e m (- 1);
    let direction = uint ((drop_bit 8 opcode) AND 1);
    let dest = Unassigned;
    tmp \<leftarrow> RA_AllocARMRegister e;
    let ext_words = (0::u8);
    (dest, ext_words) \<leftarrow> EMIT_LoadFromEffectiveAddress e m 0 dest (opcode AND 0x3f) ext_words 1;
    (if (opcode AND 0x38) = 0x20 then do {
        emit ''ldrsh_offset_preindex'' [R dest, R tmp, I (- 2)]
      } else do {
        emit ''ldrsh_offset'' [R dest, R tmp, I 0]
      });
    (if (update_mask AND (SR_C OR SR_X)) \<noteq> 0 then do {
        (if direction \<noteq> 0 then do {
            emit ''tst_immed'' [R tmp, I 1, I (32 - 15)]
          } else do {
            emit ''tst_immed'' [R tmp, I 1, I 0]
          })
      } else skip);
    (if direction \<noteq> 0 then do {
        emit ''lsl'' [R tmp, R tmp, I 1]
      } else do {
        emit ''asr'' [R tmp, R tmp, I 1]
      });
    (if (opcode AND 0x38) = 0x18 then do {
        emit ''strh_offset_postindex'' [R dest, R tmp, I 2]
      } else do {
        emit ''strh_offset'' [R dest, R tmp, I 0]
      });
    EMIT_AdvancePC e (2 * ((uint ext_words) + 1));
    m68k_ptr_add (uint ext_words);
    (if update_mask \<noteq> 0 then do {
        cc \<leftarrow> RA_ModifyCC e;
        tmp2 \<leftarrow> RA_AllocARMRegister e;
        emit ''mov_immed_u16'' [R tmp2, I (uint update_mask), I 0];
        emit ''bic_reg'' [R cc, R cc, R tmp2, I LSL, I 0];
        (if (update_mask AND (SR_C OR SR_X)) \<noteq> 0 then do {
            emit ''b_cc'' [I A64_CC_EQ, I 3];
            emit ''mov_immed_u16'' [R tmp2, I (uint (SR_C OR SR_X)), I 0];
            emit ''orr_reg'' [R cc, R cc, R tmp2, I LSL, I 0]
          } else skip);
        RA_FreeARMRegister e tmp2;
        (if (update_mask AND (SR_Z OR SR_N)) \<noteq> 0 then do {
            emit ''cmn_reg'' [I 31, R tmp, I LSL, I 16];
            emit ''mov_immed_u16'' [R tmp, I (uint update_mask), I 0];
            (if (update_mask AND SR_Z) \<noteq> 0 then do {
                emit ''b_cc'' [I (A64_CC_EQ XOR 1), I 2];
                emit ''orr_immed'' [R cc, R cc, I 1, I ((32 - SRB_Z) AND 31)]
              } else skip);
            (if (update_mask AND SR_N) \<noteq> 0 then do {
                emit ''b_cc'' [I (A64_CC_MI XOR 1), I 2];
                emit ''orr_immed'' [R cc, R cc, I 1, I ((32 - SRB_N) AND 31)]
              } else skip)
          } else skip)
      } else skip);
    RA_FreeARMRegister e tmp;
    RA_FreeARMRegister e dest
  }"

definition EMIT_LSL_mem :: "env \<Rightarrow> (int \<Rightarrow> u16) \<Rightarrow> u16 \<Rightarrow> (tstate, unit) state" where
  "EMIT_LSL_mem e m opcode = do {
    update_mask \<leftarrow> SRMask_at e m (- 1);
    let direction = uint ((drop_bit 8 opcode) AND 1);
    let dest = Unassigned;
    tmp \<leftarrow> RA_AllocARMRegister e;
    let ext_words = (0::u8);
    (dest, ext_words) \<leftarrow> EMIT_LoadFromEffectiveAddress e m 0 dest (opcode AND 0x3f) ext_words 1;
    (if (opcode AND 0x38) = 0x20 then do {
        emit ''ldrh_offset_preindex'' [R dest, R tmp, I (- 2)]
      } else do {
        emit ''ldrh_offset'' [R dest, R tmp, I 0]
      });
    (if (update_mask AND (SR_C OR SR_X)) \<noteq> 0 then do {
        (if direction \<noteq> 0 then do {
            emit ''tst_immed'' [R tmp, I 1, I (32 - 15)]
          } else do {
            emit ''tst_immed'' [R tmp, I 1, I 0]
          })
      } else skip);
    (if direction \<noteq> 0 then do {
        emit ''lsl'' [R tmp, R tmp, I 1]
      } else do {
        emit ''lsr'' [R tmp, R tmp, I 1]
      });
    (if (opcode AND 0x38) = 0x18 then do {
        emit ''strh_offset_postindex'' [R dest, R tmp, I 2]
      } else do {
        emit ''strh_offset'' [R dest, R tmp, I 0]
      });
    EMIT_AdvancePC e (2 * ((uint ext_words) + 1));
    m68k_ptr_add (uint ext_words);
    (if update_mask \<noteq> 0 then do {
        cc \<leftarrow> RA_ModifyCC e;
        tmp2 \<leftarrow> RA_AllocARMRegister e;
        emit ''mov_immed_u16'' [R tmp2, I (uint update_mask), I 0];
        emit ''bic_reg'' [R cc, R cc, R tmp2, I LSL, I 0];
        (if (update_mask AND (SR_C OR SR_X)) \<noteq> 0 then do {
            emit ''b_cc'' [I A64_CC_EQ, I 3];
            emit ''mov_immed_u16'' [R tmp2, I (uint (SR_C OR SR_X)), I 0];
            emit ''orr_reg'' [R cc, R cc, R tmp2, I LSL, I 0]
          } else skip);
        RA_FreeARMRegister e tmp2;
        (if (update_mask AND (SR_Z OR SR_N)) \<noteq> 0 then do {
            emit ''cmn_reg'' [I 31, R tmp, I LSL, I 16];
            emit ''mov_immed_u16'' [R tmp, I (uint update_mask), I 0];
            (if (update_mask AND SR_Z) \<noteq> 0 then do {
                emit ''b_cc'' [I (A64_CC_EQ XOR 1), I 2];
                emit ''orr_immed'' [R cc, R cc, I 1, I ((32 - SRB_Z) AND 31)]
              } else skip);
            (if (update_mask AND SR_N) \<noteq> 0 then do {
                emit ''b_cc'' [I (A64_CC_MI XOR 1), I 2];
                emit ''orr_immed'' [R cc, R cc, I 1, I ((32 - SRB_N) AND 31)]
              } else skip)
          } else skip)
      } else skip);
    RA_FreeARMRegister e tmp;
    RA_FreeARMRegister e dest
  }"

definition EMIT_ROXL_mem :: "env \<Rightarrow> (int \<Rightarrow> u16) \<Rightarrow> u16 \<Rightarrow> (tstate, unit) state" where
  "EMIT_ROXL_mem e m opcode = do {
    update_mask \<leftarrow> SRMask_at e m (- 1);
    let direction = uint ((drop_bit 8 opcode) AND 1);
    let dest = Unassigned;
    let ext_words = (0::u8);
    cc \<leftarrow> RA_ModifyCC e;
    tmp \<leftarrow> RA_AllocARMRegister e;
    (dest, ext_words) \<leftarrow> EMIT_LoadFromEffectiveAddress e m 0 dest (opcode AND 0x3f) ext_words 1;
    (if (opcode AND 0x38) = 0x20 then do {
        emit ''ldrh_offset_preindex'' [R dest, R tmp, I (- 2)]
      } else do {
        emit ''ldrh_offset'' [R dest, R tmp, I 0]
      });
    emit ''tst_immed'' [R cc, I 1, I (32 - SRB_X)];
    emit ''b_cc'' [I A64_CC_EQ, I 2];
    (if direction \<noteq> 0 then do {
        emit ''orr_immed'' [R tmp, R tmp, I 1, I 1];
        emit ''ror'' [R tmp, R tmp, I 31]
      } else do {
        emit ''orr_immed'' [R tmp, R tmp, I 1, I 16];
        emit ''ror'' [R tmp, R tmp, I 1]
      });
    (if (opcode AND 0x38) = 0x18 then do {
        emit ''strh_offset_postindex'' [R dest, R tmp, I 2]
      } else do {
        emit ''strh_offset'' [R dest, R tmp, I 0]
      });
    EMIT_AdvancePC e (2 * ((uint ext_words) + 1));
    m68k_ptr_add (uint ext_words);
    (if update_mask \<noteq> 0 then do {
        tmp2 \<leftarrow> RA_AllocARMRegister e;
        let update_mask_copy = update_mask;
        (if (update_mask AND (SR_Z OR SR_N)) \<noteq> 0 then do {
            emit ''cmn_reg'' [I 31, R tmp, I LSL, I 16];
            update_mask \<leftarrow> EMIT_GetNZ00 e cc update_mask;
            skip
          } else skip);
        (if (update_mask_copy AND SR_XC) \<noteq> 0 then do {
            (if direction \<noteq> 0 then do {
                emit ''bfxil'' [R cc, R tmp, I 16, I 1]
              } else do {
                emit ''bfxil'' [R cc, R tmp, I 31, I 1]
              });
            (if (update_mask_copy AND SR_X) \<noteq> 0 then do {
                emit ''bfi'' [R cc, R cc, I 4, I 1]
              } else skip)
          } else skip);
        RA_FreeARMRegister e tmp2
      } else skip);
    RA_FreeARMRegister e tmp;
    RA_FreeARMRegister e dest
  }"

definition EMIT_ROL_mem :: "env \<Rightarrow> (int \<Rightarrow> u16) \<Rightarrow> u16 \<Rightarrow> (tstate, unit) state" where
  "EMIT_ROL_mem e m opcode = do {
    update_mask \<leftarrow> SRMask_at e m (- 1);
    let direction = uint ((drop_bit 8 opcode) AND 1);
    let dest = Unassigned;
    tmp \<leftarrow> RA_AllocARMRegister e;
    let ext_words = (0::u8);
    (dest, ext_words) \<leftarrow> EMIT_LoadFromEffectiveAddress e m 0 dest (opcode AND 0x3f) ext_words 1;
    (if (opcode AND 0x38) = 0x20 then do {
        emit ''ldrh_offset_preindex'' [R dest, R tmp, I (- 2)]
      } else do {
        emit ''ldrh_offset'' [R dest, R tmp, I 0]
      });
    emit ''bfi'' [R tmp, R tmp, I 16, I 16];
    (if direction \<noteq> 0 then do {
        emit ''ror'' [R tmp, R tmp, I (32 - 1)]
      } else do {
        emit ''ror'' [R tmp, R tmp, I 1]
      });
    (if (opcode AND 0x38) = 0x18 then do {
        emit ''strh_offset_postindex'' [R dest, R tmp, I 2]
      } else do {
        emit ''strh_offset'' [R dest, R tmp, I 0]
      });
    EMIT_AdvancePC e (2 * ((uint ext_words) + 1));
    m68k_ptr_add (uint ext_words);
    (if update_mask \<noteq> 0 then do {
        cc \<leftarrow> RA_ModifyCC e;
        (if (update_mask AND (SR_Z OR SR_N)) \<noteq> 0 then do {
            emit ''cmn_reg'' [I 31, R tmp, I LSL, I 16]
          } else skip);
        emit ''mov_immed_u16'' [R tmp, I (uint update_mask), I 0];
        emit ''bic_reg'' [R cc, R cc, R tmp, I LSL, I 0];
        (if (update_mask AND SR_Z) \<noteq> 0 then do {
            emit ''b_cc'' [I (A64_CC_EQ XOR 1), I 2];
            emit ''orr_immed'' [R cc, R cc, I 1, I ((32 - SRB_Z) AND 31)]
          } else skip);
        (if (update_mask AND SR_N) \<noteq> 0 then do {
            emit ''b_cc'' [I (A64_CC_MI XOR 1), I 2];
            emit ''orr_immed'' [R cc, R cc, I 1, I ((32 - SRB_N) AND 31)]
          } else skip);
        (if (update_mask AND (SR_C OR SR_X)) \<noteq> 0 then do {
            (if direction \<noteq> 0 then do {
                emit ''tst_immed'' [R tmp, I 1, I 0]
              } else do {
                emit ''tst_immed'' [R tmp, I 1, I 1]
              });
            emit ''b_cc'' [I A64_CC_EQ, I 3];
            emit ''mov_immed_u16'' [R tmp, I (uint (SR_C OR SR_X)), I 0];
            emit ''orr_reg'' [R cc, R cc, R tmp, I LSL, I 0]
          } else skip)
      } else skip);
    RA_FreeARMRegister e tmp;
    RA_FreeARMRegister e dest
  }"

definition EMIT_ASL :: "env \<Rightarrow> (int \<Rightarrow> u16) \<Rightarrow> u16 \<Rightarrow> (tstate, unit) state" where
  "EMIT_ASL e m opcode = do {
    update_mask \<leftarrow> SRMask_at e m (- 1);
    let shift = uint ((drop_bit 9 opcode) AND 7);
    let size = push_bit (nat (uint ((drop_bit 6 opcode) AND 3))) (1::int);
    let regshift = uint ((drop_bit 5 opcode) AND 1);
    reg \<leftarrow> RA_MapM68kRegister e (uint (opcode AND 7));
    tmp \<leftarrow> RA_AllocARMRegister e;
    let direction = uint ((drop_bit 8 opcode) AND 1);
    RA_SetDirtyM68kRegister e (uint (opcode AND 7));
    (if regshift \<noteq> 0 then do {
        shiftreg \<leftarrow> RA_MapM68kRegister e shift;
        (if direction \<noteq> 0 then do {
            (if size = 4 then do {
                emit ''lslv64'' [R tmp, R reg, R shiftreg];
                emit ''mov_reg'' [R reg, R tmp];
                (if (update_mask AND (SR_C OR SR_X)) \<noteq> 0 then do {
                    emit ''tst64_immed'' [R tmp, I 1, I 32, I 1]
                  } else skip)
              } else if size = 2 then do {
                emit ''lslv64'' [R tmp, R reg, R shiftreg];
                (if (update_mask AND (SR_C OR SR_X)) \<noteq> 0 then do {
                    emit ''tst_immed'' [R tmp, I 1, I 16]
                  } else skip);
                emit ''bfi'' [R reg, R tmp, I 0, I 16]
              } else if size = 1 then do {
                emit ''lslv64'' [R tmp, R reg, R shiftreg];
                (if (update_mask AND (SR_C OR SR_X)) \<noteq> 0 then do {
                    emit ''tst_immed'' [R tmp, I 1, I 24]
                  } else skip);
                emit ''bfi'' [R reg, R tmp, I 0, I 8]
              } else skip)
          } else do {
            mask \<leftarrow> RA_AllocARMRegister e;
            (if (update_mask AND (SR_C OR SR_X)) \<noteq> 0 then do {
                t \<leftarrow> RA_AllocARMRegister e;
                emit ''sub_immed'' [R t, R shiftreg, I 1];
                emit ''mov_immed_u16'' [R mask, I 1, I 0];
                emit ''lslv64'' [R mask, R mask, R t];
                RA_FreeARMRegister e t
              } else skip);
            (if size = 4 then do {
                emit ''sxtw64'' [R tmp, R reg];
                (if (update_mask AND (SR_C OR SR_X)) \<noteq> 0 then do {
                    emit ''ands64_reg'' [I 31, R tmp, R mask, I LSL, I 0]
                  } else skip);
                emit ''asrv64'' [R tmp, R tmp, R shiftreg];
                emit ''mov_reg'' [R reg, R tmp]
              } else if size = 2 then do {
                emit ''sxth64'' [R tmp, R reg];
                (if (update_mask AND (SR_C OR SR_X)) \<noteq> 0 then do {
                    emit ''ands64_reg'' [I 31, R tmp, R mask, I LSL, I 0]
                  } else skip);
                emit ''asrv64'' [R tmp, R tmp, R shiftreg];
                emit ''bfi'' [R reg, R tmp, I 0, I 16]
              } else if size = 1 then do {
                emit ''sxtb64'' [R tmp, R reg];
                (if (update_mask AND (SR_C OR SR_X)) \<noteq> 0 then do {
                    emit ''ands64_reg'' [I 31, R tmp, R mask, I LSL, I 0]
                  } else skip);
                emit ''asrv64'' [R tmp, R tmp, R shiftreg];
                emit ''bfi'' [R reg, R tmp, I 0, I 8]
              } else skip);
            RA_FreeARMRegister e mask
          })
      } else do {
        let shift = (if \<not> (shift \<noteq> 0) then 8 else shift);
        (if (update_mask AND (SR_C OR SR_X)) \<noteq> 0 then do {
            (if direction \<noteq> 0 then do {
                (if size = 4 then do {
                    emit ''tst_immed'' [R reg, I 1, I shift]
                  } else if size = 2 then do {
                    emit ''tst_immed'' [R reg, I 1, I (16 + shift)]
                  } else if size = 1 then do {
                    emit ''tst_immed'' [R reg, I 1, I (31 AND (24 + shift))]
                  } else skip)
              } else do {
                emit ''tst_immed'' [R reg, I 1, I (31 AND (33 - shift))]
              })
          } else skip);
        (if direction \<noteq> 0 then do {
            (if size = 4 then do {
                emit ''lsl'' [R reg, R reg, I shift]
              } else if size = 2 then do {
                emit ''lsl'' [R tmp, R reg, I shift];
                emit ''bfi'' [R reg, R tmp, I 0, I 16]
              } else if size = 1 then do {
                emit ''lsl'' [R tmp, R reg, I shift];
                emit ''bfi'' [R reg, R tmp, I 0, I 8]
              } else skip)
          } else do {
            (if size = 4 then do {
                emit ''asr'' [R reg, R reg, I shift]
              } else if size = 2 then do {
                emit ''sxth'' [R tmp, R reg];
                emit ''asr'' [R tmp, R tmp, I shift];
                emit ''bfi'' [R reg, R tmp, I 0, I 16]
              } else if size = 1 then do {
                emit ''sxtb'' [R tmp, R reg];
                emit ''asr'' [R tmp, R tmp, I shift];
                emit ''bfi'' [R reg, R tmp, I 0, I 8]
              } else skip)
          })
      });
    EMIT_AdvancePC e 2;
    (if update_mask \<noteq> 0 then do {
        cc \<leftarrow> RA_ModifyCC e;
        tmp2 \<leftarrow> RA_AllocARMRegister e;
        emit ''mov_immed_u16'' [R tmp2, I (uint update_mask), I 0];
        emit ''bic_reg'' [R cc, R cc, R tmp2, I LSL, I 0];
        (if (update_mask AND (SR_C OR SR_X)) \<noteq> 0 then do {
            emit ''b_cc'' [I A64_CC_EQ, I 3];
            emit ''mov_immed_u16'' [R tmp2, I (uint (SR_C OR SR_X)), I 0];
            emit ''orr_reg'' [R cc, R cc, R tmp2, I LSL, I 0]
          } else skip);
        RA_FreeARMRegister e tmp2;
        (if (update_mask AND (SR_Z OR SR_N)) \<noteq> 0 then do {
            (if size = 4 then do {
                emit ''cmn_reg'' [I 31, R reg, I LSL, I 0]
              } else if size = 2 then do {
                emit ''cmn_reg'' [I 31, R tmp, I LSL, I 16]
              } else if size = 1 then do {
                emit ''cmn_reg'' [I 31, R tmp, I LSL, I 24]
              } else skip);
            (if (update_mask AND SR_Z) \<noteq> 0 then do {
                emit ''b_cc'' [I (A64_CC_EQ XOR 1), I 2];
                emit ''orr_immed'' [R cc, R cc, I 1, I ((32 - SRB_Z) AND 31)]
              } else skip);
            (if (update_mask AND SR_N) \<noteq> 0 then do {
                emit ''b_cc'' [I (A64_CC_MI XOR 1), I 2];
                emit ''orr_immed'' [R cc, R cc, I 1, I ((32 - SRB_N) AND 31)]
              } else skip)
          } else skip)
      } else skip);
    RA_FreeARMRegister e tmp
  }"

definition EMIT_LSL :: "env \<Rightarrow> (int \<Rightarrow> u16) \<Rightarrow> u16 \<Rightarrow> (tstate, unit) state" where
  "EMIT_LSL e m opcode = do {
    update_mask \<leftarrow> SRMask_at e m (- 1);
    let direction = uint ((drop_bit 8 opcode) AND 1);
    let shift = uint ((drop_bit 9 opcode) AND 7);
    let size = push_bit (nat (uint ((drop_bit 6 opcode) AND 3))) (1::int);
    let regshift = uint ((drop_bit 5 opcode) AND 1);
    reg \<leftarrow> RA_MapM68kRegister e (uint (opcode AND 7));
    tmp \<leftarrow> RA_AllocARMRegister e;
    RA_SetDirtyM68kRegister e (uint (opcode AND 7));
    (if regshift \<noteq> 0 then do {
        shiftreg \<leftarrow> RA_MapM68kRegister e shift;
        (if direction \<noteq> 0 then do {
            (if size = 4 then do {
                emit ''lslv64'' [R tmp, R reg, R shiftreg];
                emit ''mov_reg'' [R reg, R tmp];
                (if (update_mask AND (SR_C OR SR_X)) \<noteq> 0 then do {
                    emit ''tst64_immed'' [R tmp, I 1, I 32, I 1]
                  } else skip)
              } else if size = 2 then do {
                emit ''lslv64'' [R tmp, R reg, R shiftreg];
                (if (update_mask AND (SR_C OR SR_X)) \<noteq> 0 then do {
                    emit ''tst_immed'' [R tmp, I 1, I 16]
                  } else skip);
                emit ''bfi'' [R reg, R tmp, I 0, I 16]
              } else if size = 1 then do {
                emit ''lslv64'' [R tmp, R reg, R shiftreg];
                (if (update_mask AND (SR_C OR SR_X)) \<noteq> 0 then do {
                    emit ''tst_immed'' [R tmp, I 1, I 24]
                  } else skip);
                emit ''bfi'' [R reg, R tmp, I 0, I 8]
              } else skip)
          } else do {
            mask \<leftarrow> RA_AllocARMRegister e;
            (if (update_mask AND (SR_C OR SR_X)) \<noteq> 0 then do {
                t \<leftarrow> RA_AllocARMRegister e;
                emit ''sub_immed'' [R t, R shiftreg, I 1];
                emit ''mov_immed_u16'' [R mask, I 1, I 0];
                emit ''lslv64'' [R mask, R mask, R t];
                RA_FreeARMRegister e t
              } else skip);
            (if size = 4 then do {
                emit ''mov_reg'' [R tmp, R reg];
                (if (update_mask AND (SR_C OR SR_X)) \<noteq> 0 then do {
                    emit ''ands_reg'' [I 31, R tmp, R mask, I LSL, I 0]
                  } else skip);
                emit ''lsrv64'' [R tmp, R tmp, R shiftreg];
                emit ''mov_reg'' [R reg, R tmp]
              } else if size = 2 then do {
                emit ''uxth'' [R tmp, R reg];
                (if (update_mask AND (SR_C OR SR_X)) \<noteq> 0 then do {
                    emit ''ands_reg'' [I 31, R tmp, R mask, I LSL, I 0]
                  } else skip);
                emit ''lsrv64'' [R tmp, R tmp, R shiftreg];
                emit ''bfi'' [R reg, R tmp, I 0, I 16]
              } else if size = 1 then do {
                emit ''uxtb'' [R tmp, R reg];
                (if (update_mask AND (SR_C OR SR_X)) \<noteq> 0 then do {
                    emit ''ands_reg'' [I 31, R tmp, R mask, I LSL, I 0]
                  } else skip);
                emit ''lsrv64'' [R tmp, R tmp, R shiftreg];
                emit ''bfi'' [R reg, R tmp, I 0, I 8]
              } else skip);
            RA_FreeARMRegister e mask
          })
      } else do {
        let shift = (if \<not> (shift \<noteq> 0) then 8 else shift);
        (if (update_mask AND (SR_C OR SR_X)) \<noteq> 0 then do {
            (if direction \<noteq> 0 then do {
                (if size = 4 then do {
                    emit ''tst_immed'' [R reg, I 1, I shift]
                  } else if size = 2 then do {
                    emit ''tst_immed'' [R reg, I 1, I (16 + shift)]
                  } else if size = 1 then do {
                    emit ''tst_immed'' [R reg, I 1, I (31 AND (24 + shift))]
                  } else skip)
              } else do {
                emit ''tst_immed'' [R reg, I 1, I (31 AND (33 - shift))]
              })
          } else skip);
        (if direction \<noteq> 0 then do {
            (if size = 4 then do {
                emit ''lsl'' [R reg, R reg, I shift]
              } else if size = 2 then do {
                emit ''lsl'' [R tmp, R reg, I shift];
                emit ''bfi'' [R reg, R tmp, I 0, I 16]
              } else if size = 1 then do {
                emit ''lsl'' [R tmp, R reg, I shift];
                emit ''bfi'' [R reg, R tmp, I 0, I 8]
              } else skip)
          } else do {
            (if size = 4 then do {
                emit ''lsr'' [R reg, R reg, I shift]
              } else if size = 2 then do {
                emit ''uxth'' [R tmp, R reg];
                emit ''lsr'' [R tmp, R tmp, I shift];
                emit ''bfi'' [R reg, R tmp, I 0, I 16]
              } else if size = 1 then do {
                emit ''uxtb'' [R tmp, R reg];
                emit ''lsr'' [R tmp, R tmp, I shift];
                emit ''bfi'' [R reg, R tmp, I 0, I 8]
              } else skip)
          })
      });
    EMIT_AdvancePC e 2;
    (if update_mask \<noteq> 0 then do {
        cc \<leftarrow> RA_ModifyCC e;
        tmp2 \<leftarrow> RA_AllocARMRegister e;
        emit ''mov_immed_u16'' [R tmp2, I (uint update_mask), I 0];
        emit ''bic_reg'' [R cc, R cc, R tmp2, I LSL, I 0];
        (if (update_mask AND (SR_C OR SR_X)) \<noteq> 0 then do {
            emit ''b_cc'' [I A64_CC_EQ, I 3];
            emit ''mov_immed_u16'' [R tmp2, I (uint (SR_C OR SR_X)), I 0];
            emit ''orr_reg'' [R cc, R cc, R tmp2, I LSL, I 0]
          } else skip);
        RA_FreeARMRegister e tmp2;
        (if (update_mask AND (SR_Z OR SR_N)) \<noteq> 0 then do {
            (if size = 4 then do {
                emit ''cmn_reg'' [I 31, R reg, I LSL, I 0]
              } else if size = 2 then do {
                emit ''cmn_reg'' [I 31, R tmp, I LSL, I 16]
              } else if size = 1 then do {
                emit ''cmn_reg'' [I 31, R tmp, I LSL, I 24]
              } else skip);
            (if (update_mask AND SR_Z) \<noteq> 0 then do {
                emit ''b_cc'' [I (A64_CC_EQ XOR 1), I 2];
                emit ''orr_immed'' [R cc, R cc, I 1, I ((32 - SRB_Z) AND 31)]
              } else skip);
            (if (update_mask AND SR_N) \<noteq> 0 then do {
                emit ''b_cc'' [I (A64_CC_MI XOR 1), I 2];
                emit ''orr_immed'' [R cc, R cc, I 1, I ((32 - SRB_N) AND 31)]
              } else skip)
          } else skip)
      } else skip);
    RA_FreeARMRegister e tmp
  }"

definition EMIT_ROL :: "env \<Rightarrow> (int \<Rightarrow> u16) \<Rightarrow> u16 \<Rightarrow> (tstate, unit) state" where
  "EMIT_ROL e m opcode = do {
    update_mask \<leftarrow> SRMask_at e m (- 1);
    let direction = uint ((drop_bit 8 opcode) AND 1);
    let shift = uint ((drop_bit 9 opcode) AND 7);
    let size = push_bit (nat (uint ((drop_bit 6 opcode) AND 3))) (1::int);
    let regshift = uint ((drop_bit 5 opcode) AND 1);
    reg \<leftarrow> RA_MapM68kRegister e (uint (opcode AND 7));
    tmp \<leftarrow> RA_AllocARMRegister e;
    RA_SetDirtyM68kRegister e (uint (opcode AND 7));
    (if regshift \<noteq> 0 then do {
        shift \<leftarrow> RA_CopyFromM68kRegister e shift;
        (if direction \<noteq> 0 then do {
            emit ''neg_reg'' [R shift, R shift, I LSL, I 0];
            emit ''add_immed'' [R shift, R shift, I 32]
          } else skip);
        (if size = 4 then do {
            emit ''rorv'' [R reg, R reg, R shift]
          } else if size = 2 then do {
            emit ''mov_reg'' [R tmp, R reg];
            emit ''bfi'' [R tmp, R tmp, I 16, I 16];
            emit ''rorv'' [R tmp, R tmp, R shift];
            emit ''bfi'' [R reg, R tmp, I 0, I 16]
          } else if size = 1 then do {
            emit ''mov_reg'' [R tmp, R reg];
            emit ''bfi'' [R tmp, R tmp, I 8, I 8];
            emit ''bfi'' [R tmp, R tmp, I 16, I 16];
            emit ''rorv'' [R tmp, R tmp, R shift];
            emit ''bfi'' [R reg, R tmp, I 0, I 8]
          } else skip);
        RA_FreeARMRegister e shift
      } else do {
        let shift = (if \<not> (shift \<noteq> 0) then 8 else shift);
        let shift = (if direction \<noteq> 0 then 32 - shift else shift);
        (if size = 4 then do {
            emit ''ror'' [R reg, R reg, I shift]
          } else if size = 2 then do {
            emit ''mov_reg'' [R tmp, R reg];
            emit ''bfi'' [R tmp, R tmp, I 16, I 16];
            emit ''ror'' [R tmp, R tmp, I shift];
            emit ''bfi'' [R reg, R tmp, I 0, I 16]
          } else if size = 1 then do {
            emit ''mov_reg'' [R tmp, R reg];
            emit ''bfi'' [R tmp, R tmp, I 8, I 8];
            emit ''bfi'' [R tmp, R tmp, I 16, I 16];
            emit ''ror'' [R tmp, R tmp, I shift];
            emit ''bfi'' [R reg, R tmp, I 0, I 8]
          } else skip)
      });
    EMIT_AdvancePC e 2;
    (if update_mask \<noteq> 0 then do {
        cc \<leftarrow> RA_ModifyCC e;
        (if size = 4 then do {
            emit ''cmn_reg'' [I 31, R reg, I LSL, I 0]
          } else if size = 2 then do {
            emit ''cmn_reg'' [I 31, R tmp, I LSL, I 16]
          } else if size = 1 then do {
            emit ''cmn_reg'' [I 31, R tmp, I LSL, I 24]
          } else skip);
        let old_mask = update_mask AND SR_C;
        update_mask \<leftarrow> EMIT_GetNZxx e cc update_mask;
        let update_mask = update_mask OR old_mask;
        (if (update_mask AND SR_Z) \<noteq> 0 then do {
            EMIT_SetFlagsConditional e cc SR_Z ARM_CC_EQ
          } else skip);
        (if (update_mask AND SR_N) \<noteq> 0 then do {
            EMIT_SetFlagsConditional e cc SR_N ARM_CC_MI
          } else skip);
        (if (update_mask AND SR_C) \<noteq> 0 then do {
            (if \<not> (direction \<noteq> 0) then do {
                (if size = 4 then do {
                    emit ''bfxil'' [R cc, R reg, I 31, I 1]
                  } else if size = 2 then do {
                    emit ''bfxil'' [R cc, R reg, I 15, I 1]
                  } else if size = 1 then do {
                    emit ''bfxil'' [R cc, R reg, I 7, I 1]
                  } else skip)
              } else do {
                emit ''bfi'' [R cc, R reg, I 0, I 1]
              })
          } else skip)
      } else skip);
    RA_FreeARMRegister e tmp
  }"

definition EMIT_ROXL :: "env \<Rightarrow> (int \<Rightarrow> u16) \<Rightarrow> u16 \<Rightarrow> (tstate, unit) state" where
  "EMIT_ROXL e m opcode = do {
    update_mask \<leftarrow> SRMask_at e m (- 1);
    let dir = uint (opcode AND 0x100);
    cc \<leftarrow> RA_ModifyCC e;
    let size = uint ((drop_bit 6 opcode) AND 3);
    dest \<leftarrow> RA_MapM68kRegister e (uint (opcode AND 7));
    RA_SetDirtyM68kRegister e (uint (opcode AND 7));
    (if (opcode AND 0x20) \<noteq> 0 then do {
        amount_reg \<leftarrow> RA_MapM68kRegister e (uint ((drop_bit 9 opcode) AND 7));
        amount \<leftarrow> RA_AllocARMRegister e;
        tmp \<leftarrow> RA_AllocARMRegister e;
        tmp2 \<leftarrow> RA_AllocARMRegister e;
        emit ''ands_immed'' [R tmp, R amount_reg, I 6, I 0];
        ptr \<leftarrow> cursor;
        let tmp_ptr = ptr;
        emit_raw 0;
        (if (update_mask AND SR_NZV) \<noteq> 0 then do {
            (if size = 0 then do {
                emit ''cmn_reg'' [I 31, R dest, I LSL, I 24]
              } else if size = 1 then do {
                emit ''cmn_reg'' [I 31, R dest, I LSL, I 16]
              } else if size = 2 then do {
                emit ''cmn_reg'' [I 31, R dest, I LSL, I 0]
              } else skip);
            let tmp_mask = update_mask;
            tmp_mask \<leftarrow> EMIT_GetNZ00 e cc tmp_mask;
            skip
          } else skip);
        (if (update_mask AND SR_X) \<noteq> 0 then do {
            emit ''bfxil'' [R cc, R cc, I 4, I 1]
          } else skip);
        emit_raw 0;
        ptr \<leftarrow> cursor;
        patch tmp_ptr ''b_cc'' [I A64_CC_NE, I (ptr - tmp_ptr)];
        ptr \<leftarrow> cursor;
        let tmp_ptr = ptr - 1;
        emit ''mov_immed_u16'' [R tmp2, I (if size = 0 then 9 else if size = 1 then 17 else 33), I 0];
        emit ''udiv'' [R amount, R tmp, R tmp2];
        emit ''msub'' [R amount, R tmp, R amount, R tmp2];
        (if size = 0 then do {
            emit ''and_immed'' [R tmp, R dest, I 8, I 0]
          } else if size = 1 then do {
            emit ''and_immed'' [R tmp, R dest, I 16, I 0]
          } else if size = 2 then do {
            emit ''mov_reg'' [R tmp, R dest]
          } else skip);
        emit ''tst_immed'' [R cc, I 1, I (32 - SRB_X)];
        (if dir \<noteq> 0 then do {
            (if size = 0 then do {
                emit ''neg_reg'' [R amount, R amount, I LSR, I 0];
                emit ''add_immed'' [R amount, R amount, I 32];
                emit ''b_cc'' [I A64_CC_EQ, I 2];
                emit ''orr_immed'' [R tmp, R tmp, I 1, I (32 - 8)];
                emit ''bfi'' [R tmp, R tmp, I (32 - 9), I 9];
                emit ''rorv'' [R tmp, R tmp, R amount];
                emit ''bfi'' [R dest, R tmp, I 0, I 8]
              } else if size = 1 then do {
                emit ''neg_reg'' [R amount, R amount, I LSR, I 0];
                emit ''add_immed'' [R amount, R amount, I 64];
                emit ''b_cc'' [I A64_CC_EQ, I 2];
                emit ''orr_immed'' [R tmp, R tmp, I 1, I (32 - 16)];
                emit ''bfi64'' [R tmp, R tmp, I (64 - 17), I 17];
                emit ''rorv64'' [R tmp, R tmp, R amount];
                emit ''bfi'' [R dest, R tmp, I 0, I 16]
              } else if size = 2 then do {
                emit ''neg_reg'' [R amount, R amount, I LSR, I 0];
                emit ''add_immed'' [R amount, R amount, I 64];
                emit ''b_cc'' [I A64_CC_EQ, I 2];
                emit ''orr64_immed'' [R tmp, R tmp, I 1, I 32, I 1];
                emit ''lsl64'' [R tmp, R tmp, I 31];
                emit ''bfxil64'' [R tmp, R tmp, I 31, I 32];
                emit ''rorv64'' [R tmp, R tmp, R amount];
                emit ''mov_reg'' [R dest, R tmp]
              } else skip)
          } else do {
            (if size = 0 then do {
                emit ''b_cc'' [I A64_CC_EQ, I 2];
                emit ''orr_immed'' [R tmp, R tmp, I 1, I (32 - 8)];
                emit ''bfi'' [R tmp, R tmp, I 9, I 9];
                emit ''rorv'' [R tmp, R tmp, R amount];
                emit ''bfi'' [R dest, R tmp, I 0, I 8]
              } else if size = 1 then do {
                emit ''b_cc'' [I A64_CC_EQ, I 2];
                emit ''orr_immed'' [R tmp, R tmp, I 1, I (32 - 16)];
                emit ''bfi64'' [R tmp, R tmp, I 17, I 17];
                emit ''rorv64'' [R tmp, R tmp, R amount];
                emit ''bfi'' [R dest, R tmp, I 0, I 16]
              } else if size = 2 then do {
                emit ''b_cc'' [I A64_CC_EQ, I 2];
                emit ''orr64_immed'' [R tmp, R tmp, I 1, I (64 - 32), I 1];
                emit ''bfi64'' [R tmp, R tmp, I 33, I 31];
                emit ''rorv64'' [R tmp, R tmp, R amount];
                emit ''mov_reg'' [R dest, R tmp]
              } else skip)
          });
        (if (update_mask AND SR_NZV) \<noteq> 0 then do {
            (if size = 0 then do {
                emit ''cmn_reg'' [I 31, R tmp, I LSL, I 24]
              } else if size = 1 then do {
                emit ''cmn_reg'' [I 31, R tmp, I LSL, I 16]
              } else if size = 2 then do {
                emit ''cmn_reg'' [I 31, R tmp, I LSL, I 0]
              } else skip);
            let tmp_mask = update_mask;
            tmp_mask \<leftarrow> EMIT_GetNZ00 e cc tmp_mask;
            skip
          } else skip);
        (if (update_mask AND SR_XC) \<noteq> 0 then do {
            (if size = 0 then do {
                emit ''bfxil'' [R cc, R tmp, I 8, I 1]
              } else if size = 1 then do {
                emit ''bfxil'' [R cc, R tmp, I 16, I 1]
              } else if size = 2 then do {
                emit ''bfxil64'' [R cc, R tmp, I 32, I 1]
              } else skip);
            (if (update_mask AND SR_X) \<noteq> 0 then do {
                emit ''bfi'' [R cc, R cc, I 4, I 1]
              } else skip);
            ptr \<leftarrow> cursor;
            patch tmp_ptr ''b'' [I (ptr - tmp_ptr)]
          } else skip);
        RA_FreeARMRegister e tmp;
        RA_FreeARMRegister e tmp2;
        RA_FreeARMRegister e amount
      } else do {
        tmp \<leftarrow> RA_AllocARMRegister e;
        let amount = uint ((drop_bit 9 opcode) AND 7);
        let amount = (if amount = 0 then 8 else amount);
        (if dir \<noteq> 0 then do {
            (if size = 0 then do {
                emit ''mov_reg'' [R tmp, R dest];
                emit ''bic_immed'' [R tmp, R tmp, I 1, I 1];
                emit ''tbz'' [R cc, I SRB_X, I 2];
                emit ''orr_immed'' [R tmp, R tmp, I 1, I 1];
                emit ''bfi'' [R tmp, R tmp, I (31 - 8), I 8];
                emit ''ror'' [R tmp, R tmp, I (32 - amount)];
                emit ''bfi'' [R dest, R tmp, I 0, I 8]
              } else if size = 1 then do {
                emit ''mov_reg'' [R tmp, R dest];
                emit ''bic_immed'' [R tmp, R tmp, I 1, I 1];
                emit ''tbz'' [R cc, I SRB_X, I 2];
                emit ''orr_immed'' [R tmp, R tmp, I 1, I 1];
                emit ''bfi64'' [R tmp, R tmp, I (31 - 16), I 16];
                emit ''ror'' [R tmp, R tmp, I (32 - amount)];
                emit ''bfi'' [R dest, R tmp, I 0, I 16]
              } else if size = 2 then do {
                emit ''lsl64'' [R tmp, R dest, I 31];
                emit ''bic64_immed'' [R tmp, R tmp, I 1, I 1, I 1];
                emit ''tbz'' [R cc, I SRB_X, I 2];
                emit ''orr64_immed'' [R tmp, R tmp, I 1, I 1, I 1];
                emit ''bfxil64'' [R tmp, R tmp, I 31, I 32];
                emit ''ror64'' [R tmp, R tmp, I (64 - amount)];
                emit ''mov_reg'' [R dest, R tmp]
              } else skip)
          } else do {
            (if size = 0 then do {
                emit ''mov_reg'' [R tmp, R dest];
                emit ''bic_immed'' [R tmp, R tmp, I 1, I (32 - 8)];
                emit ''tbz'' [R cc, I SRB_X, I 2];
                emit ''orr_immed'' [R tmp, R tmp, I 1, I (32 - 8)];
                emit ''bfi'' [R tmp, R tmp, I 9, I 9];
                emit ''ror'' [R tmp, R tmp, I amount];
                emit ''bfi'' [R dest, R tmp, I 0, I 8]
              } else if size = 1 then do {
                emit ''mov_reg'' [R tmp, R dest];
                emit ''bic_immed'' [R tmp, R tmp, I 1, I (32 - 16)];
                emit ''tbz'' [R cc, I SRB_X, I 2];
                emit ''orr_immed'' [R tmp, R tmp, I 1, I (32 - 16)];
                emit ''bfi64'' [R tmp, R tmp, I 17, I 17];
                emit ''ror64'' [R tmp, R tmp, I amount];
                emit ''bfi'' [R dest, R tmp, I 0, I 16]
              } else if size = 2 then do {
                emit ''lsl64'' [R tmp, R dest, I 33];
                emit ''bfi64'' [R tmp, R dest, I 0, I 32];
                emit ''tbz'' [R cc, I SRB_X, I 4];
                emit ''orr64_immed'' [R tmp, R tmp, I 1, I 32, I 1];
                emit ''b'' [I 2];
                emit ''bic64_immed'' [R tmp, R tmp, I 1, I 32, I 1];
                emit ''ror64'' [R tmp, R tmp, I amount];
                emit ''mov_reg'' [R dest, R tmp]
              } else skip)
          });
        (if (update_mask AND SR_NZV) \<noteq> 0 then do {
            (if size = 0 then do {
                emit ''cmn_reg'' [I 31, R tmp, I LSL, I 24]
              } else if size = 1 then do {
                emit ''cmn_reg'' [I 31, R tmp, I LSL, I 16]
              } else if size = 2 then do {
                emit ''cmn_reg'' [I 31, R tmp, I LSL, I 0]
              } else skip);
            let tmp_mask = update_mask;
            tmp_mask \<leftarrow> EMIT_GetNZ00 e cc tmp_mask;
            skip
          } else skip);
        (if (update_mask AND SR_XC) \<noteq> 0 then do {
            (if dir \<noteq> 0 then do {
                (if size = 0 then do {
                    emit ''bfxil'' [R cc, R tmp, I 31, I 1]
                  } else if size = 1 then do {
                    emit ''bfxil'' [R cc, R tmp, I 31, I 1]
                  } else if size = 2 then do {
                    emit ''bfxil64'' [R cc, R tmp, I 63, I 1]
                  } else skip)
              } else do {
                (if size = 0 then do {
                    emit ''bfxil'' [R cc, R tmp, I 8, I 1]
                  } else if size = 1 then do {
                    emit ''bfxil'' [R cc, R tmp, I 16, I 1]
                  } else if size = 2 then do {
                    emit ''bfxil64'' [R cc, R tmp, I 32, I 1]
                  } else skip)
              });
            (if (update_mask AND SR_X) \<noteq> 0 then do {
                emit ''bfi'' [R cc, R cc, I 4, I 1]
              } else skip)
          } else skip);
        RA_FreeARMRegister e tmp
      });
    EMIT_AdvancePC e 2
  }"

definition EMIT_BFTST :: "env \<Rightarrow> (int \<Rightarrow> u16) \<Rightarrow> u16 \<Rightarrow> (tstate, unit) state" where
  "EMIT_BFTST e m opcode = do {
    update_mask \<leftarrow> SRMask_at e m (- 1);
    let ext_words = (1::u8);
    opcode2 \<leftarrow> BE16_at m 0;
    ext_words \<leftarrow> (if (opcode AND 0x0038) = 0 then do {
        src \<leftarrow> RA_MapM68kRegister e (uint (opcode AND 7));
        (if (opcode2 AND 0x0820) = 0 then do {
            let offset = uint ((drop_bit 6 opcode2) AND 0x1f);
            let width = uint (opcode2 AND 0x1f);
            (if (offset \<noteq> 0) \<or> (width \<noteq> 0) then do {
                tmp \<leftarrow> RA_AllocARMRegister e;
                emit ''lsl64'' [R tmp, R src, I 32];
                emit ''orr64_reg'' [R tmp, R tmp, R src, I LSL, I 0];
                let width = (if width = 0 then 32 else width);
                emit ''sbfx64'' [R tmp, R tmp, I (64 - (offset + width)), I width];
                (if update_mask \<noteq> 0 then do {
                    cc \<leftarrow> RA_ModifyCC e;
                    emit ''cmn_reg'' [I 31, R tmp, I LSL, I 0];
                    update_mask \<leftarrow> EMIT_GetNZ00 e cc update_mask;
                    skip
                  } else skip);
                RA_FreeARMRegister e tmp
              } else do {
                (if update_mask \<noteq> 0 then do {
                    cc \<leftarrow> RA_ModifyCC e;
                    emit ''cmn_reg'' [I 31, R src, I LSL, I 0];
                    update_mask \<leftarrow> EMIT_GetNZ00 e cc update_mask;
                    skip
                  } else skip)
              })
          } else if (\<not> ((opcode2 AND 0x800) \<noteq> 0)) \<and> ((opcode2 AND 0x20) \<noteq> 0) then do {
            tmp \<leftarrow> RA_AllocARMRegister e;
            width_reg \<leftarrow> RA_CopyFromM68kRegister e (uint (opcode2 AND 7));
            mask_reg \<leftarrow> RA_AllocARMRegister e;
            let offset = uint ((drop_bit 6 opcode2) AND 31);
            emit ''lsl64'' [R tmp, R src, I (32 + offset)];
            emit ''orr64_reg'' [R tmp, R tmp, R src, I LSL, I offset];
            emit ''and_immed'' [R width_reg, R width_reg, I 5, I 0];
            emit ''cbnz'' [R width_reg, I 2];
            emit ''mov_immed_u16'' [R width_reg, I 32, I 0];
            emit ''mov_immed_u16'' [R mask_reg, I 1, I 0];
            emit ''lslv64'' [R mask_reg, R mask_reg, R width_reg];
            emit ''sub64_immed'' [R mask_reg, R mask_reg, I 1];
            emit ''rorv64'' [R mask_reg, R mask_reg, R width_reg];
            emit ''ands64_reg'' [R tmp, R tmp, R mask_reg, I LSL, I 0];
            (if update_mask \<noteq> 0 then do {
                cc \<leftarrow> RA_ModifyCC e;
                update_mask \<leftarrow> EMIT_GetNZ00 e cc update_mask;
                skip
              } else skip);
            RA_FreeARMRegister e tmp;
            RA_FreeARMRegister e width_reg;
            RA_FreeARMRegister e mask_reg
          } else if ((opcode2 AND 0x800) \<noteq> 0) \<and> (\<not> ((opcode2 AND 0x20) \<noteq> 0)) then do {
            off_reg \<leftarrow> RA_CopyFromM68kRegister e (uint ((drop_bit 6 opcode2) AND 7));
            mask_reg \<leftarrow> RA_AllocARMRegister e;
            tmp \<leftarrow> RA_AllocARMRegister e;
            let width = uint (opcode2 AND 31);
            emit ''and_immed'' [R off_reg, R off_reg, I 5, I 0];
            let width = (if width = 0 then 32 else width);
            emit ''orr64_immed'' [R mask_reg, I 31, I width, I width, I 1];
            emit ''lsl64'' [R tmp, R src, I 32];
            emit ''orr64_reg'' [R tmp, R tmp, R src, I LSL, I 0];
            emit ''lslv64'' [R tmp, R tmp, R off_reg];
            emit ''ands64_reg'' [R tmp, R tmp, R mask_reg, I LSL, I 0];
            (if update_mask \<noteq> 0 then do {
                cc \<leftarrow> RA_ModifyCC e;
                update_mask \<leftarrow> EMIT_GetNZ00 e cc update_mask;
                skip
              } else skip);
            RA_FreeARMRegister e tmp;
            RA_FreeARMRegister e mask_reg;
            RA_FreeARMRegister e off_reg
          } else if ((opcode2 AND 0x800) \<noteq> 0) \<and> ((opcode2 AND 0x20) \<noteq> 0) then do {
            off_reg \<leftarrow> RA_CopyFromM68kRegister e (uint ((drop_bit 6 opcode2) AND 7));
            width_reg \<leftarrow> RA_CopyFromM68kRegister e (uint (opcode2 AND 7));
            mask_reg \<leftarrow> RA_AllocARMRegister e;
            tmp \<leftarrow> RA_AllocARMRegister e;
            emit ''and_immed'' [R off_reg, R off_reg, I 5, I 0];
            emit ''and_immed'' [R width_reg, R width_reg, I 5, I 0];
            emit ''cbnz'' [R width_reg, I 2];
            emit ''mov_immed_u16'' [R width_reg, I 32, I 0];
            emit ''mov_immed_u16'' [R mask_reg, I 1, I 0];
            emit ''lslv64'' [R mask_reg, R mask_reg, R width_reg];
            emit ''sub64_immed'' [R mask_reg, R mask_reg, I 1];
            emit ''rorv64'' [R mask_reg, R mask_reg, R width_reg];
            emit ''lsl64'' [R tmp, R src, I 32];
            emit ''orr64_reg'' [R tmp, R tmp, R src, I LSL, I 0];
            emit ''lslv64'' [R tmp, R tmp, R off_reg];
            emit ''ands64_reg'' [R tmp, R tmp, R mask_reg, I LSL, I 0];
            (if update_mask \<noteq> 0 then do {
                cc \<leftarrow> RA_ModifyCC e;
                update_mask \<leftarrow> EMIT_GetNZ00 e cc update_mask;
                skip
              } else skip);
            RA_FreeARMRegister e tmp;
            RA_FreeARMRegister e mask_reg;
            RA_FreeARMRegister e width_reg;
            RA_FreeARMRegister e off_reg
          } else skip);
        State_Monad.return ext_words
      } else do {
        let base = Unassigned;
        (base, ext_words) \<leftarrow> EMIT_LoadFromEffectiveAddress e m 0 base (opcode AND 0x3f) ext_words 0;
        (if (\<not> ((opcode2 AND 0x800) \<noteq> 0)) \<and> (\<not> ((opcode2 AND 0x20) \<noteq> 0)) then do {
            tmp \<leftarrow> RA_AllocARMRegister e;
            let offset = uint ((drop_bit 6 opcode2) AND 31);
            let width = uint (opcode2 AND 31);
            let width = (if width = 0 then 32 else width);
            emit ''ldr64_offset'' [R base, R tmp, I 0];
            emit ''sbfx64'' [R tmp, R tmp, I ((64 - offset) - width), I width];
            (if update_mask \<noteq> 0 then do {
                cc \<leftarrow> RA_ModifyCC e;
                emit ''cmn64_reg'' [I 31, R tmp, I LSL, I (64 - width)];
                update_mask \<leftarrow> EMIT_GetNZ00 e cc update_mask;
                skip
              } else skip);
            RA_FreeARMRegister e tmp
          } else if (\<not> ((opcode2 AND 0x800) \<noteq> 0)) \<and> ((opcode2 AND 0x20) \<noteq> 0) then do {
            tmp \<leftarrow> RA_AllocARMRegister e;
            width_reg \<leftarrow> RA_CopyFromM68kRegister e (uint (opcode2 AND 7));
            mask_reg \<leftarrow> RA_AllocARMRegister e;
            let offset = uint ((drop_bit 6 opcode2) AND 31);
            emit ''ldr64_offset'' [R base, R tmp, I 0];
            (if offset \<noteq> 0 then do {
                emit ''lsl64'' [R tmp, R tmp, I offset]
              } else skip);
            emit ''and_immed'' [R width_reg, R width_reg, I 5, I 0];
            emit ''cbnz'' [R width_reg, I 2];
            emit ''mov_immed_u16'' [R width_reg, I 32, I 0];
            emit ''mov_immed_u16'' [R mask_reg, I 1, I 0];
            emit ''lslv64'' [R mask_reg, R mask_reg, R width_reg];
            emit ''sub64_immed'' [R mask_reg, R mask_reg, I 1];
            emit ''rorv64'' [R mask_reg, R mask_reg, R width_reg];
            emit ''ands64_reg'' [R tmp, R tmp, R mask_reg, I LSL, I 0];
            (if update_mask \<noteq> 0 then do {
                cc \<leftarrow> RA_ModifyCC e;
                update_mask \<leftarrow> EMIT_GetNZ00 e cc update_mask;
                skip
              } else skip);
            RA_FreeARMRegister e tmp;
            RA_FreeARMRegister e width_reg;
            RA_FreeARMRegister e mask_reg
          } else if ((opcode2 AND 0x800) \<noteq> 0) \<and> (\<not> ((opcode2 AND 0x20) \<noteq> 0)) then do {
            off_reg \<leftarrow> RA_CopyFromM68kRegister e (uint ((drop_bit 6 opcode2) AND 7));
            mask_reg \<leftarrow> RA_AllocARMRegister e;
            tmp \<leftarrow> RA_AllocARMRegister e;
            let width = uint (opcode2 AND 31);
            let width = (if width = 0 then 32 else width);
            emit ''add_reg'' [R base, R base, R off_reg, I ASR, I 3];
            emit ''and_immed'' [R off_reg, R off_reg, I 3, I 0];
            emit ''orr64_immed'' [R mask_reg, I 31, I width, I width, I 1];
            emit ''ldr64_offset'' [R base, R tmp, I 0];
            emit ''lslv64'' [R tmp, R tmp, R off_reg];
            emit ''ands64_reg'' [R tmp, R tmp, R mask_reg, I LSL, I 0];
            (if update_mask \<noteq> 0 then do {
                cc \<leftarrow> RA_ModifyCC e;
                update_mask \<leftarrow> EMIT_GetNZ00 e cc update_mask;
                skip
              } else skip);
            RA_FreeARMRegister e tmp;
            RA_FreeARMRegister e mask_reg;
            RA_FreeARMRegister e off_reg
          } else if ((opcode2 AND 0x800) \<noteq> 0) \<and> ((opcode2 AND 0x20) \<noteq> 0) then do {
            off_reg \<leftarrow> RA_CopyFromM68kRegister e (uint ((drop_bit 6 opcode2) AND 7));
            width_reg \<leftarrow> RA_CopyFromM68kRegister e (uint (opcode2 AND 7));
            mask_reg \<leftarrow> RA_AllocARMRegister e;
            tmp \<leftarrow> RA_AllocARMRegister e;
            emit ''add_reg'' [R base, R base, R off_reg, I ASR, I 3];
            emit ''and_immed'' [R off_reg, R off_reg, I 3, I 0];
            emit ''and_immed'' [R width_reg, R width_reg, I 5, I 0];
            emit ''cbnz'' [R width_reg, I 2];
            emit ''mov_immed_u16'' [R width_reg, I 32, I 0];
            emit ''mov_immed_u16'' [R mask_reg, I 1, I 0];
            emit ''lslv64'' [R mask_reg, R mask_reg, R width_reg];
            emit ''sub64_immed'' [R mask_reg, R mask_reg, I 1];
            emit ''rorv64'' [R mask_reg, R mask_reg, R width_reg];
            emit ''ldr64_offset'' [R base, R tmp, I 0];
            emit ''lslv64'' [R tmp, R tmp, R off_reg];
            emit ''ands64_reg'' [R tmp, R tmp, R mask_reg, I LSL, I 0];
            (if update_mask \<noteq> 0 then do {
                cc \<leftarrow> RA_ModifyCC e;
                update_mask \<leftarrow> EMIT_GetNZ00 e cc update_mask;
                skip
              } else skip);
            RA_FreeARMRegister e tmp;
            RA_FreeARMRegister e mask_reg;
            RA_FreeARMRegister e width_reg;
            RA_FreeARMRegister e off_reg
          } else skip);
        RA_FreeARMRegister e base;
        State_Monad.return ext_words
      });
    EMIT_AdvancePC e (2 * ((uint ext_words) + 1));
    m68k_ptr_add (uint ext_words)
  }"

definition EMIT_BFEXTU :: "env \<Rightarrow> (int \<Rightarrow> u16) \<Rightarrow> u16 \<Rightarrow> (tstate, unit) state" where
  "EMIT_BFEXTU e m opcode = do {
    update_mask \<leftarrow> SRMask_at e m (- 1);
    let ext_words = (1::u8);
    opcode2 \<leftarrow> BE16_at m 0;
    ext_words \<leftarrow> (if (opcode AND 0x0038) = 0 then do {
        src \<leftarrow> RA_MapM68kRegister e (uint (opcode AND 7));
        (if (opcode2 AND 0x0820) = 0 then do {
            dest \<leftarrow> RA_MapM68kRegister e (uint ((drop_bit 12 opcode2) AND 7));
            let offset = uint ((drop_bit 6 opcode2) AND 0x1f);
            let width = uint (opcode2 AND 0x1f);
            RA_SetDirtyM68kRegister e (uint ((drop_bit 12 opcode2) AND 7));
            let width = (if width = 0 then 32 else width);
            (if (offset \<noteq> 0) \<or> (width \<noteq> 32) then do {
                tmp \<leftarrow> RA_AllocARMRegister e;
                emit ''lsl64'' [R tmp, R src, I 32];
                emit ''orr64_reg'' [R tmp, R tmp, R src, I LSL, I 0];
                emit ''ubfx64'' [R dest, R tmp, I (64 - (offset + width)), I width];
                RA_FreeARMRegister e tmp
              } else do {
                emit ''mov_reg'' [R dest, R src]
              });
            (if update_mask \<noteq> 0 then do {
                cc \<leftarrow> RA_ModifyCC e;
                emit ''cmn_reg'' [I 31, R dest, I LSL, I (32 - width)];
                update_mask \<leftarrow> EMIT_GetNZ00 e cc update_mask;
                skip
              } else skip)
          } else if (\<not> ((opcode2 AND 0x800) \<noteq> 0)) \<and> ((opcode2 AND 0x20) \<noteq> 0) then do {
            dest \<leftarrow> RA_MapM68kRegisterForWrite e (uint ((drop_bit 12 opcode2) AND 7));
            tmp \<leftarrow> RA_AllocARMRegister e;
            width_reg \<leftarrow> RA_CopyFromM68kRegister e (uint (opcode2 AND 7));
            mask_reg \<leftarrow> RA_AllocARMRegister e;
            let offset = uint ((drop_bit 6 opcode2) AND 31);
            emit ''lsl64'' [R tmp, R src, I (32 + offset)];
            emit ''orr64_reg'' [R tmp, R tmp, R src, I LSL, I offset];
            emit ''and_immed'' [R width_reg, R width_reg, I 5, I 0];
            emit ''cbnz'' [R width_reg, I 2];
            emit ''mov_immed_u16'' [R width_reg, I 32, I 0];
            emit ''mov_immed_u16'' [R mask_reg, I 1, I 0];
            emit ''lslv64'' [R mask_reg, R mask_reg, R width_reg];
            emit ''sub64_immed'' [R mask_reg, R mask_reg, I 1];
            emit ''rorv64'' [R mask_reg, R mask_reg, R width_reg];
            emit ''ands64_reg'' [R tmp, R tmp, R mask_reg, I LSL, I 0];
            emit ''mov_immed_u16'' [R mask_reg, I 64, I 0];
            emit ''sub_reg'' [R width_reg, R mask_reg, R width_reg, I LSL, I 0];
            emit ''lsrv64'' [R tmp, R tmp, R width_reg];
            emit ''mov_reg'' [R dest, R tmp];
            (if update_mask \<noteq> 0 then do {
                cc \<leftarrow> RA_ModifyCC e;
                update_mask \<leftarrow> EMIT_GetNZ00 e cc update_mask;
                skip
              } else skip);
            RA_FreeARMRegister e tmp;
            RA_FreeARMRegister e width_reg;
            RA_FreeARMRegister e mask_reg
          } else if ((opcode2 AND 0x800) \<noteq> 0) \<and> (\<not> ((opcode2 AND 0x20) \<noteq> 0)) then do {
            dest \<leftarrow> RA_MapM68kRegisterForWrite e (uint ((drop_bit 12 opcode2) AND 7));
            off_reg \<leftarrow> RA_CopyFromM68kRegister e (uint ((drop_bit 6 opcode2) AND 7));
            mask_reg \<leftarrow> RA_AllocARMRegister e;
            tmp \<leftarrow> RA_AllocARMRegister e;
            let width = uint (opcode2 AND 31);
            emit ''and_immed'' [R off_reg, R off_reg, I 5, I 0];
            let width = (if width = 0 then 32 else width);
            emit ''orr64_immed'' [R mask_reg, I 31, I width, I width, I 1];
            emit ''lsl64'' [R tmp, R src, I 32];
            emit ''orr64_reg'' [R tmp, R tmp, R src, I LSL, I 0];
            emit ''lslv64'' [R tmp, R tmp, R off_reg];
            emit ''ands64_reg'' [R tmp, R tmp, R mask_reg, I LSL, I 0];
            emit ''lsr64'' [R tmp, R tmp, I (64 - width)];
            emit ''mov_reg'' [R dest, R tmp];
            (if update_mask \<noteq> 0 then do {
                cc \<leftarrow> RA_ModifyCC e;
                update_mask \<leftarrow> EMIT_GetNZ00 e cc update_mask;
                skip
              } else skip);
            RA_FreeARMRegister e tmp;
            RA_FreeARMRegister e mask_reg;
            RA_FreeARMRegister e off_reg
          } else if ((opcode2 AND 0x800) \<noteq> 0) \<and> ((opcode2 AND 0x20) \<noteq> 0) then do {
            dest \<leftarrow> RA_MapM68kRegisterForWrite e (uint ((drop_bit 12 opcode2) AND 7));
            off_reg \<leftarrow> RA_CopyFromM68kRegister e (uint ((drop_bit 6 opcode2) AND 7));
            width_reg \<leftarrow> RA_CopyFromM68kRegister e (uint (opcode2 AND 7));
            mask_reg \<leftarrow> RA_AllocARMRegister e;
            tmp \<leftarrow> RA_AllocARMRegister e;
            emit ''and_immed'' [R off_reg, R off_reg, I 5, I 0];
            emit ''and_immed'' [R width_reg, R width_reg, I 5, I 0];
            emit ''cbnz'' [R width_reg, I 2];
            emit ''mov_immed_u16'' [R width_reg, I 32, I 0];
            emit ''mov_immed_u16'' [R mask_reg, I 1, I 0];
            emit ''lslv64'' [R mask_reg, R mask_reg, R width_reg];
            emit ''sub64_immed'' [R mask_reg, R mask_reg, I 1];
            emit ''rorv64'' [R mask_reg, R mask_reg, R width_reg];
            emit ''lsl64'' [R tmp, R src, I 32];
            emit ''orr64_reg'' [R tmp, R tmp, R src, I LSL, I 0];
            emit ''lslv64'' [R tmp, R tmp, R off_reg];
            emit ''ands64_reg'' [R tmp, R tmp, R mask_reg, I LSL, I 0];
            emit ''mov_immed_u16'' [R off_reg, I 64, I 0];
            emit ''sub_reg'' [R width_reg, R off_reg, R width_reg, I LSL, I 0];
            emit ''lsrv64'' [R tmp, R tmp, R width_reg];
            emit ''mov_reg'' [R dest, R tmp];
            (if update_mask \<noteq> 0 then do {
                cc \<leftarrow> RA_ModifyCC e;
                update_mask \<leftarrow> EMIT_GetNZ00 e cc update_mask;
                skip
              } else skip);
            RA_FreeARMRegister e tmp;
            RA_FreeARMRegister e mask_reg;
            RA_FreeARMRegister e width_reg;
            RA_FreeARMRegister e off_reg
          } else skip);
        State_Monad.return ext_words
      } else do {
        let base = Unassigned;
        (base, ext_words) \<leftarrow> EMIT_LoadFromEffectiveAddress e m 0 base (opcode AND 0x3f) ext_words 0;
        update_mask \<leftarrow> (if (\<not> ((opcode2 AND 0x800) \<noteq> 0)) \<and> (\<not> ((opcode2 AND 0x20) \<noteq> 0)) then do {
            dest \<leftarrow> RA_MapM68kRegisterForWrite e (uint ((drop_bit 12 opcode2) AND 7));
            tmp \<leftarrow> RA_AllocARMRegister e;
            let offset = uint ((drop_bit 6 opcode2) AND 31);
            let width = uint (opcode2 AND 31);
            let width = (if width = 0 then 32 else width);
            emit ''ldr64_offset'' [R base, R tmp, I 0];
            emit ''ubfx64'' [R tmp, R tmp, I ((64 - offset) - width), I width];
            emit ''mov_reg'' [R dest, R tmp];
            update_mask \<leftarrow> (if update_mask \<noteq> 0 then do {
                cc \<leftarrow> RA_ModifyCC e;
                emit ''cmn64_reg'' [I 31, R tmp, I LSL, I (64 - width)];
                update_mask \<leftarrow> EMIT_GetNZ00 e cc update_mask;
                State_Monad.return update_mask
              } else State_Monad.return update_mask);
            RA_FreeARMRegister e tmp;
            State_Monad.return update_mask
          } else if (\<not> ((opcode2 AND 0x800) \<noteq> 0)) \<and> ((opcode2 AND 0x20) \<noteq> 0) then do {
            dest \<leftarrow> RA_MapM68kRegisterForWrite e (uint ((drop_bit 12 opcode2) AND 7));
            tmp \<leftarrow> RA_AllocARMRegister e;
            width_reg \<leftarrow> RA_CopyFromM68kRegister e (uint (opcode2 AND 7));
            mask_reg \<leftarrow> RA_AllocARMRegister e;
            let offset = uint ((drop_bit 6 opcode2) AND 31);
            emit ''ldr64_offset'' [R base, R tmp, I 0];
            (if offset \<noteq> 0 then do {
                emit ''lsl64'' [R tmp, R tmp, I offset]
              } else skip);
            emit ''and_immed'' [R width_reg, R width_reg, I 5, I 0];
            emit ''cbnz'' [R width_reg, I 2];
            emit ''mov_immed_u16'' [R width_reg, I 32, I 0];
            emit ''mov_immed_u16'' [R mask_reg, I 1, I 0];
            emit ''lslv64'' [R mask_reg, R mask_reg, R width_reg];
            emit ''sub64_immed'' [R mask_reg, R mask_reg, I 1];
            emit ''rorv64'' [R mask_reg, R mask_reg, R width_reg];
            emit ''ands64_reg'' [R tmp, R tmp, R mask_reg, I LSL, I 0];
            emit ''mov_immed_u16'' [R mask_reg, I 64, I 0];
            emit ''sub_reg'' [R width_reg, R mask_reg, R width_reg, I LSL, I 0];
            emit ''lsrv64'' [R tmp, R tmp, R width_reg];
            emit ''mov_reg'' [R dest, R tmp];
            update_mask \<leftarrow> (if update_mask \<noteq> 0 then do {
                cc \<leftarrow> RA_ModifyCC e;
                update_mask \<leftarrow> EMIT_GetNZ00 e cc update_mask;
                State_Monad.return update_mask
              } else State_Monad.return update_mask);
            RA_FreeARMRegister e tmp;
            RA_FreeARMRegister e width_reg;
            RA_FreeARMRegister e mask_reg;
            State_Monad.return update_mask
          } else if ((opcode2 AND 0x800) \<noteq> 0) \<and> (\<not> ((opcode2 AND 0x20) \<noteq> 0)) then do {
            dest \<leftarrow> RA_MapM68kRegisterForWrite e (uint ((drop_bit 12 opcode2) AND 7));
            off_reg \<leftarrow> RA_CopyFromM68kRegister e (uint ((drop_bit 6 opcode2) AND 7));
            mask_reg \<leftarrow> RA_AllocARMRegister e;
            tmp \<leftarrow> RA_AllocARMRegister e;
            let width = uint (opcode2 AND 31);
            let width = (if width = 0 then 32 else width);
            emit ''add_reg'' [R base, R base, R off_reg, I ASR, I 3];
            emit ''and_immed'' [R off_reg, R off_reg, I 3, I 0];
            emit ''orr64_immed'' [R mask_reg, I 31, I width, I width, I 1];
            emit ''ldr64_offset'' [R base, R tmp, I 0];
            emit ''lslv64'' [R tmp, R tmp, R off_reg];
            emit ''ands64_reg'' [R tmp, R tmp, R mask_reg, I LSL, I 0];
            emit ''lsr64'' [R tmp, R tmp, I (64 - width)];
            emit ''mov_reg'' [R dest, R tmp];
            update_mask \<leftarrow> (if update_mask \<noteq> 0 then do {
                cc \<leftarrow> RA_ModifyCC e;
                update_mask \<leftarrow> EMIT_GetNZ00 e cc update_mask;
                State_Monad.return update_mask
              } else State_Monad.return update_mask);
            RA_FreeARMRegister e tmp;
            RA_FreeARMRegister e mask_reg;
            RA_FreeARMRegister e off_reg;
            State_Monad.return update_mask
          } else State_Monad.return update_mask);
        (if ((opcode2 AND 0x800) \<noteq> 0) \<and> ((opcode2 AND 0x20) \<noteq> 0) then do {
            dest \<leftarrow> RA_MapM68kRegisterForWrite e (uint ((drop_bit 12 opcode2) AND 7));
            off_reg \<leftarrow> RA_CopyFromM68kRegister e (uint ((drop_bit 6 opcode2) AND 7));
            width_reg \<leftarrow> RA_CopyFromM68kRegister e (uint (opcode2 AND 7));
            mask_reg \<leftarrow> RA_AllocARMRegister e;
            tmp \<leftarrow> RA_AllocARMRegister e;
            emit ''add_reg'' [R base, R base, R off_reg, I ASR, I 3];
            emit ''and_immed'' [R off_reg, R off_reg, I 3, I 0];
            emit ''and_immed'' [R width_reg, R width_reg, I 5, I 0];
            emit ''cbnz'' [R width_reg, I 2];
            emit ''mov_immed_u16'' [R width_reg, I 32, I 0];
            emit ''mov_immed_u16'' [R mask_reg, I 1, I 0];
            emit ''lslv64'' [R mask_reg, R mask_reg, R width_reg];
            emit ''sub64_immed'' [R mask_reg, R mask_reg, I 1];
            emit ''rorv64'' [R mask_reg, R mask_reg, R width_reg];
            emit ''ldr64_offset'' [R base, R tmp, I 0];
            emit ''lslv64'' [R tmp, R tmp, R off_reg];
            emit ''ands64_reg'' [R tmp, R tmp, R mask_reg, I LSL, I 0];
            emit ''mov_immed_u16'' [R off_reg, I 64, I 0];
            emit ''sub_reg'' [R width_reg, R off_reg, R width_reg, I LSL, I 0];
            emit ''lsrv64'' [R tmp, R tmp, R width_reg];
            emit ''mov_reg'' [R dest, R tmp];
            (if update_mask \<noteq> 0 then do {
                cc \<leftarrow> RA_ModifyCC e;
                update_mask \<leftarrow> EMIT_GetNZ00 e cc update_mask;
                skip
              } else skip);
            RA_FreeARMRegister e tmp;
            RA_FreeARMRegister e mask_reg;
            RA_FreeARMRegister e width_reg;
            RA_FreeARMRegister e off_reg
          } else skip);
        RA_FreeARMRegister e base;
        State_Monad.return ext_words
      });
    EMIT_AdvancePC e (2 * ((uint ext_words) + 1));
    m68k_ptr_add (uint ext_words)
  }"

definition EMIT_BFEXTS :: "env \<Rightarrow> (int \<Rightarrow> u16) \<Rightarrow> u16 \<Rightarrow> (tstate, unit) state" where
  "EMIT_BFEXTS e m opcode = do {
    update_mask \<leftarrow> SRMask_at e m (- 1);
    let ext_words = (1::u8);
    opcode2 \<leftarrow> BE16_at m 0;
    ext_words \<leftarrow> (if (opcode AND 0x0038) = 0 then do {
        src \<leftarrow> RA_MapM68kRegister e (uint (opcode AND 7));
        (if (opcode2 AND 0x0820) = 0 then do {
            dest \<leftarrow> RA_MapM68kRegister e (uint ((drop_bit 12 opcode2) AND 7));
            let offset = uint ((drop_bit 6 opcode2) AND 0x1f);
            let width = uint (opcode2 AND 0x1f);
            RA_SetDirtyM68kRegister e (uint ((drop_bit 12 opcode2) AND 7));
            (if (offset \<noteq> 0) \<or> (width \<noteq> 0) then do {
                tmp \<leftarrow> RA_AllocARMRegister e;
                emit ''lsl64'' [R tmp, R src, I 32];
                emit ''orr64_reg'' [R tmp, R tmp, R src, I LSL, I 0];
                let width = (if width = 0 then 32 else width);
                emit ''sbfx64'' [R tmp, R tmp, I (64 - (offset + width)), I width];
                emit ''mov_reg'' [R dest, R tmp];
                RA_FreeARMRegister e tmp
              } else do {
                emit ''mov_reg'' [R dest, R src]
              });
            (if update_mask \<noteq> 0 then do {
                cc \<leftarrow> RA_ModifyCC e;
                emit ''cmn_reg'' [I 31, R dest, I LSL, I 0];
                update_mask \<leftarrow> EMIT_GetNZ00 e cc update_mask;
                skip
              } else skip)
          } else if (\<not> ((opcode2 AND 0x800) \<noteq> 0)) \<and> ((opcode2 AND 0x20) \<noteq> 0) then do {
            dest \<leftarrow> RA_MapM68kRegisterForWrite e (uint ((drop_bit 12 opcode2) AND 7));
            tmp \<leftarrow> RA_AllocARMRegister e;
            width_reg \<leftarrow> RA_CopyFromM68kRegister e (uint (opcode2 AND 7));
            mask_reg \<leftarrow> RA_AllocARMRegister e;
            let offset = uint ((drop_bit 6 opcode2) AND 31);
            emit ''lsl64'' [R tmp, R src, I (32 + offset)];
            emit ''orr64_reg'' [R tmp, R tmp, R src, I LSL, I offset];
            emit ''and_immed'' [R width_reg, R width_reg, I 5, I 0];
            emit ''cbnz'' [R width_reg, I 2];
            emit ''mov_immed_u16'' [R width_reg, I 32, I 0];
            emit ''mov_immed_u16'' [R mask_reg, I 1, I 0];
            emit ''lslv64'' [R mask_reg, R mask_reg, R width_reg];
            emit ''sub64_immed'' [R mask_reg, R mask_reg, I 1];
            emit ''rorv64'' [R mask_reg, R mask_reg, R width_reg];
            emit ''ands64_reg'' [R tmp, R tmp, R mask_reg, I LSL, I 0];
            emit ''mov_immed_u16'' [R mask_reg, I 64, I 0];
            emit ''sub_reg'' [R width_reg, R mask_reg, R width_reg, I LSL, I 0];
            emit ''asrv64'' [R tmp, R tmp, R width_reg];
            emit ''mov_reg'' [R dest, R tmp];
            (if update_mask \<noteq> 0 then do {
                cc \<leftarrow> RA_ModifyCC e;
                update_mask \<leftarrow> EMIT_GetNZ00 e cc update_mask;
                skip
              } else skip);
            RA_FreeARMRegister e tmp;
            RA_FreeARMRegister e width_reg;
            RA_FreeARMRegister e mask_reg
          } else if ((opcode2 AND 0x800) \<noteq> 0) \<and> (\<not> ((opcode2 AND 0x20) \<noteq> 0)) then do {
            dest \<leftarrow> RA_MapM68kRegisterForWrite e (uint ((drop_bit 12 opcode2) AND 7));
            off_reg \<leftarrow> RA_CopyFromM68kRegister e (uint ((drop_bit 6 opcode2) AND 7));
            mask_reg \<leftarrow> RA_AllocARMRegister e;
            tmp \<leftarrow> RA_AllocARMRegister e;
            let width = uint (opcode2 AND 31);
            emit ''and_immed'' [R off_reg, R off_reg, I 5, I 0];
            let width = (if width = 0 then 32 else width);
            emit ''orr64_immed'' [R mask_reg, I 31, I width, I width, I 1];
            emit ''lsl64'' [R tmp, R src, I 32];
            emit ''orr64_reg'' [R tmp, R tmp, R src, I LSL, I 0];
            emit ''lslv64'' [R tmp, R tmp, R off_reg];
            emit ''ands64_reg'' [R tmp, R tmp, R mask_reg, I LSL, I 0];
            emit ''asr64'' [R tmp, R tmp, I (64 - width)];
            emit ''mov_reg'' [R dest, R tmp];
            (if update_mask \<noteq> 0 then do {
                cc \<leftarrow> RA_ModifyCC e;
                update_mask \<leftarrow> EMIT_GetNZ00 e cc update_mask;
                skip
              } else skip);
            RA_FreeARMRegister e tmp;
            RA_FreeARMRegister e mask_reg;
            RA_FreeARMRegister e off_reg
          } else if ((opcode2 AND 0x800) \<noteq> 0) \<and> ((opcode2 AND 0x20) \<noteq> 0) then do {
            dest \<leftarrow> RA_MapM68kRegisterForWrite e (uint ((drop_bit 12 opcode2) AND 7));
            off_reg \<leftarrow> RA_CopyFromM68kRegister e (uint ((drop_bit 6 opcode2) AND 7));
            width_reg \<leftarrow> RA_CopyFromM68kRegister e (uint (opcode2 AND 7));
            mask_reg \<leftarrow> RA_AllocARMRegister e;
            tmp \<leftarrow> RA_AllocARMRegister e;
            emit ''and_immed'' [R off_reg, R off_reg, I 5, I 0];
            emit ''and_immed'' [R width_reg, R width_reg, I 5, I 0];
            emit ''cbnz'' [R width_reg, I 2];
            emit ''mov_immed_u16'' [R width_reg, I 32, I 0];
            emit ''mov_immed_u16'' [R mask_reg, I 1, I 0];
            emit ''lslv64'' [R mask_reg, R mask_reg, R width_reg];
            emit ''sub64_immed'' [R mask_reg, R mask_reg, I 1];
            emit ''rorv64'' [R mask_reg, R mask_reg, R width_reg];
            emit ''lsl64'' [R tmp, R src, I 32];
            emit ''orr64_reg'' [R tmp, R tmp, R src, I LSL, I 0];
            emit ''lslv64'' [R tmp, R tmp, R off_reg];
            emit ''ands64_reg'' [R tmp, R tmp, R mask_reg, I LSL, I 0];
            emit ''mov_immed_u16'' [R off_reg, I 64, I 0];
            emit ''sub_reg'' [R width_reg, R off_reg, R width_reg, I LSL, I 0];
            emit ''asrv64'' [R tmp, R tmp, R width_reg];
            emit ''mov_reg'' [R dest, R tmp];
            (if update_mask \<noteq> 0 then do {
                cc \<leftarrow> RA_ModifyCC e;
                update_mask \<leftarrow> EMIT_GetNZ00 e cc update_mask;
                skip
              } else skip);
            RA_FreeARMRegister e tmp;
            RA_FreeARMRegister e mask_reg;
            RA_FreeARMRegister e width_reg;
            RA_FreeARMRegister e off_reg
          } else skip);
        State_Monad.return ext_words
      } else do {
        let base = Unassigned;
        (base, ext_words) \<leftarrow> EMIT_LoadFromEffectiveAddress e m 0 base (opcode AND 0x3f) ext_words 0;
        (if (\<not> ((opcode2 AND 0x800) \<noteq> 0)) \<and> (\<not> ((opcode2 AND 0x20) \<noteq> 0)) then do {
            dest \<leftarrow> RA_MapM68kRegisterForWrite e (uint ((drop_bit 12 opcode2) AND 7));
            tmp \<leftarrow> RA_AllocARMRegister e;
            let offset = uint ((drop_bit 6 opcode2) AND 31);
            let width = uint (opcode2 AND 31);
            let width = (if width = 0 then 32 else width);
            emit ''ldr64_offset'' [R base, R tmp, I 0];
            emit ''sbfx64'' [R tmp, R tmp, I ((64 - offset) - width), I width];
            emit ''mov_reg'' [R dest, R tmp];
            (if update_mask \<noteq> 0 then do {
                cc \<leftarrow> RA_ModifyCC e;
                emit ''cmn64_reg'' [I 31, R tmp, I LSL, I (64 - width)];
                update_mask \<leftarrow> EMIT_GetNZ00 e cc update_mask;
                skip
              } else skip);
            RA_FreeARMRegister e tmp
          } else if (\<not> ((opcode2 AND 0x800) \<noteq> 0)) \<and> ((opcode2 AND 0x20) \<noteq> 0) then do {
            dest \<leftarrow> RA_MapM68kRegisterForWrite e (uint ((drop_bit 12 opcode2) AND 7));
            tmp \<leftarrow> RA_AllocARMRegister e;
            width_reg \<leftarrow> RA_CopyFromM68kRegister e (uint (opcode2 AND 7));
            mask_reg \<leftarrow> RA_AllocARMRegister e;
            let offset = uint ((drop_bit 6 opcode2) AND 31);
            emit ''ldr64_offset'' [R base, R tmp, I 0];
            (if offset \<noteq> 0 then do {
                emit ''lsl64'' [R tmp, R tmp, I offset]
              } else skip);
            emit ''and_immed'' [R width_reg, R width_reg, I 5, I 0];
            emit ''cbnz'' [R width_reg, I 2];
            emit ''mov_immed_u16'' [R width_reg, I 32, I 0];
            emit ''mov_immed_u16'' [R mask_reg, I 1, I 0];
            emit ''lslv64'' [R mask_reg, R mask_reg, R width_reg];
            emit ''sub64_immed'' [R mask_reg, R mask_reg, I 1];
            emit ''rorv64'' [R mask_reg, R mask_reg, R width_reg];
            emit ''ands64_reg'' [R tmp, R tmp, R mask_reg, I LSL, I 0];
            emit ''mov_immed_u16'' [R mask_reg, I 64, I 0];
            emit ''sub_reg'' [R width_reg, R mask_reg, R width_reg, I LSL, I 0];
            emit ''asrv64'' [R tmp, R tmp, R width_reg];
            emit ''mov_reg'' [R dest, R tmp];
            (if update_mask \<noteq> 0 then do {
                cc \<leftarrow> RA_ModifyCC e;
                update_mask \<leftarrow> EMIT_GetNZ00 e cc update_mask;
                skip
              } else skip);
            RA_FreeARMRegister e tmp;
            RA_FreeARMRegister e width_reg;
            RA_FreeARMRegister e mask_reg
          } else if ((opcode2 AND 0x800) \<noteq> 0) \<and> (\<not> ((opcode2 AND 0x20) \<noteq> 0)) then do {
            dest \<leftarrow> RA_MapM68kRegisterForWrite e (uint ((drop_bit 12 opcode2) AND 7));
            off_reg \<leftarrow> RA_CopyFromM68kRegister e (uint ((drop_bit 6 opcode2) AND 7));
            mask_reg \<leftarrow> RA_AllocARMRegister e;
            tmp \<leftarrow> RA_AllocARMRegister e;
            let width = uint (opcode2 AND 31);
            let width = (if width = 0 then 32 else width);
            emit ''add_reg'' [R base, R base, R off_reg, I ASR, I 3];
            emit ''and_immed'' [R off_reg, R off_reg, I 3, I 0];
            emit ''orr64_immed'' [R mask_reg, I 31, I width, I width, I 1];
            emit ''ldr64_offset'' [R base, R tmp, I 0];
            emit ''lslv64'' [R tmp, R tmp, R off_reg];
            emit ''ands64_reg'' [R tmp, R tmp, R mask_reg, I LSL, I 0];
            emit ''asr64'' [R tmp, R tmp, I (64 - width)];
            emit ''mov_reg'' [R dest, R tmp];
            (if update_mask \<noteq> 0 then do {
                cc \<leftarrow> RA_ModifyCC e;
                update_mask \<leftarrow> EMIT_GetNZ00 e cc update_mask;
                skip
              } else skip);
            RA_FreeARMRegister e tmp;
            RA_FreeARMRegister e mask_reg;
            RA_FreeARMRegister e off_reg
          } else if ((opcode2 AND 0x800) \<noteq> 0) \<and> ((opcode2 AND 0x20) \<noteq> 0) then do {
            dest \<leftarrow> RA_MapM68kRegisterForWrite e (uint ((drop_bit 12 opcode2) AND 7));
            off_reg \<leftarrow> RA_CopyFromM68kRegister e (uint ((drop_bit 6 opcode2) AND 7));
            width_reg \<leftarrow> RA_CopyFromM68kRegister e (uint (opcode2 AND 7));
            mask_reg \<leftarrow> RA_AllocARMRegister e;
            tmp \<leftarrow> RA_AllocARMRegister e;
            emit ''add_reg'' [R base, R base, R off_reg, I ASR, I 3];
            emit ''and_immed'' [R off_reg, R off_reg, I 3, I 0];
            emit ''and_immed'' [R width_reg, R width_reg, I 5, I 0];
            emit ''cbnz'' [R width_reg, I 2];
            emit ''mov_immed_u16'' [R width_reg, I 32, I 0];
            emit ''mov_immed_u16'' [R mask_reg, I 1, I 0];
            emit ''lslv64'' [R mask_reg, R mask_reg, R width_reg];
            emit ''sub64_immed'' [R mask_reg, R mask_reg, I 1];
            emit ''rorv64'' [R mask_reg, R mask_reg, R width_reg];
            emit ''ldr64_offset'' [R base, R tmp, I 0];
            emit ''lslv64'' [R tmp, R tmp, R off_reg];
            emit ''ands64_reg'' [R tmp, R tmp, R mask_reg, I LSL, I 0];
            emit ''mov_immed_u16'' [R off_reg, I 64, I 0];
            emit ''sub_reg'' [R width_reg, R off_reg, R width_reg, I LSL, I 0];
            emit ''asrv64'' [R tmp, R tmp, R width_reg];
            emit ''mov_reg'' [R dest, R tmp];
            (if update_mask \<noteq> 0 then do {
                cc \<leftarrow> RA_ModifyCC e;
                update_mask \<leftarrow> EMIT_GetNZ00 e cc update_mask;
                skip
              } else skip);
            RA_FreeARMRegister e tmp;
            RA_FreeARMRegister e mask_reg;
            RA_FreeARMRegister e width_reg;
            RA_FreeARMRegister e off_reg
          } else skip);
        RA_FreeARMRegister e base;
        State_Monad.return ext_words
      });
    EMIT_AdvancePC e (2 * ((uint ext_words) + 1));
    m68k_ptr_add (uint ext_words)
  }"

definition EMIT_BFFFO_reg :: "env \<Rightarrow> (int \<Rightarrow> u16) \<Rightarrow> u16 \<Rightarrow> (tstate, unit) state" where
  "EMIT_BFFFO_reg e m opcode = do {
    update_mask \<leftarrow> SRMask_at e m (- 1);
    let ext_words = (1::u8);
    opcode2 \<leftarrow> BE16_at m 0;
    src \<leftarrow> RA_MapM68kRegister e (uint (opcode AND 7));
    (if (opcode2 AND 0x0820) = 0 then do {
        let offset = uint ((drop_bit 6 opcode2) AND 0x1f);
        let width = uint (opcode2 AND 0x1f);
        dest \<leftarrow> RA_MapM68kRegisterForWrite e (uint ((drop_bit 12 opcode2) AND 7));
        (if (offset \<noteq> 0) \<or> (width \<noteq> 0) then do {
            tmp \<leftarrow> RA_AllocARMRegister e;
            emit ''lsl64'' [R tmp, R src, I (32 + offset)];
            emit ''orr64_reg'' [R tmp, R tmp, R src, I LSL, I offset];
            let width = (if width = 0 then 32 else width);
            emit ''ands64_immed'' [R tmp, R tmp, I width, I width, I 1];
            emit ''orr64_immed'' [R tmp, R tmp, I (64 - width), I 0, I 1];
            emit ''clz64'' [R dest, R tmp];
            emit ''add_immed'' [R dest, R dest, I offset];
            (if update_mask \<noteq> 0 then do {
                cc \<leftarrow> RA_ModifyCC e;
                update_mask \<leftarrow> EMIT_GetNZ00 e cc update_mask;
                skip
              } else skip);
            RA_FreeARMRegister e tmp
          } else do {
            (if update_mask \<noteq> 0 then do {
                cc \<leftarrow> RA_ModifyCC e;
                emit ''cmn_reg'' [I 31, R src, I LSL, I 0];
                emit ''clz'' [R dest, R src];
                update_mask \<leftarrow> EMIT_GetNZ00 e cc update_mask;
                skip
              } else skip)
          })
      } else if (\<not> ((opcode2 AND 0x800) \<noteq> 0)) \<and> ((opcode2 AND 0x20) \<noteq> 0) then do {
        tmp \<leftarrow> RA_AllocARMRegister e;
        dest \<leftarrow> RA_MapM68kRegisterForWrite e (uint ((drop_bit 12 opcode2) AND 7));
        width_reg \<leftarrow> RA_CopyFromM68kRegister e (uint (opcode2 AND 7));
        mask_reg \<leftarrow> RA_AllocARMRegister e;
        let offset = uint ((drop_bit 6 opcode2) AND 31);
        emit ''lsl64'' [R tmp, R src, I (32 + offset)];
        emit ''orr64_reg'' [R tmp, R tmp, R src, I LSL, I offset];
        emit ''and_immed'' [R width_reg, R width_reg, I 5, I 0];
        emit ''cbnz'' [R width_reg, I 2];
        emit ''mov_immed_u16'' [R width_reg, I 32, I 0];
        emit ''mov_immed_u16'' [R mask_reg, I 1, I 0];
        emit ''lslv64'' [R mask_reg, R mask_reg, R width_reg];
        emit ''sub64_immed'' [R mask_reg, R mask_reg, I 1];
        emit ''rorv64'' [R mask_reg, R mask_reg, R width_reg];
        emit ''ands64_reg'' [R tmp, R tmp, R mask_reg, I LSL, I 0];
        emit ''orn64_reg'' [R tmp, R tmp, R mask_reg, I LSL, I 0];
        emit ''clz64'' [R dest, R tmp];
        emit ''add_immed'' [R dest, R dest, I offset];
        (if update_mask \<noteq> 0 then do {
            cc \<leftarrow> RA_ModifyCC e;
            update_mask \<leftarrow> EMIT_GetNZ00 e cc update_mask;
            skip
          } else skip);
        RA_FreeARMRegister e tmp;
        RA_FreeARMRegister e width_reg;
        RA_FreeARMRegister e mask_reg
      } else if ((opcode2 AND 0x800) \<noteq> 0) \<and> (\<not> ((opcode2 AND 0x20) \<noteq> 0)) then do {
        off_reg \<leftarrow> RA_AllocARMRegister e;
        off_orig \<leftarrow> (if ((drop_bit 6 opcode2) AND 7) = ((drop_bit 12 opcode2) AND 7) then RA_CopyFromM68kRegister e (uint ((drop_bit 6 opcode2) AND 7)) else RA_MapM68kRegister e (uint ((drop_bit 6 opcode2) AND 7)));
        dest \<leftarrow> RA_MapM68kRegisterForWrite e (uint ((drop_bit 12 opcode2) AND 7));
        mask_reg \<leftarrow> RA_AllocARMRegister e;
        tmp \<leftarrow> RA_AllocARMRegister e;
        let width = uint (opcode2 AND 31);
        emit ''and_immed'' [R off_reg, R off_orig, I 5, I 0];
        let width = (if width = 0 then 32 else width);
        emit ''orr64_immed'' [R mask_reg, I 31, I width, I width, I 1];
        emit ''lsl64'' [R tmp, R src, I 32];
        emit ''orr64_reg'' [R tmp, R tmp, R src, I LSL, I 0];
        emit ''lslv64'' [R tmp, R tmp, R off_reg];
        emit ''ands64_reg'' [R tmp, R tmp, R mask_reg, I LSL, I 0];
        emit ''orn64_reg'' [R tmp, R tmp, R mask_reg, I LSL, I 0];
        emit ''clz64'' [R dest, R tmp];
        emit ''add_reg'' [R dest, R dest, R off_orig, I LSL, I 0];
        (if update_mask \<noteq> 0 then do {
            cc \<leftarrow> RA_ModifyCC e;
            update_mask \<leftarrow> EMIT_GetNZ00 e cc update_mask;
            skip
          } else skip);
        RA_FreeARMRegister e tmp;
        RA_FreeARMRegister e mask_reg;
        RA_FreeARMRegister e off_reg;
        RA_FreeARMRegister e off_orig
      } else if ((opcode2 AND 0x800) \<noteq> 0) \<and> ((opcode2 AND 0x20) \<noteq> 0) then do {
        off_reg \<leftarrow> RA_AllocARMRegister e;
        dest \<leftarrow> RA_MapM68kRegisterForWrite e (uint ((drop_bit 12 opcode2) AND 7));
        off_orig \<leftarrow> (if ((drop_bit 6 opcode2) AND 7) = ((drop_bit 12 opcode2) AND 7) then RA_CopyFromM68kRegister e (uint ((drop_bit 6 opcode2) AND 7)) else RA_MapM68kRegister e (uint ((drop_bit 6 opcode2) AND 7)));
        width_reg \<leftarrow> RA_CopyFromM68kRegister e (uint (opcode2 AND 7));
        mask_reg \<leftarrow> RA_AllocARMRegister e;
        tmp \<leftarrow> RA_AllocARMRegister e;
        emit ''and_immed'' [R off_reg, R off_orig, I 5, I 0];
        emit ''and_immed'' [R width_reg, R width_reg, I 5, I 0];
        emit ''cbnz'' [R width_reg, I 2];
        emit ''mov_immed_u16'' [R width_reg, I 32, I 0];
        emit ''mov_immed_u16'' [R mask_reg, I 1, I 0];
        emit ''lslv64'' [R mask_reg, R mask_reg, R width_reg];
        emit ''sub64_immed'' [R mask_reg, R mask_reg, I 1];
        emit ''rorv64'' [R mask_reg, R mask_reg, R width_reg];
        emit ''lsl64'' [R tmp, R src, I 32];
        emit ''orr64_reg'' [R tmp, R tmp, R src, I LSL, I 0];
        emit ''lslv64'' [R tmp, R tmp, R off_reg];
        emit ''ands64_reg'' [R tmp, R tmp, R mask_reg, I LSL, I 0];
        emit ''orn64_reg'' [R tmp, R tmp, R mask_reg, I LSL, I 0];
        emit ''clz64'' [R dest, R tmp];
        emit ''add_reg'' [R dest, R dest, R off_orig, I LSL, I 0];
        (if update_mask \<noteq> 0 then do {
            cc \<leftarrow> RA_ModifyCC e;
            update_mask \<leftarrow> EMIT_GetNZ00 e cc update_mask;
            skip
          } else skip);
        RA_FreeARMRegister e tmp;
        RA_FreeARMRegister e mask_reg;
        RA_FreeARMRegister e width_reg;
        RA_FreeARMRegister e off_reg;
        RA_FreeARMRegister e off_orig
      } else skip);
    EMIT_AdvancePC e (2 * ((uint ext_words) + 1));
    m68k_ptr_add (uint ext_words)
  }"

definition EMIT_BFFFO :: "env \<Rightarrow> (int \<Rightarrow> u16) \<Rightarrow> u16 \<Rightarrow> (tstate, unit) state" where
  "EMIT_BFFFO e m opcode = do {
    update_mask \<leftarrow> SRMask_at e m (- 1);
    let ext_words = (1::u8);
    opcode2 \<leftarrow> BE16_at m 0;
    let base = Unassigned;
    (base, ext_words) \<leftarrow> EMIT_LoadFromEffectiveAddress e m 0 base (opcode AND 0x3f) ext_words 0;
    (if (\<not> ((opcode2 AND 0x800) \<noteq> 0)) \<and> (\<not> ((opcode2 AND 0x20) \<noteq> 0)) then do {
        tmp \<leftarrow> RA_AllocARMRegister e;
        dest \<leftarrow> RA_MapM68kRegisterForWrite e (uint ((drop_bit 12 opcode2) AND 7));
        let offset = uint ((drop_bit 6 opcode2) AND 31);
        let width = uint (opcode2 AND 31);
        let width = (if width = 0 then 32 else width);
        emit ''ldr64_offset'' [R base, R tmp, I 0];
        (if offset \<noteq> 0 then do {
            emit ''lsl64'' [R tmp, R tmp, I offset]
          } else skip);
        emit ''ands64_immed'' [R tmp, R tmp, I width, I width, I 1];
        emit ''orr64_immed'' [R tmp, R tmp, I (64 - width), I 0, I 1];
        emit ''clz64'' [R dest, R tmp];
        emit ''add_immed'' [R dest, R dest, I offset];
        (if update_mask \<noteq> 0 then do {
            cc \<leftarrow> RA_ModifyCC e;
            update_mask \<leftarrow> EMIT_GetNZ00 e cc update_mask;
            skip
          } else skip);
        RA_FreeARMRegister e tmp
      } else if (\<not> ((opcode2 AND 0x800) \<noteq> 0)) \<and> ((opcode2 AND 0x20) \<noteq> 0) then do {
        tmp \<leftarrow> RA_AllocARMRegister e;
        dest \<leftarrow> RA_MapM68kRegisterForWrite e (uint ((drop_bit 12 opcode2) AND 7));
        width_reg \<leftarrow> RA_CopyFromM68kRegister e (uint (opcode2 AND 7));
        mask_reg \<leftarrow> RA_AllocARMRegister e;
        let offset = uint ((drop_bit 6 opcode2) AND 31);
        emit ''ldr64_offset'' [R base, R tmp, I 0];
        (if offset \<noteq> 0 then do {
            emit ''lsl64'' [R tmp, R tmp, I offset]
          } else skip);
        emit ''and_immed'' [R width_reg, R width_reg, I 5, I 0];
        emit ''cbnz'' [R width_reg, I 2];
        emit ''mov_immed_u16'' [R width_reg, I 32, I 0];
        emit ''mov_immed_u16'' [R mask_reg, I 1, I 0];
        emit ''lslv64'' [R mask_reg, R mask_reg, R width_reg];
        emit ''sub64_immed'' [R mask_reg, R mask_reg, I 1];
        emit ''rorv64'' [R mask_reg, R mask_reg, R width_reg];
        emit ''ands64_reg'' [R tmp, R tmp, R mask_reg, I LSL, I 0];
        emit ''orn64_reg'' [R tmp, R tmp, R mask_reg, I LSL, I 0];
        emit ''clz64'' [R dest, R tmp];
        emit ''add_immed'' [R dest, R dest, I offset];
        (if update_mask \<noteq> 0 then do {
            cc \<leftarrow> RA_ModifyCC e;
            update_mask \<leftarrow> EMIT_GetNZ00 e cc update_mask;
            skip
          } else skip);
        RA_FreeARMRegister e tmp;
        RA_FreeARMRegister e width_reg;
        RA_FreeARMRegister e mask_reg
      } else if ((opcode2 AND 0x800) \<noteq> 0) \<and> (\<not> ((opcode2 AND 0x20) \<noteq> 0)) then do {
        off_reg \<leftarrow> RA_CopyFromM68kRegister e (uint ((drop_bit 6 opcode2) AND 7));
        dest \<leftarrow> RA_MapM68kRegisterForWrite e (uint ((drop_bit 12 opcode2) AND 7));
        off_orig \<leftarrow> (if ((drop_bit 6 opcode2) AND 7) = ((drop_bit 12 opcode2) AND 7) then RA_CopyFromM68kRegister e (uint ((drop_bit 6 opcode2) AND 7)) else RA_MapM68kRegister e (uint ((drop_bit 6 opcode2) AND 7)));
        mask_reg \<leftarrow> RA_AllocARMRegister e;
        tmp \<leftarrow> RA_AllocARMRegister e;
        let width = uint (opcode2 AND 31);
        let width = (if width = 0 then 32 else width);
        emit ''add_reg'' [R base, R base, R off_reg, I ASR, I 3];
        emit ''and_immed'' [R off_reg, R off_reg, I 3, I 0];
        emit ''orr64_immed'' [R mask_reg, I 31, I width, I width, I 1];
        emit ''ldr64_offset'' [R base, R tmp, I 0];
        emit ''lslv64'' [R tmp, R tmp, R off_reg];
        emit ''ands64_reg'' [R tmp, R tmp, R mask_reg, I LSL, I 0];
        emit ''orn64_reg'' [R tmp, R tmp, R mask_reg, I LSL, I 0];
        emit ''clz64'' [R dest, R tmp];
        emit ''add_reg'' [R dest, R dest, R off_orig, I LSL, I 0];
        (if update_mask \<noteq> 0 then do {
            cc \<leftarrow> RA_ModifyCC e;
            update_mask \<leftarrow> EMIT_GetNZ00 e cc update_mask;
            skip
          } else skip);
        RA_FreeARMRegister e tmp;
        RA_FreeARMRegister e mask_reg;
        RA_FreeARMRegister e off_reg;
        RA_FreeARMRegister e off_orig
      } else if ((opcode2 AND 0x800) \<noteq> 0) \<and> ((opcode2 AND 0x20) \<noteq> 0) then do {
        off_reg \<leftarrow> RA_CopyFromM68kRegister e (uint ((drop_bit 6 opcode2) AND 7));
        dest \<leftarrow> RA_MapM68kRegisterForWrite e (uint ((drop_bit 12 opcode2) AND 7));
        off_orig \<leftarrow> (if ((drop_bit 6 opcode2) AND 7) = ((drop_bit 12 opcode2) AND 7) then RA_CopyFromM68kRegister e (uint ((drop_bit 6 opcode2) AND 7)) else RA_MapM68kRegister e (uint ((drop_bit 6 opcode2) AND 7)));
        width_reg \<leftarrow> RA_CopyFromM68kRegister e (uint (opcode2 AND 7));
        mask_reg \<leftarrow> RA_AllocARMRegister e;
        tmp \<leftarrow> RA_AllocARMRegister e;
        emit ''add_reg'' [R base, R base, R off_reg, I ASR, I 3];
        emit ''and_immed'' [R off_reg, R off_reg, I 3, I 0];
        emit ''and_immed'' [R width_reg, R width_reg, I 5, I 0];
        emit ''cbnz'' [R width_reg, I 2];
        emit ''mov_immed_u16'' [R width_reg, I 32, I 0];
        emit ''mov_immed_u16'' [R mask_reg, I 1, I 0];
        emit ''lslv64'' [R mask_reg, R mask_reg, R width_reg];
        emit ''sub64_immed'' [R mask_reg, R mask_reg, I 1];
        emit ''rorv64'' [R mask_reg, R mask_reg, R width_reg];
        emit ''ldr64_offset'' [R base, R tmp, I 0];
        emit ''lslv64'' [R tmp, R tmp, R off_reg];
        emit ''ands64_reg'' [R tmp, R tmp, R mask_reg, I LSL, I 0];
        emit ''orn64_reg'' [R tmp, R tmp, R mask_reg, I LSL, I 0];
        emit ''clz64'' [R dest, R tmp];
        emit ''add_reg'' [R dest, R dest, R off_orig, I LSL, I 0];
        (if update_mask \<noteq> 0 then do {
            cc \<leftarrow> RA_ModifyCC e;
            update_mask \<leftarrow> EMIT_GetNZ00 e cc update_mask;
            skip
          } else skip);
        RA_FreeARMRegister e tmp;
        RA_FreeARMRegister e mask_reg;
        RA_FreeARMRegister e width_reg;
        RA_FreeARMRegister e off_reg;
        RA_FreeARMRegister e off_orig
      } else skip);
    RA_FreeARMRegister e base;
    EMIT_AdvancePC e (2 * ((uint ext_words) + 1));
    m68k_ptr_add (uint ext_words)
  }"

definition EMIT_BFCHG_reg :: "env \<Rightarrow> (int \<Rightarrow> u16) \<Rightarrow> u16 \<Rightarrow> (tstate, unit) state" where
  "EMIT_BFCHG_reg e m opcode = do {
    update_mask \<leftarrow> SRMask_at e m (- 1);
    let ext_words = (1::u8);
    opcode2 \<leftarrow> BE16_at m 0;
    src \<leftarrow> RA_MapM68kRegister e (uint (opcode AND 7));
    RA_SetDirtyM68kRegister e (uint (opcode AND 7));
    (if (opcode2 AND 0x0820) = 0 then do {
        let offset = uint ((drop_bit 6 opcode2) AND 0x1f);
        let width = uint (opcode2 AND 0x1f);
        (if (offset \<noteq> 0) \<or> (width \<noteq> 0) then do {
            tmp \<leftarrow> RA_AllocARMRegister e;
            let width = (if width = 0 then 32 else width);
            (if update_mask \<noteq> 0 then do {
                cc \<leftarrow> RA_ModifyCC e;
                emit ''ror'' [R tmp, R src, I (31 AND (32 - offset))];
                (if width \<noteq> 32 then do {
                    emit ''ands_immed'' [I 31, R tmp, I width, I width]
                  } else do {
                    emit ''cmn_reg'' [I 31, R tmp, I LSL, I 0]
                  });
                update_mask \<leftarrow> EMIT_GetNZ00 e cc update_mask;
                skip
              } else skip);
            (if width \<noteq> 32 then do {
                emit ''eor_immed'' [R src, R src, I width, I (31 AND (width + offset))]
              } else do {
                emit ''mvn_reg'' [R src, R src, I LSL, I 0]
              });
            RA_FreeARMRegister e tmp
          } else do {
            (if update_mask \<noteq> 0 then do {
                cc \<leftarrow> RA_ModifyCC e;
                emit ''cmn_reg'' [I 31, R src, I LSL, I 0];
                update_mask \<leftarrow> EMIT_GetNZ00 e cc update_mask;
                skip
              } else skip);
            emit ''mvn_reg'' [R src, R src, I LSL, I 0]
          })
      } else if (\<not> ((opcode2 AND 0x800) \<noteq> 0)) \<and> ((opcode2 AND 0x20) \<noteq> 0) then do {
        tmp \<leftarrow> RA_AllocARMRegister e;
        width_reg \<leftarrow> RA_CopyFromM68kRegister e (uint (opcode2 AND 7));
        mask_reg \<leftarrow> RA_AllocARMRegister e;
        let offset = uint ((drop_bit 6 opcode2) AND 31);
        emit ''and_immed'' [R width_reg, R width_reg, I 5, I 0];
        emit ''cbnz'' [R width_reg, I 2];
        emit ''mov_immed_u16'' [R width_reg, I 32, I 0];
        emit ''mov_immed_u16'' [R mask_reg, I 1, I 0];
        emit ''lslv64'' [R mask_reg, R mask_reg, R width_reg];
        emit ''sub64_immed'' [R mask_reg, R mask_reg, I 1];
        emit ''rorv'' [R mask_reg, R mask_reg, R width_reg];
        (if update_mask \<noteq> 0 then do {
            testreg \<leftarrow> RA_AllocARMRegister e;
            cc \<leftarrow> RA_ModifyCC e;
            (if offset \<noteq> 0 then do {
                emit ''ror'' [R testreg, R src, I (31 AND (32 - offset))];
                emit ''ands_reg'' [I 31, R testreg, R mask_reg, I LSL, I 0]
              } else do {
                emit ''ands_reg'' [I 31, R src, R mask_reg, I LSL, I 0]
              });
            update_mask \<leftarrow> EMIT_GetNZ00 e cc update_mask;
            RA_FreeARMRegister e testreg
          } else skip);
        (if offset \<noteq> 0 then do {
            emit ''eor_reg'' [R src, R src, R mask_reg, I ROR, I offset]
          } else do {
            emit ''eor_reg'' [R src, R src, R mask_reg, I LSL, I 0]
          });
        RA_FreeARMRegister e tmp;
        RA_FreeARMRegister e width_reg;
        RA_FreeARMRegister e mask_reg
      } else if ((opcode2 AND 0x800) \<noteq> 0) \<and> (\<not> ((opcode2 AND 0x20) \<noteq> 0)) then do {
        off_reg \<leftarrow> RA_CopyFromM68kRegister e (uint ((drop_bit 6 opcode2) AND 7));
        mask_reg \<leftarrow> RA_AllocARMRegister e;
        tmp \<leftarrow> RA_AllocARMRegister e;
        let width = uint (opcode2 AND 31);
        emit ''and_immed'' [R off_reg, R off_reg, I 5, I 0];
        let width = (if width = 0 then 32 else width);
        (if width \<noteq> 32 then do {
            emit ''orr_immed'' [R mask_reg, I 31, I width, I width]
          } else skip);
        (if update_mask \<noteq> 0 then do {
            testreg \<leftarrow> RA_AllocARMRegister e;
            cc \<leftarrow> RA_ModifyCC e;
            emit ''mov_immed_u16'' [R testreg, I 32, I 0];
            emit ''sub_reg'' [R testreg, R testreg, R off_reg, I LSL, I 0];
            emit ''rorv'' [R testreg, R src, R testreg];
            (if width \<noteq> 32 then do {
                emit ''ands_immed'' [I 31, R testreg, I width, I width]
              } else do {
                emit ''cmn_reg'' [I 31, R testreg, I LSL, I 0]
              });
            update_mask \<leftarrow> EMIT_GetNZ00 e cc update_mask;
            RA_FreeARMRegister e testreg
          } else skip);
        (if width \<noteq> 32 then do {
            emit ''rorv'' [R mask_reg, R mask_reg, R off_reg];
            emit ''eor_reg'' [R src, R src, R mask_reg, I LSL, I 0]
          } else do {
            emit ''mvn_reg'' [R src, R src, I LSL, I 0]
          });
        RA_FreeARMRegister e tmp;
        RA_FreeARMRegister e mask_reg;
        RA_FreeARMRegister e off_reg
      } else if ((opcode2 AND 0x800) \<noteq> 0) \<and> ((opcode2 AND 0x20) \<noteq> 0) then do {
        off_reg \<leftarrow> RA_CopyFromM68kRegister e (uint ((drop_bit 6 opcode2) AND 7));
        width_reg \<leftarrow> RA_CopyFromM68kRegister e (uint (opcode2 AND 7));
        mask_reg \<leftarrow> RA_AllocARMRegister e;
        tmp \<leftarrow> RA_AllocARMRegister e;
        emit ''and_immed'' [R off_reg, R off_reg, I 5, I 0];
        emit ''and_immed'' [R width_reg, R width_reg, I 5, I 0];
        emit ''cbnz'' [R width_reg, I 2];
        emit ''mov_immed_u16'' [R width_reg, I 32, I 0];
        emit ''mov_immed_u16'' [R mask_reg, I 1, I 0];
        emit ''lslv64'' [R mask_reg, R mask_reg, R width_reg];
        emit ''sub64_immed'' [R mask_reg, R mask_reg, I 1];
        emit ''rorv'' [R mask_reg, R mask_reg, R width_reg];
        (if update_mask \<noteq> 0 then do {
            testreg \<leftarrow> RA_AllocARMRegister e;
            cc \<leftarrow> RA_ModifyCC e;
            emit ''mov_immed_u16'' [R testreg, I 32, I 0];
            emit ''sub_reg'' [R testreg, R testreg, R off_reg, I LSL, I 0];
            emit ''rorv'' [R testreg, R src, R testreg];
            emit ''ands_reg'' [I 31, R testreg, R mask_reg, I LSL, I 0];
            update_mask \<leftarrow> EMIT_GetNZ00 e cc update_mask;
            RA_FreeARMRegister e testreg
          } else skip);
        emit ''rorv'' [R mask_reg, R mask_reg, R off_reg];
        emit ''eor_reg'' [R src, R src, R mask_reg, I LSL, I 0];
        RA_FreeARMRegister e tmp;
        RA_FreeARMRegister e mask_reg;
        RA_FreeARMRegister e width_reg;
        RA_FreeARMRegister e off_reg
      } else skip);
    EMIT_AdvancePC e (2 * ((uint ext_words) + 1));
    m68k_ptr_add (uint ext_words)
  }"

definition EMIT_BFCHG :: "env \<Rightarrow> (int \<Rightarrow> u16) \<Rightarrow> u16 \<Rightarrow> (tstate, unit) state" where
  "EMIT_BFCHG e m opcode = do {
    update_mask \<leftarrow> SRMask_at e m (- 1);
    let ext_words = (1::u8);
    opcode2 \<leftarrow> BE16_at m 0;
    let base = Unassigned;
    (base, ext_words) \<leftarrow> EMIT_LoadFromEffectiveAddress e m 0 base (opcode AND 0x3f) ext_words 0;
    (if (\<not> ((opcode2 AND 0x800) \<noteq> 0)) \<and> (\<not> ((opcode2 AND 0x20) \<noteq> 0)) then do {
        tmp \<leftarrow> RA_AllocARMRegister e;
        let offset = uint ((drop_bit 6 opcode2) AND 31);
        let width = uint (opcode2 AND 31);
        let width = (if width = 0 then 32 else width);
        emit ''ldr64_offset'' [R base, R tmp, I 0];
        (if update_mask \<noteq> 0 then do {
            cc \<leftarrow> RA_ModifyCC e;
            testreg \<leftarrow> RA_AllocARMRegister e;
            (if offset \<noteq> 0 then do {
                emit ''lsl64'' [R testreg, R tmp, I offset];
                emit ''ands64_immed'' [I 31, R testreg, I width, I width, I 1]
              } else do {
                emit ''ands64_immed'' [I 31, R tmp, I width, I width, I 1]
              });
            update_mask \<leftarrow> EMIT_GetNZ00 e cc update_mask;
            RA_FreeARMRegister e testreg
          } else skip);
        emit ''eor64_immed'' [R tmp, R tmp, I width, I (width + offset), I 1];
        emit ''str64_offset'' [R base, R tmp, I 0];
        RA_FreeARMRegister e tmp
      } else if (\<not> ((opcode2 AND 0x800) \<noteq> 0)) \<and> ((opcode2 AND 0x20) \<noteq> 0) then do {
        tmp \<leftarrow> RA_AllocARMRegister e;
        width_reg \<leftarrow> RA_CopyFromM68kRegister e (uint (opcode2 AND 7));
        mask_reg \<leftarrow> RA_AllocARMRegister e;
        let offset = uint ((drop_bit 6 opcode2) AND 31);
        emit ''ldr64_offset'' [R base, R tmp, I 0];
        emit ''and_immed'' [R width_reg, R width_reg, I 5, I 0];
        emit ''cbnz'' [R width_reg, I 2];
        emit ''mov_immed_u16'' [R width_reg, I 32, I 0];
        emit ''mov_immed_u16'' [R mask_reg, I 1, I 0];
        emit ''lslv64'' [R mask_reg, R mask_reg, R width_reg];
        emit ''sub64_immed'' [R mask_reg, R mask_reg, I 1];
        emit ''rorv64'' [R mask_reg, R mask_reg, R width_reg];
        (if update_mask \<noteq> 0 then do {
            testreg \<leftarrow> RA_AllocARMRegister e;
            cc \<leftarrow> RA_ModifyCC e;
            (if offset \<noteq> 0 then do {
                emit ''lsl64'' [R testreg, R tmp, I offset];
                emit ''ands64_reg'' [I 31, R testreg, R mask_reg, I LSL, I 0]
              } else do {
                emit ''ands64_reg'' [I 31, R tmp, R mask_reg, I LSL, I 0]
              });
            update_mask \<leftarrow> EMIT_GetNZ00 e cc update_mask;
            RA_FreeARMRegister e testreg
          } else skip);
        (if offset \<noteq> 0 then do {
            emit ''eor64_reg'' [R tmp, R tmp, R mask_reg, I LSR, I offset]
          } else do {
            emit ''eor64_reg'' [R tmp, R tmp, R mask_reg, I LSL, I 0]
          });
        emit ''str64_offset'' [R base, R tmp, I 0];
        RA_FreeARMRegister e tmp;
        RA_FreeARMRegister e width_reg;
        RA_FreeARMRegister e mask_reg
      } else if ((opcode2 AND 0x800) \<noteq> 0) \<and> (\<not> ((opcode2 AND 0x20) \<noteq> 0)) then do {
        off_reg \<leftarrow> RA_CopyFromM68kRegister e (uint ((drop_bit 6 opcode2) AND 7));
        mask_reg \<leftarrow> RA_AllocARMRegister e;
        tmp \<leftarrow> RA_AllocARMRegister e;
        let width = uint (opcode2 AND 31);
        let width = (if width = 0 then 32 else width);
        emit ''add_reg'' [R base, R base, R off_reg, I ASR, I 3];
        emit ''and_immed'' [R off_reg, R off_reg, I 3, I 0];
        emit ''orr64_immed'' [R mask_reg, I 31, I width, I width, I 1];
        emit ''ldr64_offset'' [R base, R tmp, I 0];
        (if update_mask \<noteq> 0 then do {
            testreg \<leftarrow> RA_AllocARMRegister e;
            cc \<leftarrow> RA_ModifyCC e;
            emit ''lslv64'' [R testreg, R tmp, R off_reg];
            emit ''ands64_reg'' [I 31, R testreg, R mask_reg, I LSL, I 0];
            update_mask \<leftarrow> EMIT_GetNZ00 e cc update_mask;
            RA_FreeARMRegister e testreg
          } else skip);
        emit ''lsrv64'' [R mask_reg, R mask_reg, R off_reg];
        emit ''eor64_reg'' [R tmp, R tmp, R mask_reg, I LSL, I 0];
        emit ''str64_offset'' [R base, R tmp, I 0];
        RA_FreeARMRegister e tmp;
        RA_FreeARMRegister e mask_reg;
        RA_FreeARMRegister e off_reg
      } else if ((opcode2 AND 0x800) \<noteq> 0) \<and> ((opcode2 AND 0x20) \<noteq> 0) then do {
        off_reg \<leftarrow> RA_CopyFromM68kRegister e (uint ((drop_bit 6 opcode2) AND 7));
        width_reg \<leftarrow> RA_CopyFromM68kRegister e (uint (opcode2 AND 7));
        mask_reg \<leftarrow> RA_AllocARMRegister e;
        tmp \<leftarrow> RA_AllocARMRegister e;
        emit ''add_reg'' [R base, R base, R off_reg, I ASR, I 3];
        emit ''and_immed'' [R off_reg, R off_reg, I 3, I 0];
        emit ''and_immed'' [R width_reg, R width_reg, I 5, I 0];
        emit ''cbnz'' [R width_reg, I 2];
        emit ''mov_immed_u16'' [R width_reg, I 32, I 0];
        emit ''mov_immed_u16'' [R mask_reg, I 1, I 0];
        emit ''lslv64'' [R mask_reg, R mask_reg, R width_reg];
        emit ''sub64_immed'' [R mask_reg, R mask_reg, I 1];
        emit ''rorv64'' [R mask_reg, R mask_reg, R width_reg];
        emit ''ldr64_offset'' [R base, R tmp, I 0];
        (if update_mask \<noteq> 0 then do {
            testreg \<leftarrow> RA_AllocARMRegister e;
            cc \<leftarrow> RA_ModifyCC e;
            emit ''lslv64'' [R testreg, R tmp, R off_reg];
            emit ''ands64_reg'' [I 31, R testreg, R mask_reg, I LSL, I 0];
            update_mask \<leftarrow> EMIT_GetNZ00 e cc update_mask;
            RA_FreeARMRegister e testreg
          } else skip);
        emit ''lsrv64'' [R mask_reg, R mask_reg, R off_reg];
        emit ''eor64_reg'' [R tmp, R tmp, R mask_reg, I LSL, I 0];
        emit ''str64_offset'' [R base, R tmp, I 0];
        RA_FreeARMRegister e tmp;
        RA_FreeARMRegister e mask_reg;
        RA_FreeARMRegister e width_reg;
        RA_FreeARMRegister e off_reg
      } else skip);
    RA_FreeARMRegister e base;
    EMIT_AdvancePC e (2 * ((uint ext_words) + 1));
    m68k_ptr_add (uint ext_words)
  }"

definition EMIT_BFSET_reg :: "env \<Rightarrow> (int \<Rightarrow> u16) \<Rightarrow> u16 \<Rightarrow> (tstate, unit) state" where
  "EMIT_BFSET_reg e m opcode = do {
    update_mask \<leftarrow> SRMask_at e m (- 1);
    let ext_words = (1::u8);
    opcode2 \<leftarrow> BE16_at m 0;
    src \<leftarrow> RA_MapM68kRegister e (uint (opcode AND 7));
    RA_SetDirtyM68kRegister e (uint (opcode AND 7));
    (if (opcode2 AND 0x0820) = 0 then do {
        let offset = uint ((drop_bit 6 opcode2) AND 0x1f);
        let width = uint (opcode2 AND 0x1f);
        (if (offset \<noteq> 0) \<or> (width \<noteq> 0) then do {
            tmp \<leftarrow> RA_AllocARMRegister e;
            let width = (if width = 0 then 32 else width);
            (if update_mask \<noteq> 0 then do {
                cc \<leftarrow> RA_ModifyCC e;
                emit ''ror'' [R tmp, R src, I (31 AND (32 - offset))];
                (if width \<noteq> 32 then do {
                    emit ''ands_immed'' [I 31, R tmp, I width, I width]
                  } else do {
                    emit ''cmn_reg'' [I 31, R tmp, I LSL, I 0]
                  });
                update_mask \<leftarrow> EMIT_GetNZ00 e cc update_mask;
                skip
              } else skip);
            (if width \<noteq> 32 then do {
                emit ''orr_immed'' [R src, R src, I width, I (31 AND (width + offset))]
              } else do {
                emit ''movn_immed_u16'' [R src, I 0, I 0]
              });
            RA_FreeARMRegister e tmp
          } else do {
            (if update_mask \<noteq> 0 then do {
                cc \<leftarrow> RA_ModifyCC e;
                emit ''cmn_reg'' [I 31, R src, I LSL, I 0];
                update_mask \<leftarrow> EMIT_GetNZ00 e cc update_mask;
                skip
              } else skip);
            emit ''movn_immed_u16'' [R src, I 0, I 0]
          })
      } else if (\<not> ((opcode2 AND 0x800) \<noteq> 0)) \<and> ((opcode2 AND 0x20) \<noteq> 0) then do {
        tmp \<leftarrow> RA_AllocARMRegister e;
        width_reg \<leftarrow> RA_CopyFromM68kRegister e (uint (opcode2 AND 7));
        mask_reg \<leftarrow> RA_AllocARMRegister e;
        let offset = uint ((drop_bit 6 opcode2) AND 31);
        emit ''and_immed'' [R width_reg, R width_reg, I 5, I 0];
        emit ''cbnz'' [R width_reg, I 2];
        emit ''mov_immed_u16'' [R width_reg, I 32, I 0];
        emit ''mov_immed_u16'' [R mask_reg, I 1, I 0];
        emit ''lslv64'' [R mask_reg, R mask_reg, R width_reg];
        emit ''sub64_immed'' [R mask_reg, R mask_reg, I 1];
        emit ''rorv'' [R mask_reg, R mask_reg, R width_reg];
        (if update_mask \<noteq> 0 then do {
            testreg \<leftarrow> RA_AllocARMRegister e;
            cc \<leftarrow> RA_ModifyCC e;
            (if offset \<noteq> 0 then do {
                emit ''ror'' [R testreg, R src, I (31 AND (32 - offset))];
                emit ''ands_reg'' [I 31, R testreg, R mask_reg, I LSL, I 0]
              } else do {
                emit ''ands_reg'' [I 31, R src, R mask_reg, I LSL, I 0]
              });
            update_mask \<leftarrow> EMIT_GetNZ00 e cc update_mask;
            RA_FreeARMRegister e testreg
          } else skip);
        (if offset \<noteq> 0 then do {
            emit ''orr_reg'' [R src, R src, R mask_reg, I ROR, I offset]
          } else do {
            emit ''orr_reg'' [R src, R src, R mask_reg, I LSL, I 0]
          });
        RA_FreeARMRegister e tmp;
        RA_FreeARMRegister e width_reg;
        RA_FreeARMRegister e mask_reg
      } else if ((opcode2 AND 0x800) \<noteq> 0) \<and> (\<not> ((opcode2 AND 0x20) \<noteq> 0)) then do {
        off_reg \<leftarrow> RA_CopyFromM68kRegister e (uint ((drop_bit 6 opcode2) AND 7));
        mask_reg \<leftarrow> RA_AllocARMRegister e;
        tmp \<leftarrow> RA_AllocARMRegister e;
        let width = uint (opcode2 AND 31);
        emit ''and_immed'' [R off_reg, R off_reg, I 5, I 0];
        let width = (if width = 0 then 32 else width);
        (if width \<noteq> 32 then do {
            emit ''orr_immed'' [R mask_reg, I 31, I width, I width]
          } else skip);
        (if update_mask \<noteq> 0 then do {
            testreg \<leftarrow> RA_AllocARMRegister e;
            cc \<leftarrow> RA_ModifyCC e;
            emit ''mov_immed_u16'' [R testreg, I 32, I 0];
            emit ''sub_reg'' [R testreg, R testreg, R off_reg, I LSL, I 0];
            emit ''rorv'' [R testreg, R src, R testreg];
            (if width \<noteq> 32 then do {
                emit ''ands_immed'' [I 31, R testreg, I width, I width]
              } else do {
                emit ''cmn_reg'' [I 31, R testreg, I LSL, I 0]
              });
            update_mask \<leftarrow> EMIT_GetNZ00 e cc update_mask;
            RA_FreeARMRegister e testreg
          } else skip);
        (if width \<noteq> 32 then do {
            emit ''rorv'' [R mask_reg, R mask_reg, R off_reg];
            emit ''orr_reg'' [R src, R src, R mask_reg, I LSL, I 0]
          } else do {
            emit ''movn_immed_u16'' [R src, I 0, I 0]
          });
        RA_FreeARMRegister e tmp;
        RA_FreeARMRegister e mask_reg;
        RA_FreeARMRegister e off_reg
      } else if ((opcode2 AND 0x800) \<noteq> 0) \<and> ((opcode2 AND 0x20) \<noteq> 0) then do {
        off_reg \<leftarrow> RA_CopyFromM68kRegister e (uint ((drop_bit 6 opcode2) AND 7));
        width_reg \<leftarrow> RA_CopyFromM68kRegister e (uint (opcode2 AND 7));
        mask_reg \<leftarrow> RA_AllocARMRegister e;
        tmp \<leftarrow> RA_AllocARMRegister e;
        emit ''and_immed'' [R off_reg, R off_reg, I 5, I 0];
        emit ''and_immed'' [R width_reg, R width_reg, I 5, I 0];
        emit ''cbnz'' [R width_reg, I 2];
        emit ''mov_immed_u16'' [R width_reg, I 32, I 0];
        emit ''mov_immed_u16'' [R mask_reg, I 1, I 0];
        emit ''lslv64'' [R mask_reg, R mask_reg, R width_reg];
        emit ''sub64_immed'' [R mask_reg, R mask_reg, I 1];
        emit ''rorv'' [R mask_reg, R mask_reg, R width_reg];
        (if update_mask \<noteq> 0 then do {
            testreg \<leftarrow> RA_AllocARMRegister e;
            cc \<leftarrow> RA_ModifyCC e;
            emit ''mov_immed_u16'' [R testreg, I 32, I 0];
            emit ''sub_reg'' [R testreg, R testreg, R off_reg, I LSL, I 0];
            emit ''rorv'' [R testreg, R src, R testreg];
            emit ''ands_reg'' [I 31, R testreg, R mask_reg, I LSL, I 0];
            update_mask \<leftarrow> EMIT_GetNZ00 e cc update_mask;
            RA_FreeARMRegister e testreg
          } else skip);
        emit ''rorv'' [R mask_reg, R mask_reg, R off_reg];
        emit ''orr_reg'' [R src, R src, R mask_reg, I LSL, I 0];
        RA_FreeARMRegister e tmp;
        RA_FreeARMRegister e mask_reg;
        RA_FreeARMRegister e width_reg;
        RA_FreeARMRegister e off_reg
      } else skip);
    EMIT_AdvancePC e (2 * ((uint ext_words) + 1));
    m68k_ptr_add (uint ext_words)
  }"

definition EMIT_BFSET :: "env \<Rightarrow> (int \<Rightarrow> u16) \<Rightarrow> u16 \<Rightarrow> (tstate, unit) state" where
  "EMIT_BFSET e m opcode = do {
    update_mask \<leftarrow> SRMask_at e m (- 1);
    let ext_words = (1::u8);
    opcode2 \<leftarrow> BE16_at m 0;
    let base = Unassigned;
    (base, ext_words) \<leftarrow> EMIT_LoadFromEffectiveAddress e m 0 base (opcode AND 0x3f) ext_words 0;
    (if (\<not> ((opcode2 AND 0x800) \<noteq> 0)) \<and> (\<not> ((opcode2 AND 0x20) \<noteq> 0)) then do {
        tmp \<leftarrow> RA_AllocARMRegister e;
        let offset = uint ((drop_bit 6 opcode2) AND 31);
        let width = uint (opcode2 AND 31);
        let width = (if width = 0 then 32 else width);
        emit ''ldr64_offset'' [R base, R tmp, I 0];
        (if update_mask \<noteq> 0 then do {
            cc \<leftarrow> RA_ModifyCC e;
            testreg \<leftarrow> RA_AllocARMRegister e;
            (if offset \<noteq> 0 then do {
                emit ''lsl64'' [R testreg, R tmp, I offset];
                emit ''ands64_immed'' [I 31, R testreg, I width, I width, I 1]
              } else do {
                emit ''ands64_immed'' [I 31, R tmp, I width, I width, I 1]
              });
            update_mask \<leftarrow> EMIT_GetNZ00 e cc update_mask;
            RA_FreeARMRegister e testreg
          } else skip);
        emit ''orr64_immed'' [R tmp, R tmp, I width, I (width + offset), I 1];
        emit ''str64_offset'' [R base, R tmp, I 0];
        RA_FreeARMRegister e tmp
      } else if (\<not> ((opcode2 AND 0x800) \<noteq> 0)) \<and> ((opcode2 AND 0x20) \<noteq> 0) then do {
        tmp \<leftarrow> RA_AllocARMRegister e;
        width_reg \<leftarrow> RA_CopyFromM68kRegister e (uint (opcode2 AND 7));
        mask_reg \<leftarrow> RA_AllocARMRegister e;
        let offset = uint ((drop_bit 6 opcode2) AND 31);
        emit ''ldr64_offset'' [R base, R tmp, I 0];
        emit ''and_immed'' [R width_reg, R width_reg, I 5, I 0];
        emit ''cbnz'' [R width_reg, I 2];
        emit ''mov_immed_u16'' [R width_reg, I 32, I 0];
        emit ''mov_immed_u16'' [R mask_reg, I 1, I 0];
        emit ''lslv64'' [R mask_reg, R mask_reg, R width_reg];
        emit ''sub64_immed'' [R mask_reg, R mask_reg, I 1];
        emit ''rorv64'' [R mask_reg, R mask_reg, R width_reg];
        (if update_mask \<noteq> 0 then do {
            testreg \<leftarrow> RA_AllocARMRegister e;
            cc \<leftarrow> RA_ModifyCC e;
            (if offset \<noteq> 0 then do {
                emit ''lsl64'' [R testreg, R tmp, I offset];
                emit ''ands64_reg'' [I 31, R testreg, R mask_reg, I LSL, I 0]
              } else do {
                emit ''ands64_reg'' [I 31, R tmp, R mask_reg, I LSL, I 0]
              });
            update_mask \<leftarrow> EMIT_GetNZ00 e cc update_mask;
            RA_FreeARMRegister e testreg
          } else skip);
        (if offset \<noteq> 0 then do {
            emit ''orr64_reg'' [R tmp, R tmp, R mask_reg, I LSR, I offset]
          } else do {
            emit ''orr64_reg'' [R tmp, R tmp, R mask_reg, I LSL, I 0]
          });
        emit ''str64_offset'' [R base, R tmp, I 0];
        RA_FreeARMRegister e tmp;
        RA_FreeARMRegister e width_reg;
        RA_FreeARMRegister e mask_reg
      } else if ((opcode2 AND 0x800) \<noteq> 0) \<and> (\<not> ((opcode2 AND 0x20) \<noteq> 0)) then do {
        off_reg \<leftarrow> RA_CopyFromM68kRegister e (uint ((drop_bit 6 opcode2) AND 7));
        mask_reg \<leftarrow> RA_AllocARMRegister e;
        tmp \<leftarrow> RA_AllocARMRegister e;
        let width = uint (opcode2 AND 31);
        let width = (if width = 0 then 32 else width);
        emit ''add_reg'' [R base, R base, R off_reg, I ASR, I 3];
        emit ''and_immed'' [R off_reg, R off_reg, I 3, I 0];
        emit ''orr64_immed'' [R mask_reg, I 31, I width, I width, I 1];
        emit ''ldr64_offset'' [R base, R tmp, I 0];
        (if update_mask \<noteq> 0 then do {
            testreg \<leftarrow> RA_AllocARMRegister e;
            cc \<leftarrow> RA_ModifyCC e;
            emit ''lslv64'' [R testreg, R tmp, R off_reg];
            emit ''ands64_reg'' [I 31, R testreg, R mask_reg, I LSL, I 0];
            update_mask \<leftarrow> EMIT_GetNZ00 e cc update_mask;
            RA_FreeARMRegister e testreg
          } else skip);
        emit ''lsrv64'' [R mask_reg, R mask_reg, R off_reg];
        emit ''orr64_reg'' [R tmp, R tmp, R mask_reg, I LSL, I 0];
        emit ''str64_offset'' [R base, R tmp, I 0];
        RA_FreeARMRegister e tmp;
        RA_FreeARMRegister e mask_reg;
        RA_FreeARMRegister e off_reg
      } else if ((opcode2 AND 0x800) \<noteq> 0) \<and> ((opcode2 AND 0x20) \<noteq> 0) then do {
        off_reg \<leftarrow> RA_CopyFromM68kRegister e (uint ((drop_bit 6 opcode2) AND 7));
        width_reg \<leftarrow> RA_CopyFromM68kRegister e (uint (opcode2 AND 7));
        mask_reg \<leftarrow> RA_AllocARMRegister e;
        tmp \<leftarrow> RA_AllocARMRegister e;
        emit ''add_reg'' [R base, R base, R off_reg, I ASR, I 3];
        emit ''and_immed'' [R off_reg, R off_reg, I 3, I 0];
        emit ''and_immed'' [R width_reg, R width_reg, I 5, I 0];
        emit ''cbnz'' [R width_reg, I 2];
        emit ''mov_immed_u16'' [R width_reg, I 32, I 0];
        emit ''mov_immed_u16'' [R mask_reg, I 1, I 0];
        emit ''lslv64'' [R mask_reg, R mask_reg, R width_reg];
        emit ''sub64_immed'' [R mask_reg, R mask_reg, I 1];
        emit ''rorv64'' [R mask_reg, R mask_reg, R width_reg];
        emit ''ldr64_offset'' [R base, R tmp, I 0];
        (if update_mask \<noteq> 0 then do {
            testreg \<leftarrow> RA_AllocARMRegister e;
            cc \<leftarrow> RA_ModifyCC e;
            emit ''lslv64'' [R testreg, R tmp, R off_reg];
            emit ''ands64_reg'' [I 31, R testreg, R mask_reg, I LSL, I 0];
            update_mask \<leftarrow> EMIT_GetNZ00 e cc update_mask;
            RA_FreeARMRegister e testreg
          } else skip);
        emit ''lsrv64'' [R mask_reg, R mask_reg, R off_reg];
        emit ''orr64_reg'' [R tmp, R tmp, R mask_reg, I LSL, I 0];
        emit ''str64_offset'' [R base, R tmp, I 0];
        RA_FreeARMRegister e tmp;
        RA_FreeARMRegister e mask_reg;
        RA_FreeARMRegister e width_reg;
        RA_FreeARMRegister e off_reg
      } else skip);
    RA_FreeARMRegister e base;
    EMIT_AdvancePC e (2 * ((uint ext_words) + 1));
    m68k_ptr_add (uint ext_words)
  }"

definition EMIT_BFCLR_reg :: "env \<Rightarrow> (int \<Rightarrow> u16) \<Rightarrow> u16 \<Rightarrow> (tstate, unit) state" where
  "EMIT_BFCLR_reg e m opcode = do {
    update_mask \<leftarrow> SRMask_at e m (- 1);
    let ext_words = (1::u8);
    opcode2 \<leftarrow> BE16_at m 0;
    src \<leftarrow> RA_MapM68kRegister e (uint (opcode AND 7));
    RA_SetDirtyM68kRegister e (uint (opcode AND 7));
    (if (opcode2 AND 0x0820) = 0 then do {
        let offset = uint ((drop_bit 6 opcode2) AND 0x1f);
        let width = uint (opcode2 AND 0x1f);
        (if (offset \<noteq> 0) \<or> (width \<noteq> 0) then do {
            tmp \<leftarrow> RA_AllocARMRegister e;
            let width = (if width = 0 then 32 else width);
            (if update_mask \<noteq> 0 then do {
                cc \<leftarrow> RA_ModifyCC e;
                emit ''ror'' [R tmp, R src, I (31 AND (32 - offset))];
                (if width \<noteq> 32 then do {
                    emit ''ands_immed'' [I 31, R tmp, I width, I width]
                  } else do {
                    emit ''cmn_reg'' [I 31, R tmp, I LSL, I 0]
                  });
                update_mask \<leftarrow> EMIT_GetNZ00 e cc update_mask;
                skip
              } else skip);
            (if width \<noteq> 32 then do {
                emit ''bic_immed'' [R src, R src, I width, I (31 AND (width + offset))]
              } else do {
                emit ''mov_immed_u16'' [R src, I 0, I 0]
              });
            RA_FreeARMRegister e tmp
          } else do {
            (if update_mask \<noteq> 0 then do {
                cc \<leftarrow> RA_ModifyCC e;
                emit ''cmn_reg'' [I 31, R src, I LSL, I 0];
                update_mask \<leftarrow> EMIT_GetNZ00 e cc update_mask;
                skip
              } else skip);
            emit ''mov_immed_u16'' [R src, I 0, I 0]
          })
      } else if (\<not> ((opcode2 AND 0x800) \<noteq> 0)) \<and> ((opcode2 AND 0x20) \<noteq> 0) then do {
        tmp \<leftarrow> RA_AllocARMRegister e;
        width_reg \<leftarrow> RA_CopyFromM68kRegister e (uint (opcode2 AND 7));
        mask_reg \<leftarrow> RA_AllocARMRegister e;
        let offset = uint ((drop_bit 6 opcode2) AND 31);
        emit ''and_immed'' [R width_reg, R width_reg, I 5, I 0];
        emit ''cbnz'' [R width_reg, I 2];
        emit ''mov_immed_u16'' [R width_reg, I 32, I 0];
        emit ''mov_immed_u16'' [R mask_reg, I 1, I 0];
        emit ''lslv64'' [R mask_reg, R mask_reg, R width_reg];
        emit ''sub64_immed'' [R mask_reg, R mask_reg, I 1];
        emit ''rorv'' [R mask_reg, R mask_reg, R width_reg];
        (if update_mask \<noteq> 0 then do {
            testreg \<leftarrow> RA_AllocARMRegister e;
            cc \<leftarrow> RA_ModifyCC e;
            (if offset \<noteq> 0 then do {
                emit ''ror'' [R testreg, R src, I (31 AND (32 - offset))];
                emit ''ands_reg'' [I 31, R testreg, R mask_reg, I LSL, I 0]
              } else do {
                emit ''ands_reg'' [I 31, R src, R mask_reg, I LSL, I 0]
              });
            update_mask \<leftarrow> EMIT_GetNZ00 e cc update_mask;
            RA_FreeARMRegister e testreg
          } else skip);
        (if offset \<noteq> 0 then do {
            emit ''bic_reg'' [R src, R src, R mask_reg, I ROR, I offset]
          } else do {
            emit ''bic_reg'' [R src, R src, R mask_reg, I LSL, I 0]
          });
        RA_FreeARMRegister e tmp;
        RA_FreeARMRegister e width_reg;
        RA_FreeARMRegister e mask_reg
      } else if ((opcode2 AND 0x800) \<noteq> 0) \<and> (\<not> ((opcode2 AND 0x20) \<noteq> 0)) then do {
        off_reg \<leftarrow> RA_CopyFromM68kRegister e (uint ((drop_bit 6 opcode2) AND 7));
        mask_reg \<leftarrow> RA_AllocARMRegister e;
        tmp \<leftarrow> RA_AllocARMRegister e;
        let width = uint (opcode2 AND 31);
        emit ''and_immed'' [R off_reg, R off_reg, I 5, I 0];
        let width = (if width = 0 then 32 else width);
        (if width \<noteq> 32 then do {
            emit ''orr_immed'' [R mask_reg, I 31, I width, I width]
          } else skip);
        (if update_mask \<noteq> 0 then do {
            testreg \<leftarrow> RA_AllocARMRegister e;
            cc \<leftarrow> RA_ModifyCC e;
            emit ''mov_immed_u16'' [R testreg, I 32, I 0];
            emit ''sub_reg'' [R testreg, R testreg, R off_reg, I LSL, I 0];
            emit ''rorv'' [R testreg, R src, R testreg];
            (if width \<noteq> 32 then do {
                emit ''ands_immed'' [I 31, R testreg, I width, I width]
              } else do {
                emit ''cmn_reg'' [I 31, R testreg, I LSL, I 0]
              });
            update_mask \<leftarrow> EMIT_GetNZ00 e cc update_mask;
            RA_FreeARMRegister e testreg
          } else skip);
        (if width \<noteq> 32 then do {
            emit ''rorv'' [R mask_reg, R mask_reg, R off_reg];
            emit ''bic_reg'' [R src, R src, R mask_reg, I LSL, I 0]
          } else do {
            emit ''mov_immed_u16'' [R src, I 0, I 0]
          });
        RA_FreeARMRegister e tmp;
        RA_FreeARMRegister e mask_reg;
        RA_FreeARMRegister e off_reg
      } else if ((opcode2 AND 0x800) \<noteq> 0) \<and> ((opcode2 AND 0x20) \<noteq> 0) then do {
        off_reg \<leftarrow> RA_CopyFromM68kRegister e (uint ((drop_bit 6 opcode2) AND 7));
        width_reg \<leftarrow> RA_CopyFromM68kRegister e (uint (opcode2 AND 7));
        mask_reg \<leftarrow> RA_AllocARMRegister e;
        tmp \<leftarrow> RA_AllocARMRegister e;
        emit ''and_immed'' [R off_reg, R off_reg, I 5, I 0];
        emit ''and_immed'' [R width_reg, R width_reg, I 5, I 0];
        emit ''cbnz'' [R width_reg, I 2];
        emit ''mov_immed_u16'' [R width_reg, I 32, I 0];
        emit ''mov_immed_u16'' [R mask_reg, I 1, I 0];
        emit ''lslv64'' [R mask_reg, R mask_reg, R width_reg];
        emit ''sub64_immed'' [R mask_reg, R mask_reg, I 1];
        emit ''rorv'' [R mask_reg, R mask_reg, R width_reg];
        (if update_mask \<noteq> 0 then do {
            testreg \<leftarrow> RA_AllocARMRegister e;
            cc \<leftarrow> RA_ModifyCC e;
            emit ''mov_immed_u16'' [R testreg, I 32, I 0];
            emit ''sub_reg'' [R testreg, R testreg, R off_reg, I LSL, I 0];
            emit ''rorv'' [R testreg, R src, R testreg];
            emit ''ands_reg'' [I 31, R testreg, R mask_reg, I LSL, I 0];
            update_mask \<leftarrow> EMIT_GetNZ00 e cc update_mask;
            RA_FreeARMRegister e testreg
          } else skip);
        emit ''rorv'' [R mask_reg, R mask_reg, R off_reg];
        emit ''bic_reg'' [R src, R src, R mask_reg, I LSL, I 0];
        RA_FreeARMRegister e tmp;
        RA_FreeARMRegister e mask_reg;
        RA_FreeARMRegister e width_reg;
        RA_FreeARMRegister e off_reg
      } else skip);
    EMIT_AdvancePC e (2 * ((uint ext_words) + 1));
    m68k_ptr_add (uint ext_words)
  }"

definition EMIT_BFCLR :: "env \<Rightarrow> (int \<Rightarrow> u16) \<Rightarrow> u16 \<Rightarrow> (tstate, unit) state" where
  "EMIT_BFCLR e m opcode = do {
    update_mask \<leftarrow> SRMask_at e m (- 1);
    let ext_words = (1::u8);
    opcode2 \<leftarrow> BE16_at m 0;
    let base = Unassigned;
    (base, ext_words) \<leftarrow> EMIT_LoadFromEffectiveAddress e m 0 base (opcode AND 0x3f) ext_words 0;
    (if (\<not> ((opcode2 AND 0x800) \<noteq> 0)) \<and> (\<not> ((opcode2 AND 0x20) \<noteq> 0)) then do {
        tmp \<leftarrow> RA_AllocARMRegister e;
        let offset = uint ((drop_bit 6 opcode2) AND 31);
        let width = uint (opcode2 AND 31);
        let width = (if width = 0 then 32 else width);
        emit ''ldr64_offset'' [R base, R tmp, I 0];
        (if update_mask \<noteq> 0 then do {
            cc \<leftarrow> RA_ModifyCC e;
            testreg \<leftarrow> RA_AllocARMRegister e;
            (if offset \<noteq> 0 then do {
                emit ''lsl64'' [R testreg, R tmp, I offset];
                emit ''ands64_immed'' [I 31, R testreg, I width, I width, I 1]
              } else do {
                emit ''ands64_immed'' [I 31, R tmp, I width, I width, I 1]
              });
            update_mask \<leftarrow> EMIT_GetNZ00 e cc update_mask;
            RA_FreeARMRegister e testreg
          } else skip);
        emit ''bic64_immed'' [R tmp, R tmp, I width, I (width + offset), I 1];
        emit ''str64_offset'' [R base, R tmp, I 0];
        RA_FreeARMRegister e tmp
      } else if (\<not> ((opcode2 AND 0x800) \<noteq> 0)) \<and> ((opcode2 AND 0x20) \<noteq> 0) then do {
        tmp \<leftarrow> RA_AllocARMRegister e;
        width_reg \<leftarrow> RA_CopyFromM68kRegister e (uint (opcode2 AND 7));
        mask_reg \<leftarrow> RA_AllocARMRegister e;
        let offset = uint ((drop_bit 6 opcode2) AND 31);
        emit ''ldr64_offset'' [R base, R tmp, I 0];
        emit ''and_immed'' [R width_reg, R width_reg, I 5, I 0];
        emit ''cbnz'' [R width_reg, I 2];
        emit ''mov_immed_u16'' [R width_reg, I 32, I 0];
        emit ''mov_immed_u16'' [R mask_reg, I 1, I 0];
        emit ''lslv64'' [R mask_reg, R mask_reg, R width_reg];
        emit ''sub64_immed'' [R mask_reg, R mask_reg, I 1];
        emit ''rorv64'' [R mask_reg, R mask_reg, R width_reg];
        (if update_mask \<noteq> 0 then do {
            testreg \<leftarrow> RA_AllocARMRegister e;
            cc \<leftarrow> RA_ModifyCC e;
            (if offset \<noteq> 0 then do {
                emit ''lsl64'' [R testreg, R tmp, I offset];
                emit ''ands64_reg'' [I 31, R testreg, R mask_reg, I LSL, I 0]
              } else do {
                emit ''ands64_reg'' [I 31, R tmp, R mask_reg, I LSL, I 0]
              });
            update_mask \<leftarrow> EMIT_GetNZ00 e cc update_mask;
            RA_FreeARMRegister e testreg
          } else skip);
        (if offset \<noteq> 0 then do {
            emit ''bic64_reg'' [R tmp, R tmp, R mask_reg, I LSR, I offset]
          } else do {
            emit ''bic64_reg'' [R tmp, R tmp, R mask_reg, I LSL, I 0]
          });
        emit ''str64_offset'' [R base, R tmp, I 0];
        RA_FreeARMRegister e tmp;
        RA_FreeARMRegister e width_reg;
        RA_FreeARMRegister e mask_reg
      } else if ((opcode2 AND 0x800) \<noteq> 0) \<and> (\<not> ((opcode2 AND 0x20) \<noteq> 0)) then do {
        off_reg \<leftarrow> RA_CopyFromM68kRegister e (uint ((drop_bit 6 opcode2) AND 7));
        mask_reg \<leftarrow> RA_AllocARMRegister e;
        tmp \<leftarrow> RA_AllocARMRegister e;
        let width = uint (opcode2 AND 31);
        let width = (if width = 0 then 32 else width);
        emit ''add_reg'' [R base, R base, R off_reg, I ASR, I 3];
        emit ''and_immed'' [R off_reg, R off_reg, I 3, I 0];
        emit ''orr64_immed'' [R mask_reg, I 31, I width, I width, I 1];
        emit ''ldr64_offset'' [R base, R tmp, I 0];
        (if update_mask \<noteq> 0 then do {
            testreg \<leftarrow> RA_AllocARMRegister e;
            cc \<leftarrow> RA_ModifyCC e;
            emit ''lslv64'' [R testreg, R tmp, R off_reg];
            emit ''ands64_reg'' [I 31, R testreg, R mask_reg, I LSL, I 0];
            update_mask \<leftarrow> EMIT_GetNZ00 e cc update_mask;
            RA_FreeARMRegister e testreg
          } else skip);
        emit ''lsrv64'' [R mask_reg, R mask_reg, R off_reg];
        emit ''bic64_reg'' [R tmp, R tmp, R mask_reg, I LSL, I 0];
        emit ''str64_offset'' [R base, R tmp, I 0];
        RA_FreeARMRegister e tmp;
        RA_FreeARMRegister e mask_reg;
        RA_FreeARMRegister e off_reg
      } else if ((opcode2 AND 0x800) \<noteq> 0) \<and> ((opcode2 AND 0x20) \<noteq> 0) then do {
        off_reg \<leftarrow> RA_CopyFromM68kRegister e (uint ((drop_bit 6 opcode2) AND 7));
        width_reg \<leftarrow> RA_CopyFromM68kRegister e (uint (opcode2 AND 7));
        mask_reg \<leftarrow> RA_AllocARMRegister e;
        tmp \<leftarrow> RA_AllocARMRegister e;
        emit ''add_reg'' [R base, R base, R off_reg, I ASR, I 3];
        emit ''and_immed'' [R off_reg, R off_reg, I 3, I 0];
        emit ''and_immed'' [R width_reg, R width_reg, I 5, I 0];
        emit ''cbnz'' [R width_reg, I 2];
        emit ''mov_immed_u16'' [R width_reg, I 32, I 0];
        emit ''mov_immed_u16'' [R mask_reg, I 1, I 0];
        emit ''lslv64'' [R mask_reg, R mask_reg, R width_reg];
        emit ''sub64_immed'' [R mask_reg, R mask_reg, I 1];
        emit ''rorv64'' [R mask_reg, R mask_reg, R width_reg];
        emit ''ldr64_offset'' [R base, R tmp, I 0];
        (if update_mask \<noteq> 0 then do {
            testreg \<leftarrow> RA_AllocARMRegister e;
            cc \<leftarrow> RA_ModifyCC e;
            emit ''lslv64'' [R testreg, R tmp, R off_reg];
            emit ''ands64_reg'' [I 31, R testreg, R mask_reg, I LSL, I 0];
            update_mask \<leftarrow> EMIT_GetNZ00 e cc update_mask;
            RA_FreeARMRegister e testreg
          } else skip);
        emit ''lsrv64'' [R mask_reg, R mask_reg, R off_reg];
        emit ''bic64_reg'' [R tmp, R tmp, R mask_reg, I LSL, I 0];
        emit ''str64_offset'' [R base, R tmp, I 0];
        RA_FreeARMRegister e tmp;
        RA_FreeARMRegister e mask_reg;
        RA_FreeARMRegister e width_reg;
        RA_FreeARMRegister e off_reg
      } else skip);
    RA_FreeARMRegister e base;
    EMIT_AdvancePC e (2 * ((uint ext_words) + 1));
    m68k_ptr_add (uint ext_words)
  }"

definition EMIT_BFINS_reg :: "env \<Rightarrow> (int \<Rightarrow> u16) \<Rightarrow> u16 \<Rightarrow> (tstate, unit) state" where
  "EMIT_BFINS_reg e m opcode = do {
    update_mask \<leftarrow> SRMask_at e m (- 1);
    let ext_words = (1::u8);
    opcode2 \<leftarrow> BE16_at m 0;
    dest \<leftarrow> RA_MapM68kRegister e (uint (opcode AND 7));
    src \<leftarrow> RA_MapM68kRegister e (uint ((drop_bit 12 opcode2) AND 7));
    RA_SetDirtyM68kRegister e (uint (opcode AND 7));
    (if (opcode2 AND 0x0820) = 0 then do {
        let offset = uint ((drop_bit 6 opcode2) AND 0x1f);
        let width = uint (opcode2 AND 0x1f);
        (if (offset \<noteq> 0) \<or> (width \<noteq> 0) then do {
            tmp \<leftarrow> RA_AllocARMRegister e;
            masked_src \<leftarrow> RA_AllocARMRegister e;
            let width = (if width = 0 then 32 else width);
            (if width \<noteq> 32 then do {
                emit ''ands_immed'' [R masked_src, R src, I width, I 0]
              } else do {
                emit ''mov_reg'' [R masked_src, R src]
              });
            (if ((offset + width) AND 31) \<noteq> 0 then do {
                emit ''ror'' [R masked_src, R masked_src, I (31 AND (offset + width))]
              } else skip);
            (if update_mask \<noteq> 0 then do {
                cc \<leftarrow> RA_ModifyCC e;
                testreg \<leftarrow> RA_AllocARMRegister e;
                (if offset \<noteq> 0 then do {
                    emit ''ror'' [R testreg, R masked_src, I (31 AND (32 - offset))];
                    emit ''cmn_reg'' [I 31, R testreg, I LSL, I 0]
                  } else do {
                    emit ''cmn_reg'' [I 31, R masked_src, I LSL, I 0]
                  });
                update_mask \<leftarrow> EMIT_GetNZ00 e cc update_mask;
                RA_FreeARMRegister e testreg
              } else skip);
            (if width \<noteq> 32 then do {
                emit ''bic_immed'' [R dest, R dest, I width, I (31 AND (width + offset))];
                emit ''orr_reg'' [R dest, R dest, R masked_src, I LSL, I 0]
              } else do {
                emit ''mov_reg'' [R dest, R masked_src]
              });
            RA_FreeARMRegister e tmp;
            RA_FreeARMRegister e masked_src
          } else do {
            (if update_mask \<noteq> 0 then do {
                cc \<leftarrow> RA_ModifyCC e;
                emit ''cmn_reg'' [I 31, R src, I LSL, I 0];
                update_mask \<leftarrow> EMIT_GetNZ00 e cc update_mask;
                skip
              } else skip);
            emit ''mov_reg'' [R dest, R src]
          })
      } else if (\<not> ((opcode2 AND 0x800) \<noteq> 0)) \<and> ((opcode2 AND 0x20) \<noteq> 0) then do {
        tmp \<leftarrow> RA_AllocARMRegister e;
        masked_src \<leftarrow> RA_AllocARMRegister e;
        width_reg \<leftarrow> RA_CopyFromM68kRegister e (uint (opcode2 AND 7));
        mask_reg \<leftarrow> RA_AllocARMRegister e;
        let offset = uint ((drop_bit 6 opcode2) AND 31);
        emit ''and_immed'' [R width_reg, R width_reg, I 5, I 0];
        emit ''cbnz'' [R width_reg, I 2];
        emit ''mov_immed_u16'' [R width_reg, I 32, I 0];
        emit ''mov_immed_u16'' [R mask_reg, I 1, I 0];
        emit ''lslv64'' [R mask_reg, R mask_reg, R width_reg];
        emit ''sub64_immed'' [R mask_reg, R mask_reg, I 1];
        emit ''ands_reg'' [R masked_src, R src, R mask_reg, I LSL, I 0];
        emit ''rorv'' [R mask_reg, R mask_reg, R width_reg];
        emit ''rorv'' [R masked_src, R masked_src, R width_reg];
        (if update_mask \<noteq> 0 then do {
            cc \<leftarrow> RA_ModifyCC e;
            emit ''cmn_reg'' [I 31, R masked_src, I LSL, I 0];
            update_mask \<leftarrow> EMIT_GetNZ00 e cc update_mask;
            skip
          } else skip);
        (if offset \<noteq> 0 then do {
            emit ''bic_reg'' [R dest, R dest, R mask_reg, I ROR, I offset];
            emit ''orr_reg'' [R dest, R dest, R masked_src, I ROR, I offset]
          } else do {
            emit ''bic_reg'' [R dest, R dest, R mask_reg, I LSL, I 0];
            emit ''orr_reg'' [R dest, R dest, R masked_src, I LSL, I 0]
          });
        RA_FreeARMRegister e tmp;
        RA_FreeARMRegister e width_reg;
        RA_FreeARMRegister e mask_reg;
        RA_FreeARMRegister e masked_src
      } else if ((opcode2 AND 0x800) \<noteq> 0) \<and> (\<not> ((opcode2 AND 0x20) \<noteq> 0)) then do {
        off_reg \<leftarrow> RA_CopyFromM68kRegister e (uint ((drop_bit 6 opcode2) AND 7));
        mask_reg \<leftarrow> RA_AllocARMRegister e;
        tmp \<leftarrow> RA_AllocARMRegister e;
        let width = uint (opcode2 AND 31);
        masked_src \<leftarrow> RA_AllocARMRegister e;
        emit ''and_immed'' [R off_reg, R off_reg, I 5, I 0];
        let width = (if width = 0 then 32 else width);
        (if width \<noteq> 32 then do {
            emit ''ands_immed'' [R masked_src, R src, I width, I 0];
            emit ''ror'' [R masked_src, R masked_src, I width]
          } else do {
            emit ''mov_reg'' [R masked_src, R src]
          });
        (if width \<noteq> 32 then do {
            emit ''orr_immed'' [R mask_reg, I 31, I width, I width]
          } else skip);
        (if update_mask \<noteq> 0 then do {
            cc \<leftarrow> RA_ModifyCC e;
            emit ''cmn_reg'' [I 31, R masked_src, I LSL, I 0];
            update_mask \<leftarrow> EMIT_GetNZ00 e cc update_mask;
            skip
          } else skip);
        (if width \<noteq> 32 then do {
            emit ''rorv'' [R mask_reg, R mask_reg, R off_reg];
            emit ''rorv'' [R masked_src, R masked_src, R off_reg];
            emit ''bic_reg'' [R dest, R dest, R mask_reg, I LSL, I 0];
            emit ''orr_reg'' [R dest, R dest, R masked_src, I LSL, I 0]
          } else do {
            emit ''rorv'' [R dest, R masked_src, R off_reg]
          });
        RA_FreeARMRegister e tmp;
        RA_FreeARMRegister e mask_reg;
        RA_FreeARMRegister e off_reg;
        RA_FreeARMRegister e masked_src
      } else if ((opcode2 AND 0x800) \<noteq> 0) \<and> ((opcode2 AND 0x20) \<noteq> 0) then do {
        off_reg \<leftarrow> RA_CopyFromM68kRegister e (uint ((drop_bit 6 opcode2) AND 7));
        width_reg \<leftarrow> RA_CopyFromM68kRegister e (uint (opcode2 AND 7));
        mask_reg \<leftarrow> RA_AllocARMRegister e;
        masked_src \<leftarrow> RA_AllocARMRegister e;
        tmp \<leftarrow> RA_AllocARMRegister e;
        emit ''and_immed'' [R off_reg, R off_reg, I 5, I 0];
        emit ''and_immed'' [R width_reg, R width_reg, I 5, I 0];
        emit ''cbnz'' [R width_reg, I 2];
        emit ''mov_immed_u16'' [R width_reg, I 32, I 0];
        emit ''mov_immed_u16'' [R mask_reg, I 1, I 0];
        emit ''lslv64'' [R mask_reg, R mask_reg, R width_reg];
        emit ''sub64_immed'' [R mask_reg, R mask_reg, I 1];
        emit ''ands_reg'' [R masked_src, R src, R mask_reg, I LSL, I 0];
        emit ''rorv'' [R mask_reg, R mask_reg, R width_reg];
        emit ''rorv'' [R masked_src, R masked_src, R width_reg];
        (if update_mask \<noteq> 0 then do {
            cc \<leftarrow> RA_ModifyCC e;
            emit ''cmn_reg'' [I 31, R masked_src, I LSL, I 0];
            update_mask \<leftarrow> EMIT_GetNZ00 e cc update_mask;
            skip
          } else skip);
        emit ''rorv'' [R mask_reg, R mask_reg, R off_reg];
        emit ''rorv'' [R masked_src, R masked_src, R off_reg];
        emit ''bic_reg'' [R dest, R dest, R mask_reg, I LSL, I 0];
        emit ''orr_reg'' [R dest, R dest, R masked_src, I LSL, I 0];
        RA_FreeARMRegister e tmp;
        RA_FreeARMRegister e mask_reg;
        RA_FreeARMRegister e width_reg;
        RA_FreeARMRegister e off_reg;
        RA_FreeARMRegister e masked_src
      } else skip);
    EMIT_AdvancePC e (2 * ((uint ext_words) + 1));
    m68k_ptr_add (uint ext_words)
  }"

definition EMIT_BFINS :: "env \<Rightarrow> (int \<Rightarrow> u16) \<Rightarrow> u16 \<Rightarrow> (tstate, unit) state" where
  "EMIT_BFINS e m opcode = do {
    update_mask \<leftarrow> SRMask_at e m (- 1);
    let ext_words = (1::u8);
    opcode2 \<leftarrow> BE16_at m 0;
    let base = Unassigned;
    src \<leftarrow> RA_MapM68kRegister e (uint ((drop_bit 12 opcode2) AND 7));
    (base, ext_words) \<leftarrow> EMIT_LoadFromEffectiveAddress e m 0 base (opcode AND 0x3f) ext_words 0;
    (if (\<not> ((opcode2 AND 0x800) \<noteq> 0)) \<and> (\<not> ((opcode2 AND 0x20) \<noteq> 0)) then do {
        tmp \<leftarrow> RA_AllocARMRegister e;
        let offset = uint ((drop_bit 6 opcode2) AND 31);
        let width = uint (opcode2 AND 31);
        let width = (if width = 0 then 32 else width);
        emit ''ldr64_offset'' [R base, R tmp, I 0];
        (if update_mask \<noteq> 0 then do {
            cc \<leftarrow> RA_ModifyCC e;
            emit ''cmn64_reg'' [I 31, R src, I LSL, I (64 - width)];
            update_mask \<leftarrow> EMIT_GetNZ00 e cc update_mask;
            skip
          } else skip);
        emit ''bfi64'' [R tmp, R src, I (64 - (offset + width)), I width];
        emit ''str64_offset'' [R base, R tmp, I 0];
        RA_FreeARMRegister e tmp
      } else if (\<not> ((opcode2 AND 0x800) \<noteq> 0)) \<and> ((opcode2 AND 0x20) \<noteq> 0) then do {
        tmp \<leftarrow> RA_AllocARMRegister e;
        width_reg \<leftarrow> RA_CopyFromM68kRegister e (uint (opcode2 AND 7));
        mask_reg \<leftarrow> RA_AllocARMRegister e;
        masked_src \<leftarrow> RA_AllocARMRegister e;
        let offset = uint ((drop_bit 6 opcode2) AND 31);
        emit ''ldr64_offset'' [R base, R tmp, I 0];
        emit ''and_immed'' [R width_reg, R width_reg, I 5, I 0];
        emit ''cbnz'' [R width_reg, I 2];
        emit ''mov_immed_u16'' [R width_reg, I 32, I 0];
        emit ''mov_immed_u16'' [R mask_reg, I 1, I 0];
        emit ''lslv64'' [R mask_reg, R mask_reg, R width_reg];
        emit ''sub64_immed'' [R mask_reg, R mask_reg, I 1];
        emit ''ands64_reg'' [R masked_src, R src, R mask_reg, I LSL, I 0];
        emit ''rorv64'' [R mask_reg, R mask_reg, R width_reg];
        emit ''rorv64'' [R masked_src, R masked_src, R width_reg];
        (if update_mask \<noteq> 0 then do {
            cc \<leftarrow> RA_ModifyCC e;
            emit ''cmn64_reg'' [I 31, R masked_src, I LSL, I 0];
            update_mask \<leftarrow> EMIT_GetNZ00 e cc update_mask;
            skip
          } else skip);
        (if offset \<noteq> 0 then do {
            emit ''bic64_reg'' [R tmp, R tmp, R mask_reg, I LSR, I offset]
          } else do {
            emit ''bic64_reg'' [R tmp, R tmp, R mask_reg, I LSL, I 0]
          });
        (if offset \<noteq> 0 then do {
            emit ''orr64_reg'' [R tmp, R tmp, R masked_src, I LSR, I offset]
          } else do {
            emit ''orr64_reg'' [R tmp, R tmp, R masked_src, I LSL, I 0]
          });
        emit ''str64_offset'' [R base, R tmp, I 0];
        RA_FreeARMRegister e tmp;
        RA_FreeARMRegister e width_reg;
        RA_FreeARMRegister e mask_reg;
        RA_FreeARMRegister e masked_src
      } else if ((opcode2 AND 0x800) \<noteq> 0) \<and> (\<not> ((opcode2 AND 0x20) \<noteq> 0)) then do {
        off_reg \<leftarrow> RA_CopyFromM68kRegister e (uint ((drop_bit 6 opcode2) AND 7));
        mask_reg \<leftarrow> RA_AllocARMRegister e;
        tmp \<leftarrow> RA_AllocARMRegister e;
        let width = uint (opcode2 AND 31);
        masked_src \<leftarrow> RA_AllocARMRegister e;
        let width = (if width = 0 then 32 else width);
        emit ''ands64_immed'' [R masked_src, R src, I width, I 0, I 1];
        emit ''ror64'' [R masked_src, R masked_src, I width];
        (if update_mask \<noteq> 0 then do {
            cc \<leftarrow> RA_ModifyCC e;
            emit ''cmn64_reg'' [I 31, R masked_src, I LSL, I 0];
            update_mask \<leftarrow> EMIT_GetNZ00 e cc update_mask;
            skip
          } else skip);
        emit ''add_reg'' [R base, R base, R off_reg, I ASR, I 3];
        emit ''and_immed'' [R off_reg, R off_reg, I 3, I 0];
        emit ''orr64_immed'' [R mask_reg, I 31, I width, I width, I 1];
        emit ''ldr64_offset'' [R base, R tmp, I 0];
        emit ''lsrv64'' [R mask_reg, R mask_reg, R off_reg];
        emit ''lsrv64'' [R masked_src, R masked_src, R off_reg];
        emit ''bic64_reg'' [R tmp, R tmp, R mask_reg, I LSL, I 0];
        emit ''orr64_reg'' [R tmp, R tmp, R masked_src, I LSL, I 0];
        emit ''str64_offset'' [R base, R tmp, I 0];
        RA_FreeARMRegister e tmp;
        RA_FreeARMRegister e mask_reg;
        RA_FreeARMRegister e off_reg;
        RA_FreeARMRegister e masked_src
      } else if ((opcode2 AND 0x800) \<noteq> 0) \<and> ((opcode2 AND 0x20) \<noteq> 0) then do {
        off_reg \<leftarrow> RA_CopyFromM68kRegister e (uint ((drop_bit 6 opcode2) AND 7));
        width_reg \<leftarrow> RA_CopyFromM68kRegister e (uint (opcode2 AND 7));
        mask_reg \<leftarrow> RA_AllocARMRegister e;
        masked_src \<leftarrow> RA_AllocARMRegister e;
        tmp \<leftarrow> RA_AllocARMRegister e;
        emit ''add_reg'' [R base, R base, R off_reg, I ASR, I 3];
        emit ''and_immed'' [R off_reg, R off_reg, I 3, I 0];
        emit ''and_immed'' [R width_reg, R width_reg, I 5, I 0];
        emit ''cbnz'' [R width_reg, I 2];
        emit ''mov_immed_u16'' [R width_reg, I 32, I 0];
        emit ''mov_immed_u16'' [R mask_reg, I 1, I 0];
        emit ''lslv64'' [R mask_reg, R mask_reg, R width_reg];
        emit ''sub64_immed'' [R mask_reg, R mask_reg, I 1];
        emit ''ands64_reg'' [R masked_src, R src, R mask_reg, I LSL, I 0];
        emit ''rorv64'' [R mask_reg, R mask_reg, R width_reg];
        emit ''rorv64'' [R masked_src, R masked_src, R width_reg];
        emit ''ldr64_offset'' [R base, R tmp, I 0];
        (if update_mask \<noteq> 0 then do {
            cc \<leftarrow> RA_ModifyCC e;
            emit ''cmn64_reg'' [I 31, R masked_src, I LSL, I 0];
            update_mask \<leftarrow> EMIT_GetNZ00 e cc update_mask;
            skip
          } else skip);
        emit ''lsrv64'' [R mask_reg, R mask_reg, R off_reg];
        emit ''lsrv64'' [R masked_src, R masked_src, R off_reg];
        emit ''bic64_reg'' [R tmp, R tmp, R mask_reg, I LSL, I 0];
        emit ''orr64_reg'' [R tmp, R tmp, R masked_src, I LSL, I 0];
        emit ''str64_offset'' [R base, R tmp, I 0];
        RA_FreeARMRegister e tmp;
        RA_FreeARMRegister e mask_reg;
        RA_FreeARMRegister e width_reg;
        RA_FreeARMRegister e off_reg;
        RA_FreeARMRegister e masked_src
      } else skip);
    RA_FreeARMRegister e base;
    EMIT_AdvancePC e (2 * ((uint ext_words) + 1));
    m68k_ptr_add (uint ext_words)
  }"

text \<open>
  The right-hand variants are the same functions under a second name
  (\<^verbatim>\<open>__attribute__((alias(...)))\<close>); the direction is read from bit 8 of the opcode.
\<close>

definition EMIT_ASR :: "env \<Rightarrow> (int \<Rightarrow> u16) \<Rightarrow> u16 \<Rightarrow> (tstate, unit) state" where
  "EMIT_ASR = EMIT_ASL"

definition EMIT_LSR :: "env \<Rightarrow> (int \<Rightarrow> u16) \<Rightarrow> u16 \<Rightarrow> (tstate, unit) state" where
  "EMIT_LSR = EMIT_LSL"

definition EMIT_ROXR :: "env \<Rightarrow> (int \<Rightarrow> u16) \<Rightarrow> u16 \<Rightarrow> (tstate, unit) state" where
  "EMIT_ROXR = EMIT_ROXL"

definition EMIT_ROR :: "env \<Rightarrow> (int \<Rightarrow> u16) \<Rightarrow> u16 \<Rightarrow> (tstate, unit) state" where
  "EMIT_ROR = EMIT_ROL"

definition EMIT_ASR_mem :: "env \<Rightarrow> (int \<Rightarrow> u16) \<Rightarrow> u16 \<Rightarrow> (tstate, unit) state" where
  "EMIT_ASR_mem = EMIT_ASL_mem"

definition EMIT_LSR_mem :: "env \<Rightarrow> (int \<Rightarrow> u16) \<Rightarrow> u16 \<Rightarrow> (tstate, unit) state" where
  "EMIT_LSR_mem = EMIT_LSL_mem"

definition EMIT_ROXR_mem :: "env \<Rightarrow> (int \<Rightarrow> u16) \<Rightarrow> u16 \<Rightarrow> (tstate, unit) state" where
  "EMIT_ROXR_mem = EMIT_ROXL_mem"

definition EMIT_ROR_mem :: "env \<Rightarrow> (int \<Rightarrow> u16) \<Rightarrow> u16 \<Rightarrow> (tstate, unit) state" where
  "EMIT_ROR_mem = EMIT_ROL_mem"

subsection \<open>The dispatch table\<close>

text \<open>
  An entry of \<^verbatim>\<open>InsnTable\<close>.  The handler is a function pointer; \<open>emit_fn\<close> names the
  functions the table points to and \<open>call\<close> invokes one.  An index the initialiser does not
  mention holds the all-zero entry (a null handler).  The second initialiser of every row is
  \<^verbatim>\<open>NULL\<close> and no function of the family reads it.
\<close>

datatype emit_fn =
    fp_EMIT_ASR | fp_EMIT_LSR | fp_EMIT_ROXR | fp_EMIT_ROR
  | fp_EMIT_ASR_mem | fp_EMIT_LSR_mem | fp_EMIT_ROXR_mem | fp_EMIT_ROR_mem
  | fp_EMIT_ASL | fp_EMIT_LSL | fp_EMIT_ROXL | fp_EMIT_ROL
  | fp_EMIT_ASL_mem | fp_EMIT_LSL_mem | fp_EMIT_ROXL_mem | fp_EMIT_ROL_mem
  | fp_EMIT_BFTST | fp_EMIT_BFCHG_reg | fp_EMIT_BFCHG | fp_EMIT_BFCLR_reg
  | fp_EMIT_BFCLR | fp_EMIT_BFSET_reg | fp_EMIT_BFSET | fp_EMIT_BFEXTU
  | fp_EMIT_BFEXTS | fp_EMIT_BFFFO_reg | fp_EMIT_BFFFO | fp_EMIT_BFINS_reg
  | fp_EMIT_BFINS

definition call :: "emit_fn \<Rightarrow> env \<Rightarrow> (int \<Rightarrow> u16) \<Rightarrow> u16 \<Rightarrow> (tstate, unit) state" where
  "call f = (case f of
      fp_EMIT_ASR \<Rightarrow> EMIT_ASR
    | fp_EMIT_LSR \<Rightarrow> EMIT_LSR
    | fp_EMIT_ROXR \<Rightarrow> EMIT_ROXR
    | fp_EMIT_ROR \<Rightarrow> EMIT_ROR
    | fp_EMIT_ASR_mem \<Rightarrow> EMIT_ASR_mem
    | fp_EMIT_LSR_mem \<Rightarrow> EMIT_LSR_mem
    | fp_EMIT_ROXR_mem \<Rightarrow> EMIT_ROXR_mem
    | fp_EMIT_ROR_mem \<Rightarrow> EMIT_ROR_mem
    | fp_EMIT_ASL \<Rightarrow> EMIT_ASL
    | fp_EMIT_LSL \<Rightarrow> EMIT_LSL
    | fp_EMIT_ROXL \<Rightarrow> EMIT_ROXL
    | fp_EMIT_ROL \<Rightarrow> EMIT_ROL
    | fp_EMIT_ASL_mem \<Rightarrow> EMIT_ASL_mem
    | fp_EMIT_LSL_mem \<Rightarrow> EMIT_LSL_mem
    | fp_EMIT_ROXL_mem \<Rightarrow> EMIT_ROXL_mem
    | fp_EMIT_ROL_mem \<Rightarrow> EMIT_ROL_mem
    | fp_EMIT_BFTST \<Rightarrow> EMIT_BFTST
    | fp_EMIT_BFCHG_reg \<Rightarrow> EMIT_BFCHG_reg
    | fp_EMIT_BFCHG \<Rightarrow> EMIT_BFCHG
    | fp_EMIT_BFCLR_reg \<Rightarrow> EMIT_BFCLR_reg
    | fp_EMIT_BFCLR \<Rightarrow> EMIT_BFCLR
    | fp_EMIT_BFSET_reg \<Rightarrow> EMIT_BFSET_reg
    | fp_EMIT_BFSET \<Rightarrow> EMIT_BFSET
    | fp_EMIT_BFEXTU \<Rightarrow> EMIT_BFEXTU
    | fp_EMIT_BFEXTS \<Rightarrow> EMIT_BFEXTS
    | fp_EMIT_BFFFO_reg \<Rightarrow> EMIT_BFFFO_reg
    | fp_EMIT_BFFFO \<Rightarrow> EMIT_BFFFO
    | fp_EMIT_BFINS_reg \<Rightarrow> EMIT_BFINS_reg
    | fp_EMIT_BFINS \<Rightarrow> EMIT_BFINS)"

record OpcodeDef =
  od_Emit :: "emit_fn option"
  od_SRNeeds :: u8
  od_SRSets :: u8
  od_BaseLength :: u8
  od_HasEA :: u8
  od_OpSize :: u8

definition od_zero :: OpcodeDef where
  "od_zero = \<lparr>od_Emit = None, od_SRNeeds = 0, od_SRSets = 0, od_BaseLength = 0, od_HasEA = 0,
     od_OpSize = 0\<rparr>"

definition OD :: "emit_fn \<Rightarrow> u8 \<Rightarrow> u8 \<Rightarrow> u8 \<Rightarrow> u8 \<Rightarrow> u8 \<Rightarrow> OpcodeDef" where
  "OD f needs sets len ea sz = \<lparr>od_Emit = Some f, od_SRNeeds = needs, od_SRSets = sets,
     od_BaseLength = len, od_HasEA = ea, od_OpSize = sz\<rparr>"

text \<open>The source writes the index ranges in octal: \<open>oct a b c d\<close> is \<^verbatim>\<open>0abcd\<close>.\<close>

definition oct :: "nat \<Rightarrow> nat \<Rightarrow> nat \<Rightarrow> nat \<Rightarrow> nat" where
  "oct a b c d = ((a * 8 + b) * 8 + c) * 8 + d"

text \<open>
  The initialiser of the source is written in blocks separated by blank lines; each block is
  a list here, named after the first index of the block, and the initialiser is the blocks
  in the order of the source.
\<close>

definition InsnTable_0000 :: "(nat \<times> nat \<times> OpcodeDef) list" where
  "InsnTable_0000 = [
  (oct 0 0 0 0, oct 0 0 0 7, OD fp_EMIT_ASR SR_X SR_CCR 1 0 1),
  (oct 0 0 1 0, oct 0 0 1 7, OD fp_EMIT_LSR SR_X SR_CCR 1 0 1),
  (oct 0 0 2 0, oct 0 0 2 7, OD fp_EMIT_ROXR SR_X SR_CCR 1 0 1),
  (oct 0 0 3 0, oct 0 0 3 7, OD fp_EMIT_ROR 0 SR_NZVC 1 0 1),
  (oct 0 0 4 0, oct 0 0 4 7, OD fp_EMIT_ASR SR_X SR_CCR 1 0 1),
  (oct 0 0 5 0, oct 0 0 5 7, OD fp_EMIT_LSR SR_X SR_CCR 1 0 1),
  (oct 0 0 6 0, oct 0 0 6 7, OD fp_EMIT_ROXR SR_X SR_CCR 1 0 1),
  (oct 0 0 7 0, oct 0 0 7 7, OD fp_EMIT_ROR 0 SR_NZVC 1 0 1),
  (oct 0 1 0 0, oct 0 1 0 7, OD fp_EMIT_ASR SR_X SR_CCR 1 0 2),
  (oct 0 1 1 0, oct 0 1 1 7, OD fp_EMIT_LSR SR_X SR_CCR 1 0 2),
  (oct 0 1 2 0, oct 0 1 2 7, OD fp_EMIT_ROXR SR_X SR_CCR 1 0 2),
  (oct 0 1 3 0, oct 0 1 3 7, OD fp_EMIT_ROR 0 SR_NZVC 1 0 2),
  (oct 0 1 4 0, oct 0 1 4 7, OD fp_EMIT_ASR SR_X SR_CCR 1 0 2),
  (oct 0 1 5 0, oct 0 1 5 7, OD fp_EMIT_LSR SR_X SR_CCR 1 0 2),
  (oct 0 1 6 0, oct 0 1 6 7, OD fp_EMIT_ROXR SR_X SR_CCR 1 0 2),
  (oct 0 1 7 0, oct 0 1 7 7, OD fp_EMIT_ROR 0 SR_NZVC 1 0 2),
  (oct 0 2 0 0, oct 0 2 0 7, OD fp_EMIT_ASR SR_X SR_CCR 1 0 4),
  (oct 0 2 1 0, oct 0 2 1 7, OD fp_EMIT_LSR SR_X SR_CCR 1 0 4),
  (oct 0 2 2 0, oct 0 2 2 7, OD fp_EMIT_ROXR SR_X SR_CCR 1 0 4),
  (oct 0 2 3 0, oct 0 2 3 7, OD fp_EMIT_ROR 0 SR_NZVC 1 0 4),
  (oct 0 2 4 0, oct 0 2 4 7, OD fp_EMIT_ASR SR_X SR_CCR 1 0 4),
  (oct 0 2 5 0, oct 0 2 5 7, OD fp_EMIT_LSR SR_X SR_CCR 1 0 4),
  (oct 0 2 6 0, oct 0 2 6 7, OD fp_EMIT_ROXR SR_X SR_CCR 1 0 4),
  (oct 0 2 7 0, oct 0 2 7 7, OD fp_EMIT_ROR 0 SR_NZVC 1 0 4)
  ]"

definition InsnTable_1000 :: "(nat \<times> nat \<times> OpcodeDef) list" where
  "InsnTable_1000 = [
  (oct 1 0 0 0, oct 1 0 0 7, OD fp_EMIT_ASR SR_X SR_CCR 1 0 1),
  (oct 1 0 1 0, oct 1 0 1 7, OD fp_EMIT_LSR SR_X SR_CCR 1 0 1),
  (oct 1 0 2 0, oct 1 0 2 7, OD fp_EMIT_ROXR SR_X SR_CCR 1 0 1),
  (oct 1 0 3 0, oct 1 0 3 7, OD fp_EMIT_ROR 0 SR_NZVC 1 0 1),
  (oct 1 0 4 0, oct 1 0 4 7, OD fp_EMIT_ASR SR_X SR_CCR 1 0 1),
  (oct 1 0 5 0, oct 1 0 5 7, OD fp_EMIT_LSR SR_X SR_CCR 1 0 1),
  (oct 1 0 6 0, oct 1 0 6 7, OD fp_EMIT_ROXR SR_X SR_CCR 1 0 1),
  (oct 1 0 7 0, oct 1 0 7 7, OD fp_EMIT_ROR 0 SR_NZVC 1 0 1),
  (oct 1 1 0 0, oct 1 1 0 7, OD fp_EMIT_ASR SR_X SR_CCR 1 0 2),
  (oct 1 1 1 0, oct 1 1 1 7, OD fp_EMIT_LSR SR_X SR_CCR 1 0 2),
  (oct 1 1 2 0, oct 1 1 2 7, OD fp_EMIT_ROXR SR_X SR_CCR 1 0 2),
  (oct 1 1 3 0, oct 1 1 3 7, OD fp_EMIT_ROR 0 SR_NZVC 1 0 2),
  (oct 1 1 4 0, oct 1 1 4 7, OD fp_EMIT_ASR SR_X SR_CCR 1 0 2),
  (oct 1 1 5 0, oct 1 1 5 7, OD fp_EMIT_LSR SR_X SR_CCR 1 0 2),
  (oct 1 1 6 0, oct 1 1 6 7, OD fp_EMIT_ROXR SR_X SR_CCR 1 0 2),
  (oct 1 1 7 0, oct 1 1 7 7, OD fp_EMIT_ROR 0 SR_NZVC 1 0 2),
  (oct 1 2 0 0, oct 1 2 0 7, OD fp_EMIT_ASR SR_X SR_CCR 1 0 4),
  (oct 1 2 1 0, oct 1 2 1 7, OD fp_EMIT_LSR SR_X SR_CCR 1 0 4),
  (oct 1 2 2 0, oct 1 2 2 7, OD fp_EMIT_ROXR SR_X SR_CCR 1 0 4),
  (oct 1 2 3 0, oct 1 2 3 7, OD fp_EMIT_ROR 0 SR_NZVC 1 0 4),
  (oct 1 2 4 0, oct 1 2 4 7, OD fp_EMIT_ASR SR_X SR_CCR 1 0 4),
  (oct 1 2 5 0, oct 1 2 5 7, OD fp_EMIT_LSR SR_X SR_CCR 1 0 4),
  (oct 1 2 6 0, oct 1 2 6 7, OD fp_EMIT_ROXR SR_X SR_CCR 1 0 4),
  (oct 1 2 7 0, oct 1 2 7 7, OD fp_EMIT_ROR 0 SR_NZVC 1 0 4)
  ]"

definition InsnTable_2000 :: "(nat \<times> nat \<times> OpcodeDef) list" where
  "InsnTable_2000 = [
  (oct 2 0 0 0, oct 2 0 0 7, OD fp_EMIT_ASR SR_X SR_CCR 1 0 1),
  (oct 2 0 1 0, oct 2 0 1 7, OD fp_EMIT_LSR SR_X SR_CCR 1 0 1),
  (oct 2 0 2 0, oct 2 0 2 7, OD fp_EMIT_ROXR SR_X SR_CCR 1 0 1),
  (oct 2 0 3 0, oct 2 0 3 7, OD fp_EMIT_ROR 0 SR_NZVC 1 0 1),
  (oct 2 0 4 0, oct 2 0 4 7, OD fp_EMIT_ASR SR_X SR_CCR 1 0 1),
  (oct 2 0 5 0, oct 2 0 5 7, OD fp_EMIT_LSR SR_X SR_CCR 1 0 1),
  (oct 2 0 6 0, oct 2 0 6 7, OD fp_EMIT_ROXR SR_X SR_CCR 1 0 1),
  (oct 2 0 7 0, oct 2 0 7 7, OD fp_EMIT_ROR 0 SR_NZVC 1 0 1),
  (oct 2 1 0 0, oct 2 1 0 7, OD fp_EMIT_ASR SR_X SR_CCR 1 0 2),
  (oct 2 1 1 0, oct 2 1 1 7, OD fp_EMIT_LSR SR_X SR_CCR 1 0 2),
  (oct 2 1 2 0, oct 2 1 2 7, OD fp_EMIT_ROXR SR_X SR_CCR 1 0 2),
  (oct 2 1 3 0, oct 2 1 3 7, OD fp_EMIT_ROR 0 SR_NZVC 1 0 2),
  (oct 2 1 4 0, oct 2 1 4 7, OD fp_EMIT_ASR SR_X SR_CCR 1 0 2),
  (oct 2 1 5 0, oct 2 1 5 7, OD fp_EMIT_LSR SR_X SR_CCR 1 0 2),
  (oct 2 1 6 0, oct 2 1 6 7, OD fp_EMIT_ROXR SR_X SR_CCR 1 0 2),
  (oct 2 1 7 0, oct 2 1 7 7, OD fp_EMIT_ROR 0 SR_NZVC 1 0 2),
  (oct 2 2 0 0, oct 2 2 0 7, OD fp_EMIT_ASR SR_X SR_CCR 1 0 4),
  (oct 2 2 1 0, oct 2 2 1 7, OD fp_EMIT_LSR SR_X SR_CCR 1 0 4),
  (oct 2 2 2 0, oct 2 2 2 7, OD fp_EMIT_ROXR SR_X SR_CCR 1 0 4),
  (oct 2 2 3 0, oct 2 2 3 7, OD fp_EMIT_ROR 0 SR_NZVC 1 0 4),
  (oct 2 2 4 0, oct 2 2 4 7, OD fp_EMIT_ASR SR_X SR_CCR 1 0 4),
  (oct 2 2 5 0, oct 2 2 5 7, OD fp_EMIT_LSR SR_X SR_CCR 1 0 4),
  (oct 2 2 6 0, oct 2 2 6 7, OD fp_EMIT_ROXR SR_X SR_CCR 1 0 4),
  (oct 2 2 7 0, oct 2 2 7 7, OD fp_EMIT_ROR 0 SR_NZVC 1 0 4)
  ]"

definition InsnTable_3000 :: "(nat \<times> nat \<times> OpcodeDef) list" where
  "InsnTable_3000 = [
  (oct 3 0 0 0, oct 3 0 0 7, OD fp_EMIT_ASR SR_X SR_CCR 1 0 1),
  (oct 3 0 1 0, oct 3 0 1 7, OD fp_EMIT_LSR SR_X SR_CCR 1 0 1),
  (oct 3 0 2 0, oct 3 0 2 7, OD fp_EMIT_ROXR SR_X SR_CCR 1 0 1),
  (oct 3 0 3 0, oct 3 0 3 7, OD fp_EMIT_ROR 0 SR_NZVC 1 0 1),
  (oct 3 0 4 0, oct 3 0 4 7, OD fp_EMIT_ASR SR_X SR_CCR 1 0 1),
  (oct 3 0 5 0, oct 3 0 5 7, OD fp_EMIT_LSR SR_X SR_CCR 1 0 1),
  (oct 3 0 6 0, oct 3 0 6 7, OD fp_EMIT_ROXR SR_X SR_CCR 1 0 1),
  (oct 3 0 7 0, oct 3 0 7 7, OD fp_EMIT_ROR 0 SR_NZVC 1 0 1),
  (oct 3 1 0 0, oct 3 1 0 7, OD fp_EMIT_ASR SR_X SR_CCR 1 0 2),
  (oct 3 1 1 0, oct 3 1 1 7, OD fp_EMIT_LSR SR_X SR_CCR 1 0 2),
  (oct 3 1 2 0, oct 3 1 2 7, OD fp_EMIT_ROXR SR_X SR_CCR 1 0 2),
  (oct 3 1 3 0, oct 3 1 3 7, OD fp_EMIT_ROR 0 SR_NZVC 1 0 2),
  (oct 3 1 4 0, oct 3 1 4 7, OD fp_EMIT_ASR SR_X SR_CCR 1 0 2),
  (oct 3 1 5 0, oct 3 1 5 7, OD fp_EMIT_LSR SR_X SR_CCR 1 0 2),
  (oct 3 1 6 0, oct 3 1 6 7, OD fp_EMIT_ROXR SR_X SR_CCR 1 0 2),
  (oct 3 1 7 0, oct 3 1 7 7, OD fp_EMIT_ROR 0 SR_NZVC 1 0 2),
  (oct 3 2 0 0, oct 3 2 0 7, OD fp_EMIT_ASR SR_X SR_CCR 1 0 4),
  (oct 3 2 1 0, oct 3 2 1 7, OD fp_EMIT_LSR SR_X SR_CCR 1 0 4),
  (oct 3 2 2 0, oct 3 2 2 7, OD fp_EMIT_ROXR SR_X SR_CCR 1 0 4),
  (oct 3 2 3 0, oct 3 2 3 7, OD fp_EMIT_ROR 0 SR_NZVC 1 0 4),
  (oct 3 2 4 0, oct 3 2 4 7, OD fp_EMIT_ASR SR_X SR_CCR 1 0 4),
  (oct 3 2 5 0, oct 3 2 5 7, OD fp_EMIT_LSR SR_X SR_CCR 1 0 4),
  (oct 3 2 6 0, oct 3 2 6 7, OD fp_EMIT_ROXR SR_X SR_CCR 1 0 4),
  (oct 3 2 7 0, oct 3 2 7 7, OD fp_EMIT_ROR 0 SR_NZVC 1 0 4)
  ]"

definition InsnTable_4000 :: "(nat \<times> nat \<times> OpcodeDef) list" where
  "InsnTable_4000 = [
  (oct 4 0 0 0, oct 4 0 0 7, OD fp_EMIT_ASR SR_X SR_CCR 1 0 1),
  (oct 4 0 1 0, oct 4 0 1 7, OD fp_EMIT_LSR SR_X SR_CCR 1 0 1),
  (oct 4 0 2 0, oct 4 0 2 7, OD fp_EMIT_ROXR SR_X SR_CCR 1 0 1),
  (oct 4 0 3 0, oct 4 0 3 7, OD fp_EMIT_ROR 0 SR_NZVC 1 0 1),
  (oct 4 0 4 0, oct 4 0 4 7, OD fp_EMIT_ASR SR_X SR_CCR 1 0 1),
  (oct 4 0 5 0, oct 4 0 5 7, OD fp_EMIT_LSR SR_X SR_CCR 1 0 1),
  (oct 4 0 6 0, oct 4 0 6 7, OD fp_EMIT_ROXR SR_X SR_CCR 1 0 1),
  (oct 4 0 7 0, oct 4 0 7 7, OD fp_EMIT_ROR 0 SR_NZVC 1 0 1),
  (oct 4 1 0 0, oct 4 1 0 7, OD fp_EMIT_ASR SR_X SR_CCR 1 0 2),
  (oct 4 1 1 0, oct 4 1 1 7, OD fp_EMIT_LSR SR_X SR_CCR 1 0 2),
  (oct 4 1 2 0, oct 4 1 2 7, OD fp_EMIT_ROXR SR_X SR_CCR 1 0 2),
  (oct 4 1 3 0, oct 4 1 3 7, OD fp_EMIT_ROR 0 SR_NZVC 1 0 2),
  (oct 4 1 4 0, oct 4 1 4 7, OD fp_EMIT_ASR SR_X SR_CCR 1 0 2),
  (oct 4 1 5 0, oct 4 1 5 7, OD fp_EMIT_LSR SR_X SR_CCR 1 0 2),
  (oct 4 1 6 0, oct 4 1 6 7, OD fp_EMIT_ROXR SR_X SR_CCR 1 0 2),
  (oct 4 1 7 0, oct 4 1 7 7, OD fp_EMIT_ROR 0 SR_NZVC 1 0 2),
  (oct 4 2 0 0, oct 4 2 0 7, OD fp_EMIT_ASR SR_X SR_CCR 1 0 4),
  (oct 4 2 1 0, oct 4 2 1 7, OD fp_EMIT_LSR SR_X SR_CCR 1 0 4),
  (oct 4 2 2 0, oct 4 2 2 7, OD fp_EMIT_ROXR SR_X SR_CCR 1 0 4),
  (oct 4 2 3 0, oct 4 2 3 7, OD fp_EMIT_ROR 0 SR_NZVC 1 0 4),
  (oct 4 2 4 0, oct 4 2 4 7, OD fp_EMIT_ASR SR_X SR_CCR 1 0 4),
  (oct 4 2 5 0, oct 4 2 5 7, OD fp_EMIT_LSR SR_X SR_CCR 1 0 4),
  (oct 4 2 6 0, oct 4 2 6 7, OD fp_EMIT_ROXR SR_X SR_CCR 1 0 4),
  (oct 4 2 7 0, oct 4 2 7 7, OD fp_EMIT_ROR 0 SR_NZVC 1 0 4)
  ]"

definition InsnTable_5000 :: "(nat \<times> nat \<times> OpcodeDef) list" where
  "InsnTable_5000 = [
  (oct 5 0 0 0, oct 5 0 0 7, OD fp_EMIT_ASR SR_X SR_CCR 1 0 1),
  (oct 5 0 1 0, oct 5 0 1 7, OD fp_EMIT_LSR SR_X SR_CCR 1 0 1),
  (oct 5 0 2 0, oct 5 0 2 7, OD fp_EMIT_ROXR SR_X SR_CCR 1 0 1),
  (oct 5 0 3 0, oct 5 0 3 7, OD fp_EMIT_ROR 0 SR_NZVC 1 0 1),
  (oct 5 0 4 0, oct 5 0 4 7, OD fp_EMIT_ASR SR_X SR_CCR 1 0 1),
  (oct 5 0 5 0, oct 5 0 5 7, OD fp_EMIT_LSR SR_X SR_CCR 1 0 1),
  (oct 5 0 6 0, oct 5 0 6 7, OD fp_EMIT_ROXR SR_X SR_CCR 1 0 1),
  (oct 5 0 7 0, oct 5 0 7 7, OD fp_EMIT_ROR 0 SR_NZVC 1 0 1),
  (oct 5 1 0 0, oct 5 1 0 7, OD fp_EMIT_ASR SR_X SR_CCR 1 0 2),
  (oct 5 1 1 0, oct 5 1 1 7, OD fp_EMIT_LSR SR_X SR_CCR 1 0 2),
  (oct 5 1 2 0, oct 5 1 2 7, OD fp_EMIT_ROXR SR_X SR_CCR 1 0 2),
  (oct 5 1 3 0, oct 5 1 3 7, OD fp_EMIT_ROR 0 SR_NZVC 1 0 2),
  (oct 5 1 4 0, oct 5 1 4 7, OD fp_EMIT_ASR SR_X SR_CCR 1 0 2),
  (oct 5 1 5 0, oct 5 1 5 7, OD fp_EMIT_LSR SR_X SR_CCR 1 0 2),
  (oct 5 1 6 0, oct 5 1 6 7, OD fp_EMIT_ROXR SR_X SR_CCR 1 0 2),
  (oct 5 1 7 0, oct 5 1 7 7, OD fp_EMIT_ROR 0 SR_NZVC 1 0 2),
  (oct 5 2 0 0, oct 5 2 0 7, OD fp_EMIT_ASR SR_X SR_CCR 1 0 4),
  (oct 5 2 1 0, oct 5 2 1 7, OD fp_EMIT_LSR SR_X SR_CCR 1 0 4),
  (oct 5 2 2 0, oct 5 2 2 7, OD fp_EMIT_ROXR SR_X SR_CCR 1 0 4),
  (oct 5 2 3 0, oct 5 2 3 7, OD fp_EMIT_ROR 0 SR_NZVC 1 0 4),
  (oct 5 2 4 0, oct 5 2 4 7, OD fp_EMIT_ASR SR_X SR_CCR 1 0 4),
  (oct 5 2 5 0, oct 5 2 5 7, OD fp_EMIT_LSR SR_X SR_CCR 1 0 4),
  (oct 5 2 6 0, oct 5 2 6 7, OD fp_EMIT_ROXR SR_X SR_CCR 1 0 4),
  (oct 5 2 7 0, oct 5 2 7 7, OD fp_EMIT_ROR 0 SR_NZVC 1 0 4)
  ]"

definition InsnTable_6000 :: "(nat \<times> nat \<times> OpcodeDef) list" where
  "InsnTable_6000 = [
  (oct 6 0 0 0, oct 6 0 0 7, OD fp_EMIT_ASR SR_X SR_CCR 1 0 1),
  (oct 6 0 1 0, oct 6 0 1 7, OD fp_EMIT_LSR SR_X SR_CCR 1 0 1),
  (oct 6 0 2 0, oct 6 0 2 7, OD fp_EMIT_ROXR SR_X SR_CCR 1 0 1),
  (oct 6 0 3 0, oct 6 0 3 7, OD fp_EMIT_ROR 0 SR_NZVC 1 0 1),
  (oct 6 0 4 0, oct 6 0 4 7, OD fp_EMIT_ASR SR_X SR_CCR 1 0 1),
  (oct 6 0 5 0, oct 6 0 5 7, OD fp_EMIT_LSR SR_X SR_CCR 1 0 1),
  (oct 6 0 6 0, oct 6 0 6 7, OD fp_EMIT_ROXR SR_X SR_CCR 1 0 1),
  (oct 6 0 7 0, oct 6 0 7 7, OD fp_EMIT_ROR 0 SR_NZVC 1 0 1),
  (oct 6 1 0 0, oct 6 1 0 7, OD fp_EMIT_ASR SR_X SR_CCR 1 0 2),
  (oct 6 1 1 0, oct 6 1 1 7, OD fp_EMIT_LSR SR_X SR_CCR 1 0 2),
  (oct 6 1 2 0, oct 6 1 2 7, OD fp_EMIT_ROXR SR_X SR_CCR 1 0 2),
  (oct 6 1 3 0, oct 6 1 3 7, OD fp_EMIT_ROR 0 SR_NZVC 1 0 2),
  (oct 6 1 4 0, oct 6 1 4 7, OD fp_EMIT_ASR SR_X SR_CCR 1 0 2),
  (oct 6 1 5 0, oct 6 1 5 7, OD fp_EMIT_LSR SR_X SR_CCR 1 0 2),
  (oct 6 1 6 0, oct 6 1 6 7, OD fp_EMIT_ROXR SR_X SR_CCR 1 0 2),
  (oct 6 1 7 0, oct 6 1 7 7, OD fp_EMIT_ROR 0 SR_NZVC 1 0 2),
  (oct 6 2 0 0, oct 6 2 0 7, OD fp_EMIT_ASR SR_X SR_CCR 1 0 4),
  (oct 6 2 1 0, oct 6 2 1 7, OD fp_EMIT_LSR SR_X SR_CCR 1 0 4),
  (oct 6 2 2 0, oct 6 2 2 7, OD fp_EMIT_ROXR SR_X SR_CCR 1 0 4),
  (oct 6 2 3 0, oct 6 2 3 7, OD fp_EMIT_ROR 0 SR_NZVC 1 0 4),
  (oct 6 2 4 0, oct 6 2 4 7, OD fp_EMIT_ASR SR_X SR_CCR 1 0 4),
  (oct 6 2 5 0, oct 6 2 5 7, OD fp_EMIT_LSR SR_X SR_CCR 1 0 4),
  (oct 6 2 6 0, oct 6 2 6 7, OD fp_EMIT_ROXR SR_X SR_CCR 1 0 4),
  (oct 6 2 7 0, oct 6 2 7 7, OD fp_EMIT_ROR 0 SR_NZVC 1 0 4)
  ]"

definition InsnTable_7000 :: "(nat \<times> nat \<times> OpcodeDef) list" where
  "InsnTable_7000 = [
  (oct 7 0 0 0, oct 7 0 0 7, OD fp_EMIT_ASR SR_X SR_CCR 1 0 1),
  (oct 7 0 1 0, oct 7 0 1 7, OD fp_EMIT_LSR SR_X SR_CCR 1 0 1),
  (oct 7 0 2 0, oct 7 0 2 7, OD fp_EMIT_ROXR SR_X SR_CCR 1 0 1),
  (oct 7 0 3 0, oct 7 0 3 7, OD fp_EMIT_ROR 0 SR_NZVC 1 0 1),
  (oct 7 0 4 0, oct 7 0 4 7, OD fp_EMIT_ASR SR_X SR_CCR 1 0 1),
  (oct 7 0 5 0, oct 7 0 5 7, OD fp_EMIT_LSR SR_X SR_CCR 1 0 1),
  (oct 7 0 6 0, oct 7 0 6 7, OD fp_EMIT_ROXR SR_X SR_CCR 1 0 1),
  (oct 7 0 7 0, oct 7 0 7 7, OD fp_EMIT_ROR 0 SR_NZVC 1 0 1),
  (oct 7 1 0 0, oct 7 1 0 7, OD fp_EMIT_ASR SR_X SR_CCR 1 0 2),
  (oct 7 1 1 0, oct 7 1 1 7, OD fp_EMIT_LSR SR_X SR_CCR 1 0 2),
  (oct 7 1 2 0, oct 7 1 2 7, OD fp_EMIT_ROXR SR_X SR_CCR 1 0 2),
  (oct 7 1 3 0, oct 7 1 3 7, OD fp_EMIT_ROR 0 SR_NZVC 1 0 2),
  (oct 7 1 4 0, oct 7 1 4 7, OD fp_EMIT_ASR SR_X SR_CCR 1 0 2),
  (oct 7 1 5 0, oct 7 1 5 7, OD fp_EMIT_LSR SR_X SR_CCR 1 0 2),
  (oct 7 1 6 0, oct 7 1 6 7, OD fp_EMIT_ROXR SR_X SR_CCR 1 0 2),
  (oct 7 1 7 0, oct 7 1 7 7, OD fp_EMIT_ROR 0 SR_NZVC 1 0 2),
  (oct 7 2 0 0, oct 7 2 0 7, OD fp_EMIT_ASR SR_X SR_CCR 1 0 4),
  (oct 7 2 1 0, oct 7 2 1 7, OD fp_EMIT_LSR SR_X SR_CCR 1 0 4),
  (oct 7 2 2 0, oct 7 2 2 7, OD fp_EMIT_ROXR SR_X SR_CCR 1 0 4),
  (oct 7 2 3 0, oct 7 2 3 7, OD fp_EMIT_ROR 0 SR_NZVC 1 0 4),
  (oct 7 2 4 0, oct 7 2 4 7, OD fp_EMIT_ASR SR_X SR_CCR 1 0 4),
  (oct 7 2 5 0, oct 7 2 5 7, OD fp_EMIT_LSR SR_X SR_CCR 1 0 4),
  (oct 7 2 6 0, oct 7 2 6 7, OD fp_EMIT_ROXR SR_X SR_CCR 1 0 4),
  (oct 7 2 7 0, oct 7 2 7 7, OD fp_EMIT_ROR 0 SR_NZVC 1 0 4)
  ]"

definition InsnTable_0320 :: "(nat \<times> nat \<times> OpcodeDef) list" where
  "InsnTable_0320 = [
  (oct 0 3 2 0, oct 0 3 7 1, OD fp_EMIT_ASR_mem SR_X SR_CCR 1 1 2),
  (oct 1 3 2 0, oct 1 3 7 1, OD fp_EMIT_LSR_mem SR_X SR_CCR 1 1 2),
  (oct 2 3 2 0, oct 2 3 7 1, OD fp_EMIT_ROXR_mem SR_X SR_CCR 1 1 2),
  (oct 3 3 2 0, oct 3 3 7 1, OD fp_EMIT_ROR_mem 0 SR_NZVC 1 1 2)
  ]"

definition InsnTable_0400 :: "(nat \<times> nat \<times> OpcodeDef) list" where
  "InsnTable_0400 = [
  (oct 0 4 0 0, oct 0 4 0 7, OD fp_EMIT_ASL SR_X SR_CCR 1 0 1),
  (oct 0 4 1 0, oct 0 4 1 7, OD fp_EMIT_LSL SR_X SR_CCR 1 0 1),
  (oct 0 4 2 0, oct 0 4 2 7, OD fp_EMIT_ROXL SR_X SR_CCR 1 0 1),
  (oct 0 4 3 0, oct 0 4 3 7, OD fp_EMIT_ROL 0 SR_NZVC 1 0 1),
  (oct 0 4 4 0, oct 0 4 4 7, OD fp_EMIT_ASL SR_X SR_CCR 1 0 1),
  (oct 0 4 5 0, oct 0 4 5 7, OD fp_EMIT_LSL SR_X SR_CCR 1 0 1),
  (oct 0 4 6 0, oct 0 4 6 7, OD fp_EMIT_ROXL SR_X SR_CCR 1 0 1),
  (oct 0 4 7 0, oct 0 4 7 7, OD fp_EMIT_ROL 0 SR_NZVC 1 0 1),
  (oct 0 5 0 0, oct 0 5 0 7, OD fp_EMIT_ASL SR_X SR_CCR 1 0 2),
  (oct 0 5 1 0, oct 0 5 1 7, OD fp_EMIT_LSL SR_X SR_CCR 1 0 2),
  (oct 0 5 2 0, oct 0 5 2 7, OD fp_EMIT_ROXL SR_X SR_CCR 1 0 2),
  (oct 0 5 3 0, oct 0 5 3 7, OD fp_EMIT_ROL 0 SR_NZVC 1 0 2),
  (oct 0 5 4 0, oct 0 5 4 7, OD fp_EMIT_ASL SR_X SR_CCR 1 0 2),
  (oct 0 5 5 0, oct 0 5 5 7, OD fp_EMIT_LSL SR_X SR_CCR 1 0 2),
  (oct 0 5 6 0, oct 0 5 6 7, OD fp_EMIT_ROXL SR_X SR_CCR 1 0 2),
  (oct 0 5 7 0, oct 0 5 7 7, OD fp_EMIT_ROL 0 SR_NZVC 1 0 2),
  (oct 0 6 0 0, oct 0 6 0 7, OD fp_EMIT_ASL SR_X SR_CCR 1 0 4),
  (oct 0 6 1 0, oct 0 6 1 7, OD fp_EMIT_LSL SR_X SR_CCR 1 0 4),
  (oct 0 6 2 0, oct 0 6 2 7, OD fp_EMIT_ROXL SR_X SR_CCR 1 0 4),
  (oct 0 6 3 0, oct 0 6 3 7, OD fp_EMIT_ROL 0 SR_NZVC 1 0 4),
  (oct 0 6 4 0, oct 0 6 4 7, OD fp_EMIT_ASL SR_X SR_CCR 1 0 4),
  (oct 0 6 5 0, oct 0 6 5 7, OD fp_EMIT_LSL SR_X SR_CCR 1 0 4),
  (oct 0 6 6 0, oct 0 6 6 7, OD fp_EMIT_ROXL SR_X SR_CCR 1 0 4),
  (oct 0 6 7 0, oct 0 6 7 7, OD fp_EMIT_ROL 0 SR_NZVC 1 0 4)
  ]"

definition InsnTable_1400 :: "(nat \<times> nat \<times> OpcodeDef) list" where
  "InsnTable_1400 = [
  (oct 1 4 0 0, oct 1 4 0 7, OD fp_EMIT_ASL SR_X SR_CCR 1 0 1),
  (oct 1 4 1 0, oct 1 4 1 7, OD fp_EMIT_LSL SR_X SR_CCR 1 0 1),
  (oct 1 4 2 0, oct 1 4 2 7, OD fp_EMIT_ROXL SR_X SR_CCR 1 0 1),
  (oct 1 4 3 0, oct 1 4 3 7, OD fp_EMIT_ROL 0 SR_NZVC 1 0 1),
  (oct 1 4 4 0, oct 1 4 4 7, OD fp_EMIT_ASL SR_X SR_CCR 1 0 1),
  (oct 1 4 5 0, oct 1 4 5 7, OD fp_EMIT_LSL SR_X SR_CCR 1 0 1),
  (oct 1 4 6 0, oct 1 4 6 7, OD fp_EMIT_ROXL SR_X SR_CCR 1 0 1),
  (oct 1 4 7 0, oct 1 4 7 7, OD fp_EMIT_ROL 0 SR_NZVC 1 0 1),
  (oct 1 5 0 0, oct 1 5 0 7, OD fp_EMIT_ASL SR_X SR_CCR 1 0 2),
  (oct 1 5 1 0, oct 1 5 1 7, OD fp_EMIT_LSL SR_X SR_CCR 1 0 2),
  (oct 1 5 2 0, oct 1 5 2 7, OD fp_EMIT_ROXL SR_X SR_CCR 1 0 2),
  (oct 1 5 3 0, oct 1 5 3 7, OD fp_EMIT_ROL 0 SR_NZVC 1 0 2),
  (oct 1 5 4 0, oct 1 5 4 7, OD fp_EMIT_ASL SR_X SR_CCR 1 0 2),
  (oct 1 5 5 0, oct 1 5 5 7, OD fp_EMIT_LSL SR_X SR_CCR 1 0 2),
  (oct 1 5 6 0, oct 1 5 6 7, OD fp_EMIT_ROXL SR_X SR_CCR 1 0 2),
  (oct 1 5 7 0, oct 1 5 7 7, OD fp_EMIT_ROL 0 SR_NZVC 1 0 2),
  (oct 1 6 0 0, oct 1 6 0 7, OD fp_EMIT_ASL SR_X SR_CCR 1 0 4),
  (oct 1 6 1 0, oct 1 6 1 7, OD fp_EMIT_LSL SR_X SR_CCR 1 0 4),
  (oct 1 6 2 0, oct 1 6 2 7, OD fp_EMIT_ROXL SR_X SR_CCR 1 0 4),
  (oct 1 6 3 0, oct 1 6 3 7, OD fp_EMIT_ROL 0 SR_NZVC 1 0 4),
  (oct 1 6 4 0, oct 1 6 4 7, OD fp_EMIT_ASL SR_X SR_CCR 1 0 4),
  (oct 1 6 5 0, oct 1 6 5 7, OD fp_EMIT_LSL SR_X SR_CCR 1 0 4),
  (oct 1 6 6 0, oct 1 6 6 7, OD fp_EMIT_ROXL SR_X SR_CCR 1 0 4),
  (oct 1 6 7 0, oct 1 6 7 7, OD fp_EMIT_ROL 0 SR_NZVC 1 0 4)
  ]"

definition InsnTable_2400 :: "(nat \<times> nat \<times> OpcodeDef) list" where
  "InsnTable_2400 = [
  (oct 2 4 0 0, oct 2 4 0 7, OD fp_EMIT_ASL SR_X SR_CCR 1 0 1),
  (oct 2 4 1 0, oct 2 4 1 7, OD fp_EMIT_LSL SR_X SR_CCR 1 0 1),
  (oct 2 4 2 0, oct 2 4 2 7, OD fp_EMIT_ROXL SR_X SR_CCR 1 0 1),
  (oct 2 4 3 0, oct 2 4 3 7, OD fp_EMIT_ROL 0 SR_NZVC 1 0 1),
  (oct 2 4 4 0, oct 2 4 4 7, OD fp_EMIT_ASL SR_X SR_CCR 1 0 1),
  (oct 2 4 5 0, oct 2 4 5 7, OD fp_EMIT_LSL SR_X SR_CCR 1 0 1),
  (oct 2 4 6 0, oct 2 4 6 7, OD fp_EMIT_ROXL SR_X SR_CCR 1 0 1),
  (oct 2 4 7 0, oct 2 4 7 7, OD fp_EMIT_ROL 0 SR_NZVC 1 0 1),
  (oct 2 5 0 0, oct 2 5 0 7, OD fp_EMIT_ASL SR_X SR_CCR 1 0 2),
  (oct 2 5 1 0, oct 2 5 1 7, OD fp_EMIT_LSL SR_X SR_CCR 1 0 2),
  (oct 2 5 2 0, oct 2 5 2 7, OD fp_EMIT_ROXL SR_X SR_CCR 1 0 2),
  (oct 2 5 3 0, oct 2 5 3 7, OD fp_EMIT_ROL 0 SR_NZVC 1 0 2),
  (oct 2 5 4 0, oct 2 5 4 7, OD fp_EMIT_ASL SR_X SR_CCR 1 0 2),
  (oct 2 5 5 0, oct 2 5 5 7, OD fp_EMIT_LSL SR_X SR_CCR 1 0 2),
  (oct 2 5 6 0, oct 2 5 6 7, OD fp_EMIT_ROXL SR_X SR_CCR 1 0 2),
  (oct 2 5 7 0, oct 2 5 7 7, OD fp_EMIT_ROL 0 SR_NZVC 1 0 2),
  (oct 2 6 0 0, oct 2 6 0 7, OD fp_EMIT_ASL SR_X SR_CCR 1 0 4),
  (oct 2 6 1 0, oct 2 6 1 7, OD fp_EMIT_LSL SR_X SR_CCR 1 0 4),
  (oct 2 6 2 0, oct 2 6 2 7, OD fp_EMIT_ROXL SR_X SR_CCR 1 0 4),
  (oct 2 6 3 0, oct 2 6 3 7, OD fp_EMIT_ROL 0 SR_NZVC 1 0 4),
  (oct 2 6 4 0, oct 2 6 4 7, OD fp_EMIT_ASL SR_X SR_CCR 1 0 4),
  (oct 2 6 5 0, oct 2 6 5 7, OD fp_EMIT_LSL SR_X SR_CCR 1 0 4),
  (oct 2 6 6 0, oct 2 6 6 7, OD fp_EMIT_ROXL SR_X SR_CCR 1 0 4),
  (oct 2 6 7 0, oct 2 6 7 7, OD fp_EMIT_ROL 0 SR_NZVC 1 0 4)
  ]"

definition InsnTable_3400 :: "(nat \<times> nat \<times> OpcodeDef) list" where
  "InsnTable_3400 = [
  (oct 3 4 0 0, oct 3 4 0 7, OD fp_EMIT_ASL SR_X SR_CCR 1 0 1),
  (oct 3 4 1 0, oct 3 4 1 7, OD fp_EMIT_LSL SR_X SR_CCR 1 0 1),
  (oct 3 4 2 0, oct 3 4 2 7, OD fp_EMIT_ROXL SR_X SR_CCR 1 0 1),
  (oct 3 4 3 0, oct 3 4 3 7, OD fp_EMIT_ROL 0 SR_NZVC 1 0 1),
  (oct 3 4 4 0, oct 3 4 4 7, OD fp_EMIT_ASL SR_X SR_CCR 1 0 1),
  (oct 3 4 5 0, oct 3 4 5 7, OD fp_EMIT_LSL SR_X SR_CCR 1 0 1),
  (oct 3 4 6 0, oct 3 4 6 7, OD fp_EMIT_ROXL SR_X SR_CCR 1 0 1),
  (oct 3 4 7 0, oct 3 4 7 7, OD fp_EMIT_ROL 0 SR_NZVC 1 0 1),
  (oct 3 5 0 0, oct 3 5 0 7, OD fp_EMIT_ASL SR_X SR_CCR 1 0 2),
  (oct 3 5 1 0, oct 3 5 1 7, OD fp_EMIT_LSL SR_X SR_CCR 1 0 2),
  (oct 3 5 2 0, oct 3 5 2 7, OD fp_EMIT_ROXL SR_X SR_CCR 1 0 2),
  (oct 3 5 3 0, oct 3 5 3 7, OD fp_EMIT_ROL 0 SR_NZVC 1 0 2),
  (oct 3 5 4 0, oct 3 5 4 7, OD fp_EMIT_ASL SR_X SR_CCR 1 0 2),
  (oct 3 5 5 0, oct 3 5 5 7, OD fp_EMIT_LSL SR_X SR_CCR 1 0 2),
  (oct 3 5 6 0, oct 3 5 6 7, OD fp_EMIT_ROXL SR_X SR_CCR 1 0 2),
  (oct 3 5 7 0, oct 3 5 7 7, OD fp_EMIT_ROL 0 SR_NZVC 1 0 2),
  (oct 3 6 0 0, oct 3 6 0 7, OD fp_EMIT_ASL SR_X SR_CCR 1 0 4),
  (oct 3 6 1 0, oct 3 6 1 7, OD fp_EMIT_LSL SR_X SR_CCR 1 0 4),
  (oct 3 6 2 0, oct 3 6 2 7, OD fp_EMIT_ROXL SR_X SR_CCR 1 0 4),
  (oct 3 6 3 0, oct 3 6 3 7, OD fp_EMIT_ROL 0 SR_NZVC 1 0 4),
  (oct 3 6 4 0, oct 3 6 4 7, OD fp_EMIT_ASL SR_X SR_CCR 1 0 4),
  (oct 3 6 5 0, oct 3 6 5 7, OD fp_EMIT_LSL SR_X SR_CCR 1 0 4),
  (oct 3 6 6 0, oct 3 6 6 7, OD fp_EMIT_ROXL SR_X SR_CCR 1 0 4),
  (oct 3 6 7 0, oct 3 6 7 7, OD fp_EMIT_ROL 0 SR_NZVC 1 0 4)
  ]"

definition InsnTable_4400 :: "(nat \<times> nat \<times> OpcodeDef) list" where
  "InsnTable_4400 = [
  (oct 4 4 0 0, oct 4 4 0 7, OD fp_EMIT_ASL SR_X SR_CCR 1 0 1),
  (oct 4 4 1 0, oct 4 4 1 7, OD fp_EMIT_LSL SR_X SR_CCR 1 0 1),
  (oct 4 4 2 0, oct 4 4 2 7, OD fp_EMIT_ROXL SR_X SR_CCR 1 0 1),
  (oct 4 4 3 0, oct 4 4 3 7, OD fp_EMIT_ROL 0 SR_NZVC 1 0 1),
  (oct 4 4 4 0, oct 4 4 4 7, OD fp_EMIT_ASL SR_X SR_CCR 1 0 1),
  (oct 4 4 5 0, oct 4 4 5 7, OD fp_EMIT_LSL SR_X SR_CCR 1 0 1),
  (oct 4 4 6 0, oct 4 4 6 7, OD fp_EMIT_ROXL SR_X SR_CCR 1 0 1),
  (oct 4 4 7 0, oct 4 4 7 7, OD fp_EMIT_ROL 0 SR_NZVC 1 0 1),
  (oct 4 5 0 0, oct 4 5 0 7, OD fp_EMIT_ASL SR_X SR_CCR 1 0 2),
  (oct 4 5 1 0, oct 4 5 1 7, OD fp_EMIT_LSL SR_X SR_CCR 1 0 2),
  (oct 4 5 2 0, oct 4 5 2 7, OD fp_EMIT_ROXL SR_X SR_CCR 1 0 2),
  (oct 4 5 3 0, oct 4 5 3 7, OD fp_EMIT_ROL 0 SR_NZVC 1 0 2),
  (oct 4 5 4 0, oct 4 5 4 7, OD fp_EMIT_ASL SR_X SR_CCR 1 0 2),
  (oct 4 5 5 0, oct 4 5 5 7, OD fp_EMIT_LSL SR_X SR_CCR 1 0 2),
  (oct 4 5 6 0, oct 4 5 6 7, OD fp_EMIT_ROXL SR_X SR_CCR 1 0 2),
  (oct 4 5 7 0, oct 4 5 7 7, OD fp_EMIT_ROL 0 SR_NZVC 1 0 2),
  (oct 4 6 0 0, oct 4 6 0 7, OD fp_EMIT_ASL SR_X SR_CCR 1 0 4),
  (oct 4 6 1 0, oct 4 6 1 7, OD fp_EMIT_LSL SR_X SR_CCR 1 0 4),
  (oct 4 6 2 0, oct 4 6 2 7, OD fp_EMIT_ROXL SR_X SR_CCR 1 0 4),
  (oct 4 6 3 0, oct 4 6 3 7, OD fp_EMIT_ROL 0 SR_NZVC 1 0 4),
  (oct 4 6 4 0, oct 4 6 4 7, OD fp_EMIT_ASL SR_X SR_CCR 1 0 4),
  (oct 4 6 5 0, oct 4 6 5 7, OD fp_EMIT_LSL SR_X SR_CCR 1 0 4),
  (oct 4 6 6 0, oct 4 6 6 7, OD fp_EMIT_ROXL SR_X SR_CCR 1 0 4),
  (oct 4 6 7 0, oct 4 6 7 7, OD fp_EMIT_ROL 0 SR_NZVC 1 0 4)
  ]"

definition InsnTable_5400 :: "(nat \<times> nat \<times> OpcodeDef) list" where
  "InsnTable_5400 = [
  (oct 5 4 0 0, oct 5 4 0 7, OD fp_EMIT_ASL SR_X SR_CCR 1 0 1),
  (oct 5 4 1 0, oct 5 4 1 7, OD fp_EMIT_LSL SR_X SR_CCR 1 0 1),
  (oct 5 4 2 0, oct 5 4 2 7, OD fp_EMIT_ROXL SR_X SR_CCR 1 0 1),
  (oct 5 4 3 0, oct 5 4 3 7, OD fp_EMIT_ROL 0 SR_NZVC 1 0 1),
  (oct 5 4 4 0, oct 5 4 4 7, OD fp_EMIT_ASL SR_X SR_CCR 1 0 1),
  (oct 5 4 5 0, oct 5 4 5 7, OD fp_EMIT_LSL SR_X SR_CCR 1 0 1),
  (oct 5 4 6 0, oct 5 4 6 7, OD fp_EMIT_ROXL SR_X SR_CCR 1 0 1),
  (oct 5 4 7 0, oct 5 4 7 7, OD fp_EMIT_ROL 0 SR_NZVC 1 0 1),
  (oct 5 5 0 0, oct 5 5 0 7, OD fp_EMIT_ASL SR_X SR_CCR 1 0 2),
  (oct 5 5 1 0, oct 5 5 1 7, OD fp_EMIT_LSL SR_X SR_CCR 1 0 2),
  (oct 5 5 2 0, oct 5 5 2 7, OD fp_EMIT_ROXL SR_X SR_CCR 1 0 2),
  (oct 5 5 3 0, oct 5 5 3 7, OD fp_EMIT_ROL 0 SR_NZVC 1 0 2),
  (oct 5 5 4 0, oct 5 5 4 7, OD fp_EMIT_ASL SR_X SR_CCR 1 0 2),
  (oct 5 5 5 0, oct 5 5 5 7, OD fp_EMIT_LSL SR_X SR_CCR 1 0 2),
  (oct 5 5 6 0, oct 5 5 6 7, OD fp_EMIT_ROXL SR_X SR_CCR 1 0 2),
  (oct 5 5 7 0, oct 5 5 7 7, OD fp_EMIT_ROL 0 SR_NZVC 1 0 2),
  (oct 5 6 0 0, oct 5 6 0 7, OD fp_EMIT_ASL SR_X SR_CCR 1 0 4),
  (oct 5 6 1 0, oct 5 6 1 7, OD fp_EMIT_LSL SR_X SR_CCR 1 0 4),
  (oct 5 6 2 0, oct 5 6 2 7, OD fp_EMIT_ROXL SR_X SR_CCR 1 0 4),
  (oct 5 6 3 0, oct 5 6 3 7, OD fp_EMIT_ROL 0 SR_NZVC 1 0 4),
  (oct 5 6 4 0, oct 5 6 4 7, OD fp_EMIT_ASL SR_X SR_CCR 1 0 4),
  (oct 5 6 5 0, oct 5 6 5 7, OD fp_EMIT_LSL SR_X SR_CCR 1 0 4),
  (oct 5 6 6 0, oct 5 6 6 7, OD fp_EMIT_ROXL SR_X SR_CCR 1 0 4),
  (oct 5 6 7 0, oct 5 6 7 7, OD fp_EMIT_ROL 0 SR_NZVC 1 0 4)
  ]"

definition InsnTable_6400 :: "(nat \<times> nat \<times> OpcodeDef) list" where
  "InsnTable_6400 = [
  (oct 6 4 0 0, oct 6 4 0 7, OD fp_EMIT_ASL SR_X SR_CCR 1 0 1),
  (oct 6 4 1 0, oct 6 4 1 7, OD fp_EMIT_LSL SR_X SR_CCR 1 0 1),
  (oct 6 4 2 0, oct 6 4 2 7, OD fp_EMIT_ROXL SR_X SR_CCR 1 0 1),
  (oct 6 4 3 0, oct 6 4 3 7, OD fp_EMIT_ROL 0 SR_NZVC 1 0 1),
  (oct 6 4 4 0, oct 6 4 4 7, OD fp_EMIT_ASL SR_X SR_CCR 1 0 1),
  (oct 6 4 5 0, oct 6 4 5 7, OD fp_EMIT_LSL SR_X SR_CCR 1 0 1),
  (oct 6 4 6 0, oct 6 4 6 7, OD fp_EMIT_ROXL SR_X SR_CCR 1 0 1),
  (oct 6 4 7 0, oct 6 4 7 7, OD fp_EMIT_ROL 0 SR_NZVC 1 0 1),
  (oct 6 5 0 0, oct 6 5 0 7, OD fp_EMIT_ASL SR_X SR_CCR 1 0 2),
  (oct 6 5 1 0, oct 6 5 1 7, OD fp_EMIT_LSL SR_X SR_CCR 1 0 2),
  (oct 6 5 2 0, oct 6 5 2 7, OD fp_EMIT_ROXL SR_X SR_CCR 1 0 2),
  (oct 6 5 3 0, oct 6 5 3 7, OD fp_EMIT_ROL 0 SR_NZVC 1 0 2),
  (oct 6 5 4 0, oct 6 5 4 7, OD fp_EMIT_ASL SR_X SR_CCR 1 0 2),
  (oct 6 5 5 0, oct 6 5 5 7, OD fp_EMIT_LSL SR_X SR_CCR 1 0 2),
  (oct 6 5 6 0, oct 6 5 6 7, OD fp_EMIT_ROXL SR_X SR_CCR 1 0 2),
  (oct 6 5 7 0, oct 6 5 7 7, OD fp_EMIT_ROL 0 SR_NZVC 1 0 2),
  (oct 6 6 0 0, oct 6 6 0 7, OD fp_EMIT_ASL SR_X SR_CCR 1 0 4),
  (oct 6 6 1 0, oct 6 6 1 7, OD fp_EMIT_LSL SR_X SR_CCR 1 0 4),
  (oct 6 6 2 0, oct 6 6 2 7, OD fp_EMIT_ROXL SR_X SR_CCR 1 0 4),
  (oct 6 6 3 0, oct 6 6 3 7, OD fp_EMIT_ROL 0 SR_NZVC 1 0 4),
  (oct 6 6 4 0, oct 6 6 4 7, OD fp_EMIT_ASL SR_X SR_CCR 1 0 4),
  (oct 6 6 5 0, oct 6 6 5 7, OD fp_EMIT_LSL SR_X SR_CCR 1 0 4),
  (oct 6 6 6 0, oct 6 6 6 7, OD fp_EMIT_ROXL SR_X SR_CCR 1 0 4),
  (oct 6 6 7 0, oct 6 6 7 7, OD fp_EMIT_ROL 0 SR_NZVC 1 0 4)
  ]"

definition InsnTable_7400 :: "(nat \<times> nat \<times> OpcodeDef) list" where
  "InsnTable_7400 = [
  (oct 7 4 0 0, oct 7 4 0 7, OD fp_EMIT_ASL SR_X SR_CCR 1 0 1),
  (oct 7 4 1 0, oct 7 4 1 7, OD fp_EMIT_LSL SR_X SR_CCR 1 0 1),
  (oct 7 4 2 0, oct 7 4 2 7, OD fp_EMIT_ROXL SR_X SR_CCR 1 0 1),
  (oct 7 4 3 0, oct 7 4 3 7, OD fp_EMIT_ROL 0 SR_NZVC 1 0 1),
  (oct 7 4 4 0, oct 7 4 4 7, OD fp_EMIT_ASL SR_X SR_CCR 1 0 1),
  (oct 7 4 5 0, oct 7 4 5 7, OD fp_EMIT_LSL SR_X SR_CCR 1 0 1),
  (oct 7 4 6 0, oct 7 4 6 7, OD fp_EMIT_ROXL SR_X SR_CCR 1 0 1),
  (oct 7 4 7 0, oct 7 4 7 7, OD fp_EMIT_ROL 0 SR_NZVC 1 0 1),
  (oct 7 5 0 0, oct 7 5 0 7, OD fp_EMIT_ASL SR_X SR_CCR 1 0 2),
  (oct 7 5 1 0, oct 7 5 1 7, OD fp_EMIT_LSL SR_X SR_CCR 1 0 2),
  (oct 7 5 2 0, oct 7 5 2 7, OD fp_EMIT_ROXL SR_X SR_CCR 1 0 2),
  (oct 7 5 3 0, oct 7 5 3 7, OD fp_EMIT_ROL 0 SR_NZVC 1 0 2),
  (oct 7 5 4 0, oct 7 5 4 7, OD fp_EMIT_ASL SR_X SR_CCR 1 0 2),
  (oct 7 5 5 0, oct 7 5 5 7, OD fp_EMIT_LSL SR_X SR_CCR 1 0 2),
  (oct 7 5 6 0, oct 7 5 6 7, OD fp_EMIT_ROXL SR_X SR_CCR 1 0 2),
  (oct 7 5 7 0, oct 7 5 7 7, OD fp_EMIT_ROL 0 SR_NZVC 1 0 2),
  (oct 7 6 0 0, oct 7 6 0 7, OD fp_EMIT_ASL SR_X SR_CCR 1 0 4),
  (oct 7 6 1 0, oct 7 6 1 7, OD fp_EMIT_LSL SR_X SR_CCR 1 0 4),
  (oct 7 6 2 0, oct 7 6 2 7, OD fp_EMIT_ROXL SR_X SR_CCR 1 0 4),
  (oct 7 6 3 0, oct 7 6 3 7, OD fp_EMIT_ROL 0 SR_NZVC 1 0 4),
  (oct 7 6 4 0, oct 7 6 4 7, OD fp_EMIT_ASL SR_X SR_CCR 1 0 4),
  (oct 7 6 5 0, oct 7 6 5 7, OD fp_EMIT_LSL SR_X SR_CCR 1 0 4),
  (oct 7 6 6 0, oct 7 6 6 7, OD fp_EMIT_ROXL SR_X SR_CCR 1 0 4),
  (oct 7 6 7 0, oct 7 6 7 7, OD fp_EMIT_ROL 0 SR_NZVC 1 0 4)
  ]"

definition InsnTable_0720 :: "(nat \<times> nat \<times> OpcodeDef) list" where
  "InsnTable_0720 = [
  (oct 0 7 2 0, oct 0 7 7 1, OD fp_EMIT_ASL_mem SR_X SR_CCR 1 1 2),
  (oct 1 7 2 0, oct 1 7 7 1, OD fp_EMIT_LSL_mem SR_X SR_CCR 1 1 2),
  (oct 2 7 2 0, oct 2 7 7 1, OD fp_EMIT_ROXL_mem SR_X SR_CCR 1 1 2),
  (oct 3 7 2 0, oct 3 7 7 1, OD fp_EMIT_ROL_mem 0 SR_NZVC 1 1 2)
  ]"

definition InsnTable_4300 :: "(nat \<times> nat \<times> OpcodeDef) list" where
  "InsnTable_4300 = [
  (oct 4 3 0 0, oct 4 3 0 7, OD fp_EMIT_BFTST 0 SR_NZVC 2 0 0),
  (oct 4 3 2 0, oct 4 3 2 7, OD fp_EMIT_BFTST 0 SR_NZVC 2 0 0),
  (oct 4 3 5 0, oct 4 3 7 3, OD fp_EMIT_BFTST 0 SR_NZVC 2 1 0)
  ]"

definition InsnTable_5300 :: "(nat \<times> nat \<times> OpcodeDef) list" where
  "InsnTable_5300 = [
  (oct 5 3 0 0, oct 5 3 0 7, OD fp_EMIT_BFCHG_reg 0 SR_NZVC 2 0 0),
  (oct 5 3 2 0, oct 5 3 2 7, OD fp_EMIT_BFCHG 0 SR_NZVC 2 0 0),
  (oct 5 3 5 0, oct 5 3 7 1, OD fp_EMIT_BFCHG 0 SR_NZVC 2 1 0)
  ]"

definition InsnTable_6300 :: "(nat \<times> nat \<times> OpcodeDef) list" where
  "InsnTable_6300 = [
  (oct 6 3 0 0, oct 6 3 0 7, OD fp_EMIT_BFCLR_reg 0 SR_NZVC 2 0 0),
  (oct 6 3 2 0, oct 6 3 2 7, OD fp_EMIT_BFCLR 0 SR_NZVC 2 0 0),
  (oct 6 3 5 0, oct 6 3 7 1, OD fp_EMIT_BFCLR 0 SR_NZVC 2 1 0)
  ]"

definition InsnTable_7300 :: "(nat \<times> nat \<times> OpcodeDef) list" where
  "InsnTable_7300 = [
  (oct 7 3 0 0, oct 7 3 0 7, OD fp_EMIT_BFSET_reg 0 SR_NZVC 2 0 0),
  (oct 7 3 2 0, oct 7 3 2 7, OD fp_EMIT_BFSET 0 SR_NZVC 2 0 0),
  (oct 7 3 5 0, oct 7 3 7 1, OD fp_EMIT_BFSET 0 SR_NZVC 2 1 0)
  ]"

definition InsnTable_4700 :: "(nat \<times> nat \<times> OpcodeDef) list" where
  "InsnTable_4700 = [
  (oct 4 7 0 0, oct 4 7 0 7, OD fp_EMIT_BFEXTU 0 SR_NZVC 2 0 0),
  (oct 4 7 2 0, oct 4 7 2 7, OD fp_EMIT_BFEXTU 0 SR_NZVC 2 0 0),
  (oct 4 7 5 0, oct 4 7 7 3, OD fp_EMIT_BFEXTU 0 SR_NZVC 2 1 0)
  ]"

definition InsnTable_5700 :: "(nat \<times> nat \<times> OpcodeDef) list" where
  "InsnTable_5700 = [
  (oct 5 7 0 0, oct 5 7 0 7, OD fp_EMIT_BFEXTS 0 SR_NZVC 2 0 0),
  (oct 5 7 2 0, oct 5 7 2 7, OD fp_EMIT_BFEXTS 0 SR_NZVC 2 0 0),
  (oct 5 7 5 0, oct 5 7 7 3, OD fp_EMIT_BFEXTS 0 SR_NZVC 2 1 0)
  ]"

definition InsnTable_6700 :: "(nat \<times> nat \<times> OpcodeDef) list" where
  "InsnTable_6700 = [
  (oct 6 7 0 0, oct 6 7 0 7, OD fp_EMIT_BFFFO_reg 0 SR_NZVC 2 0 0),
  (oct 6 7 2 0, oct 6 7 2 7, OD fp_EMIT_BFFFO 0 SR_NZVC 2 0 0),
  (oct 6 7 5 0, oct 6 7 7 3, OD fp_EMIT_BFFFO 0 SR_NZVC 2 1 0)
  ]"

definition InsnTable_7700 :: "(nat \<times> nat \<times> OpcodeDef) list" where
  "InsnTable_7700 = [
  (oct 7 7 0 0, oct 7 7 0 7, OD fp_EMIT_BFINS_reg 0 SR_NZVC 2 0 0),
  (oct 7 7 2 0, oct 7 7 2 7, OD fp_EMIT_BFINS 0 SR_NZVC 2 0 0),
  (oct 7 7 5 0, oct 7 7 7 1, OD fp_EMIT_BFINS 0 SR_NZVC 2 1 0)
  ]"

definition InsnTable_init :: "(nat \<times> nat \<times> OpcodeDef) list" where
  "InsnTable_init = InsnTable_0000 @ InsnTable_1000 @ InsnTable_2000 @ InsnTable_3000
     @ InsnTable_4000 @ InsnTable_5000 @ InsnTable_6000 @ InsnTable_7000 @ InsnTable_0320
     @ InsnTable_0400 @ InsnTable_1400 @ InsnTable_2400 @ InsnTable_3400 @ InsnTable_4400
     @ InsnTable_5400 @ InsnTable_6400 @ InsnTable_7400 @ InsnTable_0720 @ InsnTable_4300
     @ InsnTable_5300 @ InsnTable_6300 @ InsnTable_7300 @ InsnTable_4700 @ InsnTable_5700
     @ InsnTable_6700 @ InsnTable_7700"

text \<open>
  The array has 4096 entries; a range initialiser written later overrides an earlier one.
  Reading outside the array is undefined in C: the model gives \<open>None\<close> there.
\<close>

definition InsnTable :: "nat \<Rightarrow> OpcodeDef option" where
  "InsnTable i = (if i < 4096
     then Some (foldl (\<lambda>d (lo, hi, d'). if lo \<le> i \<and> i \<le> hi then d' else d) od_zero InsnTable_init)
     else None)"

subsection \<open>The family entry point and the metadata queries\<close>

text \<open>
  \<open>EMIT_lineE\<close> returns the value it stores in \<^verbatim>\<open>*insn_consumed\<close>, or \<open>None\<close> if it read
  outside \<open>InsnTable\<close>.  The two guest words after the opcode are read only by the
  peephole test (\<open>next0\<close>, \<open>next1\<close>); reading them has no effect.  The format string of the
  diagnostic is kept without its final newline.
\<close>

definition EMIT_lineE :: "env \<Rightarrow> (int \<Rightarrow> u16) \<Rightarrow> (tstate, u16 option) state" where
  "EMIT_lineE e m = do {
    opcode \<leftarrow> BE16_at m 0;
    m68k_ptr_add 1;
    let insn_consumed = (1::u16);
    next0 \<leftarrow> BE16_at m 0;
    next1 \<leftarrow> BE16_at m 1;
    (if (opcode AND 0xfef8) = 0xe058 \<and>
        next0 = (0x4840 OR (opcode AND 7)) \<and>
        (next1 AND 0xfeff) = (opcode AND 0xfeff)
     then do {
        update_mask \<leftarrow> SRMask_at e m (- 1);
        reg \<leftarrow> RA_MapM68kRegister e (uint (opcode AND 7));
        RA_SetDirtyM68kRegister e (uint (opcode AND 7));
        let insn_consumed = (3::u16);
        emit ''rev'' [R reg, R reg];
        EMIT_AdvancePC e 6;
        m68k_ptr_add 2;
        (if update_mask \<noteq> 0 then do {
            cc \<leftarrow> RA_ModifyCC e;
            tmp \<leftarrow> RA_AllocARMRegister e;
            emit ''cmn_reg'' [I 31, R reg, I LSL, I 0];
            emit ''mov_immed_u16'' [R tmp, I (uint update_mask), I 0];
            emit ''bic_reg'' [R cc, R cc, R tmp, I LSL, I 0];
            (if (update_mask AND SR_Z) \<noteq> 0 then do {
                emit ''b_cc'' [I (A64_CC_EQ XOR 1), I 2];
                emit ''orr_immed'' [R cc, R cc, I 1, I ((32 - SRB_Z) AND 31)]
              } else skip);
            (if (update_mask AND SR_N) \<noteq> 0 then do {
                emit ''b_cc'' [I (A64_CC_MI XOR 1), I 2];
                emit ''orr_immed'' [R cc, R cc, I 1, I ((32 - SRB_N) AND 31)]
              } else skip);
            (if (update_mask AND (SR_C OR SR_X)) \<noteq> 0 then do {
                emit ''b_cc'' [I (A64_CC_CS XOR 1), I 3];
                emit ''mov_immed_u16'' [R tmp, I (uint (SR_C OR SR_X)), I 0];
                emit ''orr_reg'' [R cc, R cc, R tmp, I LSL, I 0]
              } else skip);
            RA_FreeARMRegister e tmp
          } else skip);
        State_Monad.return (Some insn_consumed)
      } else (case InsnTable (unat (opcode AND 0xfff)) of
        None \<Rightarrow> State_Monad.return None
      | Some od \<Rightarrow> (case od_Emit od of
          Some f \<Rightarrow> do {
            call f e m opcode;
            State_Monad.return (Some insn_consumed)
          }
        | None \<Rightarrow> do {
            EMIT_FlushPC e;
            addr \<leftarrow> State (\<lambda>s. (m68k_ptr s - 1, s));
            EMIT_InjectDebugString e ''[JIT] opcode %04x at %08x not implemented''
              [I (uint opcode), I addr];
            EMIT_Exception e VECTOR_ILLEGAL_INSTRUCTION 0;
            emit_raw 0xffffffff;
            State_Monad.return (Some insn_consumed)
          })))
  }"

text \<open>
  \<open>GetSR_LineE\<close> returns its 32-bit result together with the lines it prints through
  \<^verbatim>\<open>kprintf\<close>, or \<open>None\<close> if it read outside \<open>InsnTable\<close>.
\<close>

definition GetSR_LineE :: "u16 \<Rightarrow> (u32 \<times> string list) option" where
  "GetSR_LineE opcode = (case InsnTable (unat (opcode AND 0xfff)) of
      None \<Rightarrow> None
    | Some od \<Rightarrow>
        (if od_Emit od \<noteq> None
         then Some (push_bit 16 (ucast (od_SRNeeds od)) OR ucast (od_SRSets od), [])
         else Some (push_bit 16 (ucast SR_CCR), [''Undefined LineE''])))"

text \<open>
  \<open>M68K_GetLineELength e m p\<close> is the call with \<^verbatim>\<open>insn_stream\<close> pointing at position \<open>p\<close>
  of the guest stream.  The lengths are C \<^verbatim>\<open>int\<close>s of a few words; they are modelled as
  unbounded integers.
\<close>

definition M68K_GetLineELength :: "env \<Rightarrow> (int \<Rightarrow> u16) \<Rightarrow> int \<Rightarrow> int option" where
  "M68K_GetLineELength e m p = (let opcode = m p in
     case InsnTable (unat (opcode AND 0xfff)) of
       None \<Rightarrow> None
     | Some od \<Rightarrow>
         (let len = 0; need_ea = 0; opsize = 0;
              (len, need_ea, opsize) =
                 (if od_Emit od \<noteq> None
                  then (uint (od_BaseLength od), uint (od_HasEA od), uint (od_OpSize od))
                  else (len, need_ea, opsize));
              len = (if need_ea \<noteq> 0
                     then len + SR_GetEALength e m (p + len) (opcode AND 0x3f) opsize
                     else len)
          in Some len))"

subsection \<open>Notions used in the statements\<close>

text \<open>
  \<open>wp c Q s\<close>: running \<open>c\<close> from \<open>s\<close> gives a result and a state that satisfy \<open>Q\<close>.
\<close>

definition wp :: "('s, 'a) state \<Rightarrow> ('a \<Rightarrow> 's \<Rightarrow> bool) \<Rightarrow> 's \<Rightarrow> bool" where
  "wp c Q = (\<lambda>s. case run_state c s of (x, s') \<Rightarrow> Q x s')"

text \<open>The state a computation ends in, and the host words it appended.\<close>

definition exec :: "(tstate, 'a) state \<Rightarrow> tstate \<Rightarrow> tstate" where
  "exec c s = snd (run_state c s)"

definition emitted :: "(tstate, 'a) state \<Rightarrow> tstate \<Rightarrow> insn list" where
  "emitted c s = drop (length (code s)) (code (exec c s))"

text \<open>
  The table entry selected for an index by a list of range initialisers, and whether a range
  initialiser mentions the index.
\<close>

definition pick :: "nat \<Rightarrow> OpcodeDef \<Rightarrow> (nat \<times> nat \<times> OpcodeDef) list \<Rightarrow> OpcodeDef" where
  "pick i d0 rows = foldl (\<lambda>d (lo, hi, d'). if lo \<le> i \<and> i \<le> hi then d' else d) d0 rows"

definition covers :: "nat \<Rightarrow> nat \<times> nat \<times> OpcodeDef \<Rightarrow> bool" where
  "covers i row = (case row of (lo, hi, d) \<Rightarrow> lo \<le> i \<and> i \<le> hi)"

text \<open>
  An environment for evaluating the functions on concrete guest code.  Every flag is live,
  the collaborators write no host words of their own, and an addressing mode takes the
  extension words of the brief 68000 formats: one for \<open>d16(An)\<close>, \<open>d8(An,Xn)\<close>, \<open>abs.W\<close>
  and the two PC-relative modes, two for \<open>abs.L\<close>, none otherwise.
\<close>

definition ea_words0 :: "u16 \<Rightarrow> u8" where
  "ea_words0 ea = (if ea AND 0x38 = 0x28 \<or> ea AND 0x38 = 0x30 then 1
     else if ea = 0x38 \<or> ea = 0x3a \<or> ea = 0x3b then 1
     else if ea = 0x39 then 2
     else 0)"

definition env0 :: env where
  "env0 = \<lparr>M68K_GetSRMask = (\<lambda>m p. 0x1f),
     SR_GetEALength = (\<lambda>m p ea sz. uint (ea_words0 ea)),
     EA_ext_words = (\<lambda>m p ea. ea_words0 ea),
     EA_maps_guest = (\<lambda>ea ro. ro \<noteq> 0 \<and> ea AND 0x38 = 0x10),
     ext_len = (\<lambda>n as s. 0),
     GetNZ00_mask = (\<lambda>k. k AND 0x10),
     GetNZxx_mask = (\<lambda>k. k AND 0x13)\<rparr>"

definition s0 :: tstate where
  "s0 = \<lparr>code = [], trace = [], pc_adv = 0, m68k_ptr = 0, ra_next = 0, ra_freed = []\<rparr>"

text \<open>A guest stream given by its first words; the words after them are zero.\<close>

definition stream :: "u16 list \<Rightarrow> int \<Rightarrow> u16" where
  "stream ws p = (if 0 \<le> p \<and> nat p < length ws then ws ! nat p else 0)"


text \<open>
  The scratch handles a computation releases and the ones it obtains: the entries it appends
  to the release log, and the handles handed out while it runs.
\<close>

definition released_by :: "(tstate, 'a) state \<Rightarrow> tstate \<Rightarrow> nat list" where
  "released_by c s = drop (length (ra_freed s)) (ra_freed (exec c s))"

definition obtained_by :: "(tstate, 'a) state \<Rightarrow> tstate \<Rightarrow> nat list" where
  "obtained_by c s = [ra_next s ..< ra_next (exec c s)]"

text \<open>
  The peephole test of \<open>EMIT_lineE\<close> on the three guest words at position \<open>p\<close>: a word
  rotate by eight of a data register, \<^verbatim>\<open>SWAP\<close> of the same register, and a word equal to the
  first in every bit but bit 8, the direction of the rotate.
\<close>

definition rev_pattern :: "(int \<Rightarrow> u16) \<Rightarrow> int \<Rightarrow> bool" where
  "rev_pattern m p = ((m p AND 0xfef8) = 0xe058 \<and>
     m (p + 1) = (0x4840 OR (m p AND 7)) \<and>
     (m (p + 2) AND 0xfeff) = (m p AND 0xfeff))"

text \<open>
  The handlers by the way they account for the words of an instruction: shifts and rotates of
  a data register, shifts and rotates of a memory operand, bitfield operations on a data
  register, bitfield operations that test the addressing mode themselves, and bitfield
  operations on a memory operand.
\<close>

datatype handler_kind = RegShift | MemShift | BFReg | BFOpt | BFMem

definition kind_of :: "emit_fn \<Rightarrow> handler_kind" where
  "kind_of f = (case f of
      fp_EMIT_ASR \<Rightarrow> RegShift | fp_EMIT_LSR \<Rightarrow> RegShift
    | fp_EMIT_ROXR \<Rightarrow> RegShift | fp_EMIT_ROR \<Rightarrow> RegShift
    | fp_EMIT_ASL \<Rightarrow> RegShift | fp_EMIT_LSL \<Rightarrow> RegShift
    | fp_EMIT_ROXL \<Rightarrow> RegShift | fp_EMIT_ROL \<Rightarrow> RegShift
    | fp_EMIT_ASR_mem \<Rightarrow> MemShift | fp_EMIT_LSR_mem \<Rightarrow> MemShift
    | fp_EMIT_ROXR_mem \<Rightarrow> MemShift | fp_EMIT_ROR_mem \<Rightarrow> MemShift
    | fp_EMIT_ASL_mem \<Rightarrow> MemShift | fp_EMIT_LSL_mem \<Rightarrow> MemShift
    | fp_EMIT_ROXL_mem \<Rightarrow> MemShift | fp_EMIT_ROL_mem \<Rightarrow> MemShift
    | fp_EMIT_BFCHG_reg \<Rightarrow> BFReg | fp_EMIT_BFCLR_reg \<Rightarrow> BFReg
    | fp_EMIT_BFSET_reg \<Rightarrow> BFReg | fp_EMIT_BFFFO_reg \<Rightarrow> BFReg
    | fp_EMIT_BFINS_reg \<Rightarrow> BFReg
    | fp_EMIT_BFTST \<Rightarrow> BFOpt | fp_EMIT_BFEXTU \<Rightarrow> BFOpt | fp_EMIT_BFEXTS \<Rightarrow> BFOpt
    | fp_EMIT_BFCHG \<Rightarrow> BFMem | fp_EMIT_BFCLR \<Rightarrow> BFMem | fp_EMIT_BFSET \<Rightarrow> BFMem
    | fp_EMIT_BFFFO \<Rightarrow> BFMem | fp_EMIT_BFINS \<Rightarrow> BFMem)"






text \<open>The host words a function of this file writes itself, among all words written.\<close>

definition is_ext :: "insn \<Rightarrow> bool" where
  "is_ext w = (case w of Ext n k \<Rightarrow> True | _ \<Rightarrow> False)"

definition own_words :: "insn list \<Rightarrow> insn list" where
  "own_words ws = filter (\<lambda>w. \<not> is_ext w) ws"


text \<open>
  The loads and stores among host words: the encoders whose names begin with \<^verbatim>\<open>ld\<close> or
  \<^verbatim>\<open>st\<close>.
\<close>

definition is_mem_access :: "insn \<Rightarrow> bool" where
  "is_mem_access w = (case w of Insn n as \<Rightarrow> take 2 n = ''ld'' \<or> take 2 n = ''st'' | _ \<Rightarrow> False)"

definition mem_accesses :: "insn list \<Rightarrow> insn list" where
  "mem_accesses ws = filter is_mem_access ws"

text \<open>
  The load and the store of a shift or rotate of a memory operand, as the source writes them:
  \<open>tmp\<close> is the scratch register allocated first, \<open>dest\<close> the register the resolver hands
  back, \<open>ld\<close> the name of the halfword load (\<^verbatim>\<open>ldrsh\<close> for the arithmetic shifts, \<^verbatim>\<open>ldrh\<close>
  otherwise).  Addressing mode 4 is \<open>-(An)\<close>, mode 3 is \<open>(An)+\<close>.
\<close>

definition mem_shift_accesses :: "string \<Rightarrow> env \<Rightarrow> u16 \<Rightarrow> nat \<Rightarrow> insn list" where
  "mem_shift_accesses ld e opcode k =
    (let tmp = Scratch k;
         dest = (if EA_maps_guest e (opcode AND 0x3f) 1
                 then Guest (8 + uint ((opcode AND 0x3f) AND 7))
                 else Scratch (Suc k))
     in [if opcode AND 0x38 = 0x20 then Insn (ld @ ''_offset_preindex'') [R dest, R tmp, I (- 2)]
         else Insn (ld @ ''_offset'') [R dest, R tmp, I 0],
         if opcode AND 0x38 = 0x18 then Insn ''strh_offset_postindex'' [R dest, R tmp, I 2]
         else Insn ''strh_offset'' [R dest, R tmp, I 0]])"

text \<open>
  The triple the specification describes for the peephole: a rotate by eight, \<^verbatim>\<open>SWAP\<close> of the
  same register, the complementary rotate by eight of the same register, that is the first
  word with the direction bit flipped, and the same flag-update policy for both rotates.
\<close>

definition spec_rev_triple :: "env \<Rightarrow> (int \<Rightarrow> u16) \<Rightarrow> int \<Rightarrow> bool" where
  "spec_rev_triple e m p = ((m p AND 0xfef8) = 0xe058 \<and>
     m (p + 1) = (0x4840 OR (m p AND 7)) \<and>
     m (p + 2) = (m p XOR 0x0100) \<and>
     M68K_GetSRMask e m (p + 2) = M68K_GetSRMask e m p)"

text \<open>
  Two more environments: one where the flags are dead at position 0 and live elsewhere, and
  one where no flag is live anywhere.
\<close>

definition env_split :: env where
  "env_split = env0\<lparr>M68K_GetSRMask := (\<lambda>m p. if p = 0 then 0 else 0x1f)\<rparr>"

definition env_dead :: env where
  "env_dead = env0\<lparr>M68K_GetSRMask := (\<lambda>m p. 0)\<rparr>"

text \<open>
  The host words \<open>EMIT_BFFFO_reg\<close> writes itself when offset and width are both immediate
  (bits 11 and 5 of the extension word clear), read off the three branches of the source.
\<close>

definition BFFFO_reg_imm :: "env \<Rightarrow> (int \<Rightarrow> u16) \<Rightarrow> u16 \<Rightarrow> tstate \<Rightarrow> insn list" where
  "BFFFO_reg_imm e m opcode s =
    (let opcode2 = m (m68k_ptr s);
         offset = uint ((drop_bit 6 opcode2) AND 0x1f);
         width = uint (opcode2 AND 0x1f);
         src = Guest (uint (opcode AND 7));
         dest = Guest (uint ((drop_bit 12 opcode2) AND 7));
         tmp = Scratch (ra_next s)
     in if offset \<noteq> 0 \<or> width \<noteq> 0
        then [Insn ''lsl64'' [R tmp, R src, I (32 + offset)],
              Insn ''orr64_reg'' [R tmp, R tmp, R src, I LSL, I offset],
              Insn ''ands64_immed'' [R tmp, R tmp, I (if width = 0 then 32 else width),
                I (if width = 0 then 32 else width), I 1],
              Insn ''orr64_immed'' [R tmp, R tmp, I (64 - (if width = 0 then 32 else width)), I 0, I 1],
              Insn ''clz64'' [R dest, R tmp],
              Insn ''add_immed'' [R dest, R dest, I offset]]
        else if M68K_GetSRMask e m (m68k_ptr s - 1) \<noteq> 0
        then [Insn ''cmn_reg'' [I 31, R src, I LSL, I 0],
              Insn ''clz'' [R dest, R src]]
        else [])"

section \<open>Auxiliary facts\<close>

subsection \<open>Running a computation backwards through a postcondition\<close>

lemma wp_bind: "wp (c \<bind> f) Q = wp c (\<lambda>x. wp (f x) Q)"
  by (auto simp: wp_def split: prod.splits)

lemma wp_return: "wp (State_Monad.return x) Q = Q x"
  by (auto simp: wp_def)

lemma wp_State: "wp (State f) Q = (\<lambda>s. case f s of (x, s') \<Rightarrow> Q x s')"
  by (auto simp: wp_def)

lemma wp_if: "wp (if b then c else d) Q = (\<lambda>s. if b then wp c Q s else wp d Q s)"
  by (auto simp: wp_def)

lemma wp_case_prod: "wp (case p of (a, b) \<Rightarrow> f a b) Q = (case p of (a, b) \<Rightarrow> wp (f a b) Q)"
  by (auto simp: wp_def split: prod.splits)

lemmas wp_rules = wp_bind wp_return wp_State wp_if wp_case_prod

lemmas prim_defs = emit_def emit_raw_def ext_emit_def skip_def cursor_def patch_def BE16_at_def
  SRMask_at_def m68k_ptr_add_def ra_fresh_def ra_release_def RA_AllocARMRegister_def
  RA_CopyFromM68kRegister_def RA_FreeARMRegister_def RA_MapM68kRegister_def
  RA_MapM68kRegisterForWrite_def RA_SetDirtyM68kRegister_def RA_ModifyCC_def EMIT_AdvancePC_def
  EMIT_GetNZ00_def EMIT_GetNZxx_def EMIT_SetFlagsConditional_def
  EMIT_LoadFromEffectiveAddress_def EMIT_FlushPC_def EMIT_InjectDebugString_def
  EMIT_Exception_def

lemma wp_exec: "wp c (\<lambda>_ s'. P s') s = P (exec c s)"
  by (simp add: wp_def exec_def split: prod.splits)

lemma scratch_handles_simps [simp]:
  "scratch_handles (Scratch k) = [k]" "scratch_handles (Guest n) = []"
  "scratch_handles CC = []" "scratch_handles Unassigned = []"
  by (simp_all add: scratch_handles_def)

subsection \<open>Reading the table\<close>

lemmas InsnTable_blocks = InsnTable_0000_def InsnTable_1000_def InsnTable_2000_def
  InsnTable_3000_def InsnTable_4000_def InsnTable_5000_def InsnTable_6000_def InsnTable_7000_def
  InsnTable_0320_def InsnTable_0400_def InsnTable_1400_def InsnTable_2400_def InsnTable_3400_def
  InsnTable_4400_def InsnTable_5400_def InsnTable_6400_def InsnTable_7400_def InsnTable_0720_def
  InsnTable_4300_def InsnTable_5300_def InsnTable_6300_def InsnTable_7300_def InsnTable_4700_def
  InsnTable_5700_def InsnTable_6700_def InsnTable_7700_def

lemma InsnTable_init_ball:
  "(\<forall>row \<in> set InsnTable_init. P row) =
   ((\<forall> row \<in> set InsnTable_0000. P row) \<and>
     (\<forall> row \<in> set InsnTable_1000. P row) \<and>
     (\<forall> row \<in> set InsnTable_2000. P row) \<and>
     (\<forall> row \<in> set InsnTable_3000. P row) \<and>
     (\<forall> row \<in> set InsnTable_4000. P row) \<and>
     (\<forall> row \<in> set InsnTable_5000. P row) \<and>
     (\<forall> row \<in> set InsnTable_6000. P row) \<and>
     (\<forall> row \<in> set InsnTable_7000. P row) \<and>
     (\<forall> row \<in> set InsnTable_0320. P row) \<and>
     (\<forall> row \<in> set InsnTable_0400. P row) \<and>
     (\<forall> row \<in> set InsnTable_1400. P row) \<and>
     (\<forall> row \<in> set InsnTable_2400. P row) \<and>
     (\<forall> row \<in> set InsnTable_3400. P row) \<and>
     (\<forall> row \<in> set InsnTable_4400. P row) \<and>
     (\<forall> row \<in> set InsnTable_5400. P row) \<and>
     (\<forall> row \<in> set InsnTable_6400. P row) \<and>
     (\<forall> row \<in> set InsnTable_7400. P row) \<and>
     (\<forall> row \<in> set InsnTable_0720. P row) \<and>
     (\<forall> row \<in> set InsnTable_4300. P row) \<and>
     (\<forall> row \<in> set InsnTable_5300. P row) \<and>
     (\<forall> row \<in> set InsnTable_6300. P row) \<and>
     (\<forall> row \<in> set InsnTable_7300. P row) \<and>
     (\<forall> row \<in> set InsnTable_4700. P row) \<and>
     (\<forall> row \<in> set InsnTable_5700. P row) \<and>
     (\<forall> row \<in> set InsnTable_6700. P row) \<and>
     (\<forall> row \<in> set InsnTable_7700. P row))"
  by (simp only: InsnTable_init_def set_append ball_Un conj_assoc)

lemma InsnTable_init_bex:
  "(\<exists>row \<in> set InsnTable_init. P row) =
   ((\<exists> row \<in> set InsnTable_0000. P row) \<or>
     (\<exists> row \<in> set InsnTable_1000. P row) \<or>
     (\<exists> row \<in> set InsnTable_2000. P row) \<or>
     (\<exists> row \<in> set InsnTable_3000. P row) \<or>
     (\<exists> row \<in> set InsnTable_4000. P row) \<or>
     (\<exists> row \<in> set InsnTable_5000. P row) \<or>
     (\<exists> row \<in> set InsnTable_6000. P row) \<or>
     (\<exists> row \<in> set InsnTable_7000. P row) \<or>
     (\<exists> row \<in> set InsnTable_0320. P row) \<or>
     (\<exists> row \<in> set InsnTable_0400. P row) \<or>
     (\<exists> row \<in> set InsnTable_1400. P row) \<or>
     (\<exists> row \<in> set InsnTable_2400. P row) \<or>
     (\<exists> row \<in> set InsnTable_3400. P row) \<or>
     (\<exists> row \<in> set InsnTable_4400. P row) \<or>
     (\<exists> row \<in> set InsnTable_5400. P row) \<or>
     (\<exists> row \<in> set InsnTable_6400. P row) \<or>
     (\<exists> row \<in> set InsnTable_7400. P row) \<or>
     (\<exists> row \<in> set InsnTable_0720. P row) \<or>
     (\<exists> row \<in> set InsnTable_4300. P row) \<or>
     (\<exists> row \<in> set InsnTable_5300. P row) \<or>
     (\<exists> row \<in> set InsnTable_6300. P row) \<or>
     (\<exists> row \<in> set InsnTable_7300. P row) \<or>
     (\<exists> row \<in> set InsnTable_4700. P row) \<or>
     (\<exists> row \<in> set InsnTable_5700. P row) \<or>
     (\<exists> row \<in> set InsnTable_6700. P row) \<or>
     (\<exists> row \<in> set InsnTable_7700. P row))"
  by (simp only: InsnTable_init_def set_append bex_Un disj_assoc)

lemmas InsnTable_rows = InsnTable_init_ball InsnTable_init_bex InsnTable_blocks covers_def oct_def

lemma pick_snoc:
  "pick i d0 (rows @ [row]) = (if covers i row then snd (snd row) else pick i d0 rows)"
  by (cases row) (simp add: pick_def covers_def)

lemma pick_cases:
  "(pick i d0 rows = d0 \<and> (\<forall>row \<in> set rows. \<not> covers i row)) \<or>
   (\<exists>row \<in> set rows. covers i row \<and> pick i d0 rows = snd (snd row))"
proof (induction rows rule: rev_induct)
  case Nil
  then show ?case by (simp add: pick_def)
next
  case (snoc row rows)
  show ?case
  proof (cases "covers i row")
    case True
    then show ?thesis by (auto simp: pick_snoc)
  next
    case False
    with snoc show ?thesis by (auto simp: pick_snoc)
  qed
qed

lemma InsnTable_pick: "i < 4096 \<Longrightarrow> InsnTable i = Some (pick i od_zero InsnTable_init)"
  by (simp add: InsnTable_def pick_def)

lemma table_index_bound: "unat ((opcode::u16) AND 0xfff) < 4096"
proof -
  have "unat (opcode AND 0xfff) \<le> unat (0xfff :: u16)"
    by (rule word_and_le1 [THEN word_le_nat_alt [THEN iffD1]])
  then show ?thesis by simp
qed

lemma InsnTable_in_bounds: "\<exists>od. InsnTable (unat ((opcode::u16) AND 0xfff)) = Some od"
  using table_index_bound [of opcode] by (simp add: InsnTable_def)

lemma InsnTable_eqI:
  assumes "i < 4096"
    and "\<exists>row \<in> set InsnTable_init. covers i row"
    and "\<forall>row \<in> set InsnTable_init. covers i row \<longrightarrow> snd (snd row) = d"
  shows "InsnTable i = Some d"
  using assms pick_cases [of i od_zero InsnTable_init] by (auto simp: InsnTable_pick)

lemma InsnTable_zeroI:
  assumes "i < 4096" and "\<forall>row \<in> set InsnTable_init. \<not> covers i row"
  shows "InsnTable i = Some od_zero"
  using assms pick_cases [of i od_zero InsnTable_init] by (auto simp: InsnTable_pick)

text \<open>
  Five entries: \<open>ASL.B D0,D0\<close>, an unused index, \<open>ASL\<close> on \<open>abs.L\<close>, \<open>ROL.B D0,D4\<close> and
  \<open>BFFFO D0\<close>.
\<close>

lemma InsnTable_288: "InsnTable 288 = Some (OD fp_EMIT_ASL SR_X SR_CCR 1 0 1)"
  by (rule InsnTable_eqI) (simp_all add: InsnTable_rows)

lemma InsnTable_192: "InsnTable 192 = Some od_zero"
  by (rule InsnTable_zeroI) (simp_all add: InsnTable_rows)

lemma InsnTable_505: "InsnTable 505 = Some (OD fp_EMIT_ASL_mem SR_X SR_CCR 1 1 2)"
  by (rule InsnTable_eqI) (simp_all add: InsnTable_rows)


lemma InsnTable_3520: "InsnTable 3520 = Some (OD fp_EMIT_BFFFO_reg 0 SR_NZVC 2 0 0)"
  by (rule InsnTable_eqI) (simp_all add: InsnTable_rows)

subsection \<open>Packing two flag masks into one word\<close>

lemma pack_needs: "drop_bit 16 (push_bit 16 (ucast (a::u8)) OR (ucast (b::u8) :: u32)) = ucast a"
  by (rule bit_word_eqI) (auto simp: bit_simps dest: bit_imp_le_length)

lemma pack_sets: "(push_bit 16 (ucast (a::u8)) OR (ucast (b::u8) :: u32)) AND 0xffff = ucast b"
proof -
  have m: "(0xffff :: u32) = mask 16"
    by (simp add: mask_eq_decr_exp)
  show ?thesis
    unfolding m by (rule bit_word_eqI) (auto simp: bit_simps dest: bit_imp_le_length)
qed

subsection \<open>Scratch registers of the handlers\<close>

text \<open>
  Each handler keeps the balance between the handles released and the handles handed out:
  whatever the balance was before the handler, it is the same after it.
\<close>

lemma mset_upt_Suc0 [simp]: "mset_set {0..<Suc n} = add_mset n (mset_set {0..<n})"
  by (simp add: atLeastLessThanSuc)

lemma EMIT_ASL_ra:
  "wp (EMIT_ASL e m opcode) (\<lambda>_ s. mset (ra_freed s) + A = F + mset [0..<ra_next s]) =
   (\<lambda>s. mset (ra_freed s) + A = F + mset [0..<ra_next s])"
  unfolding EMIT_ASL_def
  by (simp add: prim_defs Let_def wp_rules split del: if_split cong: if_cong)

lemma EMIT_LSL_ra:
  "wp (EMIT_LSL e m opcode) (\<lambda>_ s. mset (ra_freed s) + A = F + mset [0..<ra_next s]) =
   (\<lambda>s. mset (ra_freed s) + A = F + mset [0..<ra_next s])"
  unfolding EMIT_LSL_def
  by (simp add: prim_defs Let_def wp_rules split del: if_split cong: if_cong)

lemma EMIT_ROXL_ra:
  "wp (EMIT_ROXL e m opcode) (\<lambda>_ s. mset (ra_freed s) + A = F + mset [0..<ra_next s]) =
   (\<lambda>s. mset (ra_freed s) + A = F + mset [0..<ra_next s])"
  unfolding EMIT_ROXL_def
  by (simp add: prim_defs Let_def wp_rules split del: if_split cong: if_cong)

lemma EMIT_ROL_ra:
  "wp (EMIT_ROL e m opcode) (\<lambda>_ s. mset (ra_freed s) + A = F + mset [0..<ra_next s]) =
   (\<lambda>s. mset (ra_freed s) + A = F + mset [0..<ra_next s])"
  unfolding EMIT_ROL_def
  by (simp add: prim_defs Let_def wp_rules split del: if_split cong: if_cong)

lemma EMIT_ASL_mem_ra:
  "wp (EMIT_ASL_mem e m opcode) (\<lambda>_ s. mset (ra_freed s) + A = F + mset [0..<ra_next s]) =
   (\<lambda>s. mset (ra_freed s) + A = F + mset [0..<ra_next s])"
  unfolding EMIT_ASL_mem_def
  by (simp add: prim_defs Let_def wp_rules split del: if_split cong: if_cong)

lemma EMIT_LSL_mem_ra:
  "wp (EMIT_LSL_mem e m opcode) (\<lambda>_ s. mset (ra_freed s) + A = F + mset [0..<ra_next s]) =
   (\<lambda>s. mset (ra_freed s) + A = F + mset [0..<ra_next s])"
  unfolding EMIT_LSL_mem_def
  by (simp add: prim_defs Let_def wp_rules split del: if_split cong: if_cong)

lemma EMIT_ROXL_mem_ra:
  "wp (EMIT_ROXL_mem e m opcode) (\<lambda>_ s. mset (ra_freed s) + A = F + mset [0..<ra_next s]) =
   (\<lambda>s. mset (ra_freed s) + A = F + mset [0..<ra_next s])"
  unfolding EMIT_ROXL_mem_def
  by (simp add: prim_defs Let_def wp_rules split del: if_split cong: if_cong)

lemma EMIT_ROL_mem_ra:
  "wp (EMIT_ROL_mem e m opcode) (\<lambda>_ s. mset (ra_freed s) + A = F + mset [0..<ra_next s]) =
   (\<lambda>s. mset (ra_freed s) + A = F + mset [0..<ra_next s])"
  unfolding EMIT_ROL_mem_def
  by (simp add: prim_defs Let_def wp_rules split del: if_split cong: if_cong)

lemma EMIT_BFTST_ra:
  "wp (EMIT_BFTST e m opcode) (\<lambda>_ s. mset (ra_freed s) + A = F + mset [0..<ra_next s]) =
   (\<lambda>s. mset (ra_freed s) + A = F + mset [0..<ra_next s])"
  unfolding EMIT_BFTST_def
  by (simp add: prim_defs Let_def wp_rules split del: if_split cong: if_cong)

lemma EMIT_BFEXTU_ra:
  "wp (EMIT_BFEXTU e m opcode) (\<lambda>_ s. mset (ra_freed s) + A = F + mset [0..<ra_next s]) =
   (\<lambda>s. mset (ra_freed s) + A = F + mset [0..<ra_next s])"
  unfolding EMIT_BFEXTU_def
  by (simp add: prim_defs Let_def wp_rules split del: if_split cong: if_cong)

lemma EMIT_BFEXTS_ra:
  "wp (EMIT_BFEXTS e m opcode) (\<lambda>_ s. mset (ra_freed s) + A = F + mset [0..<ra_next s]) =
   (\<lambda>s. mset (ra_freed s) + A = F + mset [0..<ra_next s])"
  unfolding EMIT_BFEXTS_def
  by (simp add: prim_defs Let_def wp_rules split del: if_split cong: if_cong)

lemma EMIT_BFCHG_reg_ra:
  "wp (EMIT_BFCHG_reg e m opcode) (\<lambda>_ s. mset (ra_freed s) + A = F + mset [0..<ra_next s]) =
   (\<lambda>s. mset (ra_freed s) + A = F + mset [0..<ra_next s])"
  unfolding EMIT_BFCHG_reg_def
  by (simp add: prim_defs Let_def wp_rules split del: if_split cong: if_cong)

lemma EMIT_BFCLR_reg_ra:
  "wp (EMIT_BFCLR_reg e m opcode) (\<lambda>_ s. mset (ra_freed s) + A = F + mset [0..<ra_next s]) =
   (\<lambda>s. mset (ra_freed s) + A = F + mset [0..<ra_next s])"
  unfolding EMIT_BFCLR_reg_def
  by (simp add: prim_defs Let_def wp_rules split del: if_split cong: if_cong)

lemma EMIT_BFSET_reg_ra:
  "wp (EMIT_BFSET_reg e m opcode) (\<lambda>_ s. mset (ra_freed s) + A = F + mset [0..<ra_next s]) =
   (\<lambda>s. mset (ra_freed s) + A = F + mset [0..<ra_next s])"
  unfolding EMIT_BFSET_reg_def
  by (simp add: prim_defs Let_def wp_rules split del: if_split cong: if_cong)

lemma EMIT_BFFFO_reg_ra:
  "wp (EMIT_BFFFO_reg e m opcode) (\<lambda>_ s. mset (ra_freed s) + A = F + mset [0..<ra_next s]) =
   (\<lambda>s. mset (ra_freed s) + A = F + mset [0..<ra_next s])"
  unfolding EMIT_BFFFO_reg_def
  by (simp add: prim_defs Let_def wp_rules split del: if_split cong: if_cong)

lemma EMIT_BFINS_reg_ra:
  "wp (EMIT_BFINS_reg e m opcode) (\<lambda>_ s. mset (ra_freed s) + A = F + mset [0..<ra_next s]) =
   (\<lambda>s. mset (ra_freed s) + A = F + mset [0..<ra_next s])"
  unfolding EMIT_BFINS_reg_def
  by (simp add: prim_defs Let_def wp_rules split del: if_split cong: if_cong)

lemma EMIT_BFCHG_ra:
  "wp (EMIT_BFCHG e m opcode) (\<lambda>_ s. mset (ra_freed s) + A = F + mset [0..<ra_next s]) =
   (\<lambda>s. mset (ra_freed s) + A = F + mset [0..<ra_next s])"
  unfolding EMIT_BFCHG_def
  by (simp add: prim_defs Let_def wp_rules split del: if_split cong: if_cong)

lemma EMIT_BFCLR_ra:
  "wp (EMIT_BFCLR e m opcode) (\<lambda>_ s. mset (ra_freed s) + A = F + mset [0..<ra_next s]) =
   (\<lambda>s. mset (ra_freed s) + A = F + mset [0..<ra_next s])"
  unfolding EMIT_BFCLR_def
  by (simp add: prim_defs Let_def wp_rules split del: if_split cong: if_cong)

lemma EMIT_BFSET_ra:
  "wp (EMIT_BFSET e m opcode) (\<lambda>_ s. mset (ra_freed s) + A = F + mset [0..<ra_next s]) =
   (\<lambda>s. mset (ra_freed s) + A = F + mset [0..<ra_next s])"
  unfolding EMIT_BFSET_def
  by (simp add: prim_defs Let_def wp_rules split del: if_split cong: if_cong)

lemma EMIT_BFFFO_ra:
  "wp (EMIT_BFFFO e m opcode) (\<lambda>_ s. mset (ra_freed s) + A = F + mset [0..<ra_next s]) =
   (\<lambda>s. mset (ra_freed s) + A = F + mset [0..<ra_next s])"
  unfolding EMIT_BFFFO_def
  by (simp add: prim_defs Let_def wp_rules split del: if_split cong: if_cong)

lemma EMIT_BFINS_ra:
  "wp (EMIT_BFINS e m opcode) (\<lambda>_ s. mset (ra_freed s) + A = F + mset [0..<ra_next s]) =
   (\<lambda>s. mset (ra_freed s) + A = F + mset [0..<ra_next s])"
  unfolding EMIT_BFINS_def
  by (simp add: prim_defs Let_def wp_rules split del: if_split cong: if_cong)

lemmas handler_ra = EMIT_ASL_ra EMIT_LSL_ra EMIT_ROXL_ra EMIT_ROL_ra EMIT_ASL_mem_ra
  EMIT_LSL_mem_ra EMIT_ROXL_mem_ra EMIT_ROL_mem_ra EMIT_BFTST_ra EMIT_BFEXTU_ra EMIT_BFEXTS_ra
  EMIT_BFCHG_reg_ra EMIT_BFCLR_reg_ra EMIT_BFSET_reg_ra EMIT_BFFFO_reg_ra EMIT_BFINS_reg_ra
  EMIT_BFCHG_ra EMIT_BFCLR_ra EMIT_BFSET_ra EMIT_BFFFO_ra EMIT_BFINS_ra

text \<open>A handler only hands out further handles and only appends to the releases.\<close>

lemma EMIT_ASL_mono:
  "n \<le> ra_next s \<Longrightarrow> prefix F (ra_freed s) \<Longrightarrow>
   wp (EMIT_ASL e m opcode) (\<lambda>_ s'. n \<le> ra_next s' \<and> prefix F (ra_freed s')) s"
  unfolding EMIT_ASL_def
  by (simp add: prim_defs Let_def wp_rules split del: if_split cong: if_cong)

lemma EMIT_LSL_mono:
  "n \<le> ra_next s \<Longrightarrow> prefix F (ra_freed s) \<Longrightarrow>
   wp (EMIT_LSL e m opcode) (\<lambda>_ s'. n \<le> ra_next s' \<and> prefix F (ra_freed s')) s"
  unfolding EMIT_LSL_def
  by (simp add: prim_defs Let_def wp_rules split del: if_split cong: if_cong)

lemma EMIT_ROXL_mono:
  "n \<le> ra_next s \<Longrightarrow> prefix F (ra_freed s) \<Longrightarrow>
   wp (EMIT_ROXL e m opcode) (\<lambda>_ s'. n \<le> ra_next s' \<and> prefix F (ra_freed s')) s"
  unfolding EMIT_ROXL_def
  by (simp add: prim_defs Let_def wp_rules split del: if_split cong: if_cong)

lemma EMIT_ROL_mono:
  "n \<le> ra_next s \<Longrightarrow> prefix F (ra_freed s) \<Longrightarrow>
   wp (EMIT_ROL e m opcode) (\<lambda>_ s'. n \<le> ra_next s' \<and> prefix F (ra_freed s')) s"
  unfolding EMIT_ROL_def
  by (simp add: prim_defs Let_def wp_rules split del: if_split cong: if_cong)

lemma EMIT_ASL_mem_mono:
  "n \<le> ra_next s \<Longrightarrow> prefix F (ra_freed s) \<Longrightarrow>
   wp (EMIT_ASL_mem e m opcode) (\<lambda>_ s'. n \<le> ra_next s' \<and> prefix F (ra_freed s')) s"
  unfolding EMIT_ASL_mem_def
  by (simp add: prim_defs Let_def wp_rules split del: if_split cong: if_cong)

lemma EMIT_LSL_mem_mono:
  "n \<le> ra_next s \<Longrightarrow> prefix F (ra_freed s) \<Longrightarrow>
   wp (EMIT_LSL_mem e m opcode) (\<lambda>_ s'. n \<le> ra_next s' \<and> prefix F (ra_freed s')) s"
  unfolding EMIT_LSL_mem_def
  by (simp add: prim_defs Let_def wp_rules split del: if_split cong: if_cong)

lemma EMIT_ROXL_mem_mono:
  "n \<le> ra_next s \<Longrightarrow> prefix F (ra_freed s) \<Longrightarrow>
   wp (EMIT_ROXL_mem e m opcode) (\<lambda>_ s'. n \<le> ra_next s' \<and> prefix F (ra_freed s')) s"
  unfolding EMIT_ROXL_mem_def
  by (simp add: prim_defs Let_def wp_rules split del: if_split cong: if_cong)

lemma EMIT_ROL_mem_mono:
  "n \<le> ra_next s \<Longrightarrow> prefix F (ra_freed s) \<Longrightarrow>
   wp (EMIT_ROL_mem e m opcode) (\<lambda>_ s'. n \<le> ra_next s' \<and> prefix F (ra_freed s')) s"
  unfolding EMIT_ROL_mem_def
  by (simp add: prim_defs Let_def wp_rules split del: if_split cong: if_cong)

lemma EMIT_BFTST_mono:
  "n \<le> ra_next s \<Longrightarrow> prefix F (ra_freed s) \<Longrightarrow>
   wp (EMIT_BFTST e m opcode) (\<lambda>_ s'. n \<le> ra_next s' \<and> prefix F (ra_freed s')) s"
  unfolding EMIT_BFTST_def
  by (simp add: prim_defs Let_def wp_rules split del: if_split cong: if_cong)

lemma EMIT_BFEXTU_mono:
  "n \<le> ra_next s \<Longrightarrow> prefix F (ra_freed s) \<Longrightarrow>
   wp (EMIT_BFEXTU e m opcode) (\<lambda>_ s'. n \<le> ra_next s' \<and> prefix F (ra_freed s')) s"
  unfolding EMIT_BFEXTU_def
  by (simp add: prim_defs Let_def wp_rules split del: if_split cong: if_cong)

lemma EMIT_BFEXTS_mono:
  "n \<le> ra_next s \<Longrightarrow> prefix F (ra_freed s) \<Longrightarrow>
   wp (EMIT_BFEXTS e m opcode) (\<lambda>_ s'. n \<le> ra_next s' \<and> prefix F (ra_freed s')) s"
  unfolding EMIT_BFEXTS_def
  by (simp add: prim_defs Let_def wp_rules split del: if_split cong: if_cong)

lemma EMIT_BFCHG_reg_mono:
  "n \<le> ra_next s \<Longrightarrow> prefix F (ra_freed s) \<Longrightarrow>
   wp (EMIT_BFCHG_reg e m opcode) (\<lambda>_ s'. n \<le> ra_next s' \<and> prefix F (ra_freed s')) s"
  unfolding EMIT_BFCHG_reg_def
  by (simp add: prim_defs Let_def wp_rules split del: if_split cong: if_cong)

lemma EMIT_BFCLR_reg_mono:
  "n \<le> ra_next s \<Longrightarrow> prefix F (ra_freed s) \<Longrightarrow>
   wp (EMIT_BFCLR_reg e m opcode) (\<lambda>_ s'. n \<le> ra_next s' \<and> prefix F (ra_freed s')) s"
  unfolding EMIT_BFCLR_reg_def
  by (simp add: prim_defs Let_def wp_rules split del: if_split cong: if_cong)

lemma EMIT_BFSET_reg_mono:
  "n \<le> ra_next s \<Longrightarrow> prefix F (ra_freed s) \<Longrightarrow>
   wp (EMIT_BFSET_reg e m opcode) (\<lambda>_ s'. n \<le> ra_next s' \<and> prefix F (ra_freed s')) s"
  unfolding EMIT_BFSET_reg_def
  by (simp add: prim_defs Let_def wp_rules split del: if_split cong: if_cong)

lemma EMIT_BFFFO_reg_mono:
  "n \<le> ra_next s \<Longrightarrow> prefix F (ra_freed s) \<Longrightarrow>
   wp (EMIT_BFFFO_reg e m opcode) (\<lambda>_ s'. n \<le> ra_next s' \<and> prefix F (ra_freed s')) s"
  unfolding EMIT_BFFFO_reg_def
  by (simp add: prim_defs Let_def wp_rules split del: if_split cong: if_cong)

lemma EMIT_BFINS_reg_mono:
  "n \<le> ra_next s \<Longrightarrow> prefix F (ra_freed s) \<Longrightarrow>
   wp (EMIT_BFINS_reg e m opcode) (\<lambda>_ s'. n \<le> ra_next s' \<and> prefix F (ra_freed s')) s"
  unfolding EMIT_BFINS_reg_def
  by (simp add: prim_defs Let_def wp_rules split del: if_split cong: if_cong)

lemma EMIT_BFCHG_mono:
  "n \<le> ra_next s \<Longrightarrow> prefix F (ra_freed s) \<Longrightarrow>
   wp (EMIT_BFCHG e m opcode) (\<lambda>_ s'. n \<le> ra_next s' \<and> prefix F (ra_freed s')) s"
  unfolding EMIT_BFCHG_def
  by (simp add: prim_defs Let_def wp_rules split del: if_split cong: if_cong)

lemma EMIT_BFCLR_mono:
  "n \<le> ra_next s \<Longrightarrow> prefix F (ra_freed s) \<Longrightarrow>
   wp (EMIT_BFCLR e m opcode) (\<lambda>_ s'. n \<le> ra_next s' \<and> prefix F (ra_freed s')) s"
  unfolding EMIT_BFCLR_def
  by (simp add: prim_defs Let_def wp_rules split del: if_split cong: if_cong)

lemma EMIT_BFSET_mono:
  "n \<le> ra_next s \<Longrightarrow> prefix F (ra_freed s) \<Longrightarrow>
   wp (EMIT_BFSET e m opcode) (\<lambda>_ s'. n \<le> ra_next s' \<and> prefix F (ra_freed s')) s"
  unfolding EMIT_BFSET_def
  by (simp add: prim_defs Let_def wp_rules split del: if_split cong: if_cong)

lemma EMIT_BFFFO_mono:
  "n \<le> ra_next s \<Longrightarrow> prefix F (ra_freed s) \<Longrightarrow>
   wp (EMIT_BFFFO e m opcode) (\<lambda>_ s'. n \<le> ra_next s' \<and> prefix F (ra_freed s')) s"
  unfolding EMIT_BFFFO_def
  by (simp add: prim_defs Let_def wp_rules split del: if_split cong: if_cong)

lemma EMIT_BFINS_mono:
  "n \<le> ra_next s \<Longrightarrow> prefix F (ra_freed s) \<Longrightarrow>
   wp (EMIT_BFINS e m opcode) (\<lambda>_ s'. n \<le> ra_next s' \<and> prefix F (ra_freed s')) s"
  unfolding EMIT_BFINS_def
  by (simp add: prim_defs Let_def wp_rules split del: if_split cong: if_cong)

lemmas handler_mono = EMIT_ASL_mono EMIT_LSL_mono EMIT_ROXL_mono EMIT_ROL_mono EMIT_ASL_mem_mono
  EMIT_LSL_mem_mono EMIT_ROXL_mem_mono EMIT_ROL_mem_mono EMIT_BFTST_mono EMIT_BFEXTU_mono
  EMIT_BFEXTS_mono EMIT_BFCHG_reg_mono EMIT_BFCLR_reg_mono EMIT_BFSET_reg_mono
  EMIT_BFFFO_reg_mono EMIT_BFINS_reg_mono EMIT_BFCHG_mono EMIT_BFCLR_mono EMIT_BFSET_mono
  EMIT_BFFFO_mono EMIT_BFINS_mono

lemmas alias_defs = EMIT_ASR_def EMIT_LSR_def EMIT_ROXR_def EMIT_ROR_def EMIT_ASR_mem_def
  EMIT_LSR_mem_def EMIT_ROXR_mem_def EMIT_ROR_mem_def
subsection \<open>Program counter and guest read position of the handlers\<close>























lemma call_ra:
  "wp (call f e m opcode) (\<lambda>_ s. mset (ra_freed s) + A = F + mset [0..<ra_next s]) =
   (\<lambda>s. mset (ra_freed s) + A = F + mset [0..<ra_next s])"
  by (cases f) (simp_all only: call_def emit_fn.case alias_defs handler_ra)

lemma call_mono:
  "n \<le> ra_next s \<Longrightarrow> prefix F (ra_freed s) \<Longrightarrow>
   wp (call f e m opcode) (\<lambda>_ s'. n \<le> ra_next s' \<and> prefix F (ra_freed s')) s"
  by (cases f) (simp_all only: call_def emit_fn.case alias_defs handler_mono)

lemma balanced_run:
  assumes bal: "\<And>A F. wp c (\<lambda>_ s. mset (ra_freed s) + A = F + mset [0..<ra_next s]) =
      (\<lambda>s. mset (ra_freed s) + A = F + mset [0..<ra_next s])"
    and mono: "\<And>n F s. n \<le> ra_next s \<Longrightarrow> prefix F (ra_freed s) \<Longrightarrow>
      wp c (\<lambda>_ s'. n \<le> ra_next s' \<and> prefix F (ra_freed s')) s"
  shows "mset (released_by c s) = mset (obtained_by c s)"
proof -
  let ?s' = "exec c s"
  have "wp c (\<lambda>_ s'. ra_next s \<le> ra_next s' \<and> prefix (ra_freed s) (ra_freed s')) s"
    by (rule mono) simp_all
  then have le: "ra_next s \<le> ra_next ?s'" and pre: "prefix (ra_freed s) (ra_freed ?s')"
    by (simp_all add: wp_def exec_def split: prod.splits)
  have "wp c (\<lambda>_ s'. mset (ra_freed s') + mset [0..<ra_next s] =
      mset (ra_freed s) + mset [0..<ra_next s']) s"
    using fun_cong [OF bal [of "mset [0..<ra_next s]" "mset (ra_freed s)"], of s] by simp
  then have eq: "mset (ra_freed ?s') + mset [0..<ra_next s] =
      mset (ra_freed s) + mset [0..<ra_next ?s']"
    by (simp add: wp_def exec_def split: prod.splits)
  from pre obtain rel where rel: "ra_freed ?s' = ra_freed s @ rel"
    by (auto simp: prefix_def)
  from le have upt: "[0..<ra_next ?s'] = [0..<ra_next s] @ [ra_next s..<ra_next ?s']"
    by (metis le0 upt_add_eq_append le_add_diff_inverse)
  have "mset rel = mset [ra_next s..<ra_next ?s']"
    using eq unfolding rel upt by simp
  then show ?thesis
    by (simp add: released_by_def obtained_by_def rel)
qed


subsection \<open>Fields of the opcode\<close>


lemma m12: "(0xfff :: u16) = mask 12" by (simp add: mask_eq_decr_exp)






lemma rot8_bits:
  assumes "(opcode::u16) AND 0xfef8 = 0xe058"
  shows "bit opcode 3" "bit opcode 4" "\<not> bit opcode 5" "bit opcode 6" "\<not> bit opcode 7"
    "\<not> bit opcode 9" "\<not> bit opcode 10" "\<not> bit opcode 11"
proof -
  have b: "bit (opcode AND 0xfef8) k = bit (0xe058 :: u16) k" for k
    using assms by simp
  show "bit opcode 3" using b [of 3] by (simp add: bit_and_iff)
  show "bit opcode 4" using b [of 4] by (simp add: bit_and_iff)
  show "\<not> bit opcode 5" using b [of 5] by (simp add: bit_and_iff)
  show "bit opcode 6" using b [of 6] by (simp add: bit_and_iff)
  show "\<not> bit opcode 7" using b [of 7] by (simp add: bit_and_iff)
  show "\<not> bit opcode 9" using b [of 9] by (simp add: bit_and_iff)
  show "\<not> bit opcode 10" using b [of 10] by (simp add: bit_and_iff)
  show "\<not> bit opcode 11" using b [of 11] by (simp add: bit_and_iff)
qed

lemma take_bit_12_bits:
  fixes a :: nat
  shows "take_bit 12 a = 2048 * of_bool (bit a 11) + 1024 * of_bool (bit a 10) +
    512 * of_bool (bit a 9) + 256 * of_bool (bit a 8) + 128 * of_bool (bit a 7) +
    64 * of_bool (bit a 6) + 32 * of_bool (bit a 5) + 16 * of_bool (bit a 4) +
    8 * of_bool (bit a 3) + take_bit 3 a"
  using take_bit_Suc_from_most [of 11 a] take_bit_Suc_from_most [of 10 a]
    take_bit_Suc_from_most [of 9 a] take_bit_Suc_from_most [of 8 a]
    take_bit_Suc_from_most [of 7 a] take_bit_Suc_from_most [of 6 a]
    take_bit_Suc_from_most [of 5 a] take_bit_Suc_from_most [of 4 a]
    take_bit_Suc_from_most [of 3 a]
  by (simp add: numeral_eq_Suc [symmetric] del: take_bit_numeral_numeral)

lemma rot8_index:
  assumes "(opcode::u16) AND 0xfef8 = 0xe058"
  shows "88 \<le> unat (opcode AND 0xfff) \<and> unat (opcode AND 0xfff) \<le> 95 \<or>
    344 \<le> unat (opcode AND 0xfff) \<and> unat (opcode AND 0xfff) \<le> 351"
proof -
  have "unat (opcode AND 0xfff) = take_bit 12 (unat opcode)"
    unfolding m12 by (simp only: unsigned_take_bit_eq flip: take_bit_eq_mask)
  moreover have "take_bit 3 (unat opcode) < 8"
    using take_bit_nat_less_exp [of 3 "unat opcode"] by simp
  moreover have "bit (unat opcode) k = bit opcode k" for k
    by (simp add: bit_unsigned_iff)
  ultimately show ?thesis
    using rot8_bits [OF assms] by (simp add: take_bit_12_bits)
qed

subsection \<open>The entry point\<close>

lemma wp_run: "wp c Q s = Q (fst (run_state c s)) (exec c s)"
  by (simp add: wp_def exec_def split: prod.splits)

lemma own_words_simps [simp]:
  "own_words [] = []"
  "own_words (xs @ ys) = own_words xs @ own_words ys"
  "own_words (map (Ext n) ks) = []"
  "own_words (Insn n' as # xs) = Insn n' as # own_words xs"
  "own_words (Raw w # xs) = Raw w # own_words xs"
  by (simp_all add: own_words_def is_ext_def)


lemma EMIT_lineE_handler:
  assumes "\<not> rev_pattern m (m68k_ptr s)"
    and "InsnTable (unat (m (m68k_ptr s) AND 0xfff)) = Some od" and "od_Emit od = Some f"
  shows "wp (EMIT_lineE e m) (\<lambda>_. Q) s =
    wp (call f e m (m (m68k_ptr s))) (\<lambda>_. Q) (s\<lparr>m68k_ptr := m68k_ptr s + 1\<rparr>)"
proof -
  have c: "(m (m68k_ptr s) AND 0xfef8 = 0xe058 \<and>
      m (m68k_ptr s + 1) = 0x4840 OR (m (m68k_ptr s) AND 7) \<and>
      m (2 + m68k_ptr s) AND 0xfeff = m (m68k_ptr s) AND 0xfeff) = False"
    using assms(1) by (simp add: rev_pattern_def add.commute)
  show ?thesis
    unfolding EMIT_lineE_def
    by (simp add: BE16_at_def m68k_ptr_add_def Let_def wp_rules c assms(2,3) split del: if_split)
qed

lemma EMIT_lineE_trap:
  assumes "\<not> rev_pattern m (m68k_ptr s)"
    and "InsnTable (unat (m (m68k_ptr s) AND 0xfff)) = Some od" and "od_Emit od = None"
  shows "wp (EMIT_lineE e m) Q s =
    wp (do {
        EMIT_FlushPC e;
        EMIT_InjectDebugString e ''[JIT] opcode %04x at %08x not implemented''
          [I (uint (m (m68k_ptr s))), I (m68k_ptr s)];
        EMIT_Exception e VECTOR_ILLEGAL_INSTRUCTION 0;
        emit_raw 0xffffffff;
        State_Monad.return (Some 1)
      }) Q (s\<lparr>m68k_ptr := m68k_ptr s + 1\<rparr>)"
proof -
  have c: "(m (m68k_ptr s) AND 0xfef8 = 0xe058 \<and>
      m (m68k_ptr s + 1) = 0x4840 OR (m (m68k_ptr s) AND 7) \<and>
      m (2 + m68k_ptr s) AND 0xfeff = m (m68k_ptr s) AND 0xfeff) = False"
    using assms(1) by (simp add: rev_pattern_def add.commute)
  show ?thesis
    unfolding EMIT_lineE_def
    by (simp add: BE16_at_def m68k_ptr_add_def EMIT_FlushPC_def ext_emit_def Let_def wp_rules c
        assms(2,3) split del: if_split)
qed


subsection \<open>Rows of the table\<close>



lemma rows_have_handler: "\<forall>row \<in> set InsnTable_init. od_Emit (snd (snd row)) \<noteq> None"
  by (simp add: InsnTable_rows OD_def)

lemma covered_has_handler:
  assumes "row \<in> set InsnTable_init" and "covers i row" and "i < 4096"
  shows "\<exists>od f. InsnTable i = Some od \<and> od_Emit od = Some f"
proof -
  from assms(1,2) obtain row' where "row' \<in> set InsnTable_init"
    and "pick i od_zero InsnTable_init = snd (snd row')"
    using pick_cases [of i od_zero InsnTable_init] by blast
  with rows_have_handler assms(3) show ?thesis
    by (auto simp: InsnTable_pick)
qed

lemma rot8_mapped:
  assumes "(opcode::u16) AND 0xfef8 = 0xe058"
  shows "\<exists>od f. InsnTable (unat (opcode AND 0xfff)) = Some od \<and> od_Emit od = Some f"
proof -
  let ?i = "unat (opcode AND 0xfff)"
  have r1: "(oct 0 1 3 0, oct 0 1 3 7, OD fp_EMIT_ROR 0 SR_NZVC 1 0 2) \<in> set InsnTable_init"
    by (simp add: InsnTable_init_def InsnTable_0000_def)
  have r2: "(oct 0 5 3 0, oct 0 5 3 7, OD fp_EMIT_ROL 0 SR_NZVC 1 0 2) \<in> set InsnTable_init"
    by (simp add: InsnTable_init_def InsnTable_0400_def)
  from rot8_index [OF assms] consider "88 \<le> ?i \<and> ?i \<le> 95" | "344 \<le> ?i \<and> ?i \<le> 351"
    by blast
  then show ?thesis
  proof cases
    case 1
    then have "covers ?i (oct 0 1 3 0, oct 0 1 3 7, OD fp_EMIT_ROR 0 SR_NZVC 1 0 2)"
      by (simp add: covers_def oct_def)
    from covered_has_handler [OF r1 this table_index_bound] show ?thesis .
  next
    case 2
    then have "covers ?i (oct 0 5 3 0, oct 0 5 3 7, OD fp_EMIT_ROL 0 SR_NZVC 1 0 2)"
      by (simp add: covers_def oct_def)
    from covered_has_handler [OF r2 this table_index_bound] show ?thesis .
  qed
qed




subsection \<open>Host words of single paths\<close>

lemma mem_accesses_simps [simp]:
  "mem_accesses [] = []"
  "mem_accesses (xs @ ys) = mem_accesses xs @ mem_accesses ys"
  "mem_accesses (map (Ext n) ks) = []"
  "mem_accesses (Raw w # xs) = mem_accesses xs"
  "mem_accesses (Insn (c1 # c2 # cs) as # xs) =
     (if [c1, c2] = ''ld'' \<or> [c1, c2] = ''st'' then Insn (c1 # c2 # cs) as # mem_accesses xs
      else mem_accesses xs)"
  by (simp_all add: mem_accesses_def is_mem_access_def)

lemma EMIT_ASL_mem_acc:
  assumes "mem_accesses (code s) = A" and "ra_next s = k"
  shows "wp (EMIT_ASL_mem e m opcode)
    (\<lambda>_ s'. mem_accesses (code s') = A @ mem_shift_accesses ''ldrsh'' e opcode k) s"
  using assms unfolding EMIT_ASL_mem_def mem_shift_accesses_def
  by (simp add: prim_defs Let_def wp_rules split del: if_split cong: if_cong)

lemma EMIT_LSL_mem_acc:
  assumes "mem_accesses (code s) = A" and "ra_next s = k"
  shows "wp (EMIT_LSL_mem e m opcode)
    (\<lambda>_ s'. mem_accesses (code s') = A @ mem_shift_accesses ''ldrh'' e opcode k) s"
  using assms unfolding EMIT_LSL_mem_def mem_shift_accesses_def
  by (simp add: prim_defs Let_def wp_rules split del: if_split cong: if_cong)

lemma EMIT_ROXL_mem_acc:
  assumes "mem_accesses (code s) = A" and "ra_next s = k"
  shows "wp (EMIT_ROXL_mem e m opcode)
    (\<lambda>_ s'. mem_accesses (code s') = A @ mem_shift_accesses ''ldrh'' e opcode k) s"
  using assms unfolding EMIT_ROXL_mem_def mem_shift_accesses_def
  by (simp add: prim_defs Let_def wp_rules split del: if_split cong: if_cong)

lemma EMIT_ROL_mem_acc:
  assumes "mem_accesses (code s) = A" and "ra_next s = k"
  shows "wp (EMIT_ROL_mem e m opcode)
    (\<lambda>_ s'. mem_accesses (code s') = A @ mem_shift_accesses ''ldrh'' e opcode k) s"
  using assms unfolding EMIT_ROL_mem_def mem_shift_accesses_def
  by (simp add: prim_defs Let_def wp_rules split del: if_split cong: if_cong)

lemma call_mem_acc:
  assumes "kind_of f = MemShift"
  shows "wp (call f e m opcode)
    (\<lambda>_ s'. mem_accesses (code s') = mem_accesses (code s) @
       mem_shift_accesses (if f = fp_EMIT_ASL_mem \<or> f = fp_EMIT_ASR_mem then ''ldrsh'' else ''ldrh'')
         e opcode (ra_next s)) s"
  using assms EMIT_ASL_mem_acc [OF refl refl, where s = s and e = e and m = m and opcode = opcode]
    EMIT_LSL_mem_acc [OF refl refl, where s = s and e = e and m = m and opcode = opcode]
    EMIT_ROXL_mem_acc [OF refl refl, where s = s and e = e and m = m and opcode = opcode]
    EMIT_ROL_mem_acc [OF refl refl, where s = s and e = e and m = m and opcode = opcode]
  by (cases f) (simp_all add: kind_of_def call_def alias_defs)

lemma wp_True: "wp c (\<lambda>_ _. True) s"
  by (simp add: wp_def split: prod.splits)

lemma EMIT_lineE_handler_result:
  assumes "\<not> rev_pattern m (m68k_ptr s)"
    and "InsnTable (unat (m (m68k_ptr s) AND 0xfff)) = Some od" and "od_Emit od = Some f"
  shows "wp (EMIT_lineE e m) Q s =
    wp (call f e m (m (m68k_ptr s))) (\<lambda>_. Q (Some 1)) (s\<lparr>m68k_ptr := m68k_ptr s + 1\<rparr>)"
proof -
  have c: "(m (m68k_ptr s) AND 0xfef8 = 0xe058 \<and>
      m (m68k_ptr s + 1) = 0x4840 OR (m (m68k_ptr s) AND 7) \<and>
      m (2 + m68k_ptr s) AND 0xfeff = m (m68k_ptr s) AND 0xfeff) = False"
    using assms(1) by (simp add: rev_pattern_def add.commute)
  show ?thesis
    unfolding EMIT_lineE_def
    by (simp add: BE16_at_def m68k_ptr_add_def Let_def wp_rules c assms(2,3) split del: if_split)
qed

lemma EMIT_lineE_unfused_result:
  assumes "\<not> rev_pattern m (m68k_ptr s)"
  shows "fst (run_state (EMIT_lineE e m) s) = Some 1"
proof -
  obtain od where od: "InsnTable (unat (m (m68k_ptr s) AND 0xfff)) = Some od"
    using InsnTable_in_bounds by blast
  have "wp (EMIT_lineE e m) (\<lambda>x _. x = Some 1) s"
  proof (cases "od_Emit od")
    case None
    show ?thesis
      unfolding EMIT_lineE_trap [OF assms od None] by (simp add: prim_defs wp_rules)
  next
    case (Some f)
    show ?thesis
      unfolding EMIT_lineE_handler_result [OF assms od Some] by (simp add: wp_True)
  qed
  then show ?thesis
    unfolding wp_run .
qed

lemma EMIT_lineE_fused_result:
  assumes "rev_pattern m (m68k_ptr s)"
  shows "fst (run_state (EMIT_lineE e m) s) = Some 3"
proof -
  have c: "(m (m68k_ptr s) AND 0xfef8 = 0xe058 \<and>
      m (m68k_ptr s + 1) = 0x4840 OR (m (m68k_ptr s) AND 7) \<and>
      m (2 + m68k_ptr s) AND 0xfeff = m (m68k_ptr s) AND 0xfeff) = True"
    using assms by (simp add: rev_pattern_def add.commute)
  have "wp (EMIT_lineE e m) (\<lambda>x s'. x = Some 3) s"
    unfolding EMIT_lineE_def
    by (simp add: prim_defs Let_def wp_rules c split del: if_split cong: if_cong)
  then show ?thesis
    unfolding wp_run .
qed

lemma EMIT_lineE_fused_code:
  assumes "rev_pattern m (m68k_ptr s)" and "own_words (code s) = A"
  shows "wp (EMIT_lineE e m) (\<lambda>x s'.
     (\<exists>rest. own_words (code s') = A @
       Insn ''rev'' [R (Guest (uint (m (m68k_ptr s) AND 7))), R (Guest (uint (m (m68k_ptr s) AND 7)))] # rest) \<and>
     (M68K_GetSRMask e m (m68k_ptr s) = 0 \<longrightarrow> own_words (code s') = A @
       [Insn ''rev'' [R (Guest (uint (m (m68k_ptr s) AND 7))), R (Guest (uint (m (m68k_ptr s) AND 7)))]])) s"
proof -
  have c: "(m (m68k_ptr s) AND 0xfef8 = 0xe058 \<and>
      m (m68k_ptr s + 1) = 0x4840 OR (m (m68k_ptr s) AND 7) \<and>
      m (2 + m68k_ptr s) AND 0xfeff = m (m68k_ptr s) AND 0xfeff) = True"
    using assms(1) by (simp add: rev_pattern_def add.commute)
  show ?thesis
    using assms(2) unfolding EMIT_lineE_def
    by (simp add: prim_defs Let_def wp_rules c split del: if_split cong: if_cong)
qed

lemma EMIT_BFFFO_reg_imm_code:
  assumes "m (m68k_ptr s) AND 0x0820 = 0" and "own_words (code s) = A"
  shows "wp (EMIT_BFFFO_reg e m opcode)
    (\<lambda>_ s'. own_words (code s') = A @ BFFFO_reg_imm e m opcode s) s"
  using assms unfolding EMIT_BFFFO_reg_def BFFFO_reg_imm_def
  by (simp add: prim_defs Let_def wp_rules split del: if_split cong: if_cong)

lemma EMIT_lineE_BFFFO_reg_code:
  assumes "m (m68k_ptr s) = 0xEDC0" and "m (m68k_ptr s + 1) AND 0x0820 = 0"
  shows "own_words (code (exec (EMIT_lineE e m) s)) = own_words (code s) @
    BFFFO_reg_imm e m 0xEDC0 (s\<lparr>m68k_ptr := m68k_ptr s + 1\<rparr>)"
proof -
  let ?s1 = "s\<lparr>m68k_ptr := m68k_ptr s + 1\<rparr>"
  have np: "\<not> rev_pattern m (m68k_ptr s)"
    by (simp add: rev_pattern_def assms(1))
  have tab: "InsnTable (unat (m (m68k_ptr s) AND 0xfff)) = Some (OD fp_EMIT_BFFFO_reg 0 SR_NZVC 2 0 0)"
    by (simp add: assms(1) InsnTable_3520)
  have h: "od_Emit (OD fp_EMIT_BFFFO_reg 0 SR_NZVC 2 0 0) = Some fp_EMIT_BFFFO_reg"
    by (simp add: OD_def)
  have "wp (EMIT_BFFFO_reg e m 0xEDC0)
      (\<lambda>_ s'. own_words (code s') = own_words (code s) @ BFFFO_reg_imm e m 0xEDC0 ?s1) ?s1"
    by (rule EMIT_BFFFO_reg_imm_code) (simp_all add: assms(2))
  then have "wp (EMIT_lineE e m)
      (\<lambda>_ s'. own_words (code s') = own_words (code s) @ BFFFO_reg_imm e m 0xEDC0 ?s1) s"
    by (simp add: EMIT_lineE_handler [OF np tab h] call_def assms(1))
  then show ?thesis
    unfolding wp_exec .
qed

section \<open>The claims\<close>

text \<open>
  C6.  For every 16-bit opcode, \<open>GetSR_LineE\<close> reads \<open>InsnTable\<close> at the opcode masked to 12
  bits, which is inside the table, so it always returns a result.  For an entry with a handler
  the result is the 32-bit word \<^verbatim>\<open>(SRNeeds << 16) | SRSets\<close> of the entry: its upper half is
  the required flags, its lower half the produced flags, and no other bit is set.  For an
  entry without a handler the result is \<^verbatim>\<open>SR_CCR << 16\<close>: the upper half is all five flags,
  the lower half is zero.
\<close>

theorem GetSR_LineE_lookup:
  "\<exists>od r out. InsnTable (unat (opcode AND 0xfff)) = Some od \<and> GetSR_LineE opcode = Some (r, out) \<and>
     (if od_Emit od \<noteq> None
      then r = push_bit 16 (ucast (od_SRNeeds od)) OR ucast (od_SRSets od) \<and>
           drop_bit 16 r = ucast (od_SRNeeds od) \<and> r AND 0xffff = ucast (od_SRSets od)
      else r = push_bit 16 (ucast SR_CCR) OR 0 \<and> drop_bit 16 r = 0x1f \<and> r AND 0xffff = 0)"
proof -
  obtain od where od: "InsnTable (unat (opcode AND 0xfff)) = Some od"
    using InsnTable_in_bounds by blast
  show ?thesis
  proof (cases "od_Emit od")
    case None
    let ?r = "push_bit 16 (ucast SR_CCR) OR 0 :: u32"
    have g: "GetSR_LineE opcode = Some (?r, [''Undefined LineE''])"
      using None by (simp add: GetSR_LineE_def od)
    have c: "od_Emit od = None"
      by (rule None)
    have 1: "drop_bit 16 ?r = 0x1f" and 2: "?r AND 0xffff = 0"
      by (simp_all add: SR_CCR_def)
    show ?thesis
      apply (rule exI [of _ od], rule exI [of _ ?r], rule exI [of _ "[''Undefined LineE'']"])
      apply (simp only: od g c if_False simp_thms 1 2)
      done
  next
    case (Some f)
    let ?r = "push_bit 16 (ucast (od_SRNeeds od)) OR ucast (od_SRSets od) :: u32"
    have g: "GetSR_LineE opcode = Some (?r, [])"
      using Some by (simp add: GetSR_LineE_def od)
    have c: "od_Emit od \<noteq> None"
      using Some by simp
    have 1: "drop_bit 16 ?r = ucast (od_SRNeeds od)"
      by (rule pack_needs)
    have 2: "?r AND 0xffff = ucast (od_SRSets od)"
      by (rule pack_sets)
    show ?thesis
      apply (rule exI [of _ od], rule exI [of _ ?r], rule exI [of _ "[]"])
      apply (simp only: od g c if_True simp_thms 1 2)
      done
  qed
qed

theorem GetSR_LineE_lookup_witness:
  "GetSR_LineE 0xE120 = Some (0x10001f, []) \<and>
   GetSR_LineE 0xE0C0 = Some (0x1f0000, [''Undefined LineE''])"
  using GetSR_LineE_lookup [of "0xE120"] GetSR_LineE_lookup [of "0xE0C0"]
  by (simp add: GetSR_LineE_def InsnTable_288 InsnTable_192 OD_def od_zero_def SR_CCR_def
      SR_X_def)

text \<open>
  C7.  For a guest stream whose opcode at position \<open>p\<close> selects a table entry with a handler,
  \<open>M68K_GetLineELength\<close> returns the entry's base length plus, exactly when the entry's
  needs-EA field is set, what \<open>SR_GetEALength\<close> returns for the stream starting base-length
  words after the opcode, the low six bits of the opcode and the entry's operand size.
\<close>

theorem M68K_GetLineELength_mapped:
  assumes "InsnTable (unat (m p AND 0xfff)) = Some od" and "od_Emit od \<noteq> None"
  shows "M68K_GetLineELength e m p =
    Some (uint (od_BaseLength od) +
      (if od_HasEA od \<noteq> 0
       then SR_GetEALength e m (p + uint (od_BaseLength od)) (m p AND 0x3f) (uint (od_OpSize od))
       else 0))"
  using assms by (simp add: M68K_GetLineELength_def Let_def uint_0_iff)

theorem M68K_GetLineELength_mapped_witness:
  "InsnTable (unat (stream [0xE1F9, 0x0001, 0x2000] 0 AND 0xfff)) =
     Some (OD fp_EMIT_ASL_mem SR_X SR_CCR 1 1 2) \<and>
   od_Emit (OD fp_EMIT_ASL_mem SR_X SR_CCR 1 1 2) \<noteq> None \<and>
   M68K_GetLineELength env0 (stream [0xE1F9, 0x0001, 0x2000]) 0 = Some 3"
proof -
  have t: "InsnTable (unat (stream [0xE1F9, 0x0001, 0x2000] 0 AND 0xfff)) =
      Some (OD fp_EMIT_ASL_mem SR_X SR_CCR 1 1 2)"
    by (simp add: stream_def InsnTable_505)
  have h: "od_Emit (OD fp_EMIT_ASL_mem SR_X SR_CCR 1 1 2) \<noteq> None"
    by (simp add: OD_def)
  show ?thesis
    using t h M68K_GetLineELength_mapped [where m = "stream [0xE1F9, 0x0001, 0x2000]" and p = 0 and e = env0, OF t h]
    by (simp add: OD_def env0_def ea_words0_def stream_def)
qed

text \<open>
  C10.  For a guest stream whose opcode at position \<open>p\<close> selects a table entry without a
  handler, \<open>M68K_GetLineELength\<close> returns 0, not the one word the opcode itself occupies:
  the entry is all zero, the three locals keep their initial zero and \<open>SR_GetEALength\<close> is
  not consulted.
\<close>

theorem M68K_GetLineELength_unmapped:
  assumes "InsnTable (unat (m p AND 0xfff)) = Some od" and "od_Emit od = None"
  shows "M68K_GetLineELength e m p = Some 0"
  using assms by (simp add: M68K_GetLineELength_def Let_def)

theorem M68K_GetLineELength_unmapped_witness:
  "InsnTable (unat (stream [0xE0C0] 0 AND 0xfff)) = Some od_zero \<and> od_Emit od_zero = None \<and>
   M68K_GetLineELength env0 (stream [0xE0C0]) 0 = Some 0"
proof -
  have t: "InsnTable (unat (stream [0xE0C0] 0 AND 0xfff)) = Some od_zero"
    by (simp add: stream_def InsnTable_192)
  have h: "od_Emit od_zero = None"
    by (simp add: od_zero_def)
  show ?thesis
    using t h M68K_GetLineELength_unmapped [where m = "stream [0xE0C0]" and p = 0 and e = env0, OF t h] by simp
qed


text \<open>
  C9.  For every handler of the table, every opcode, guest stream and environment, and from
  every state: the scratch handles the handler releases are, counted with multiplicity,
  exactly the scratch handles handed out during the call.  So each scratch register obtained
  during the call is released once, none twice, and none is still held when the handler
  returns, whichever branches the handler takes.
\<close>

theorem handlers_release_scratch:
  "mset (released_by (call f e m opcode) s) = mset (obtained_by (call f e m opcode) s) \<and>
   distinct (released_by (call f e m opcode) s)"
proof -
  have eq: "mset (released_by (call f e m opcode) s) = mset (obtained_by (call f e m opcode) s)"
    by (rule balanced_run [OF call_ra call_mono])
  moreover have "distinct (obtained_by (call f e m opcode) s)"
    by (simp add: obtained_by_def)
  ultimately show ?thesis
    by (metis mset_eq_imp_distinct_iff)
qed




text \<open>
  C5.  Take a guest position whose opcode selects a table entry without a handler.  Then
  \<open>EMIT_lineE\<close> stores 1 in \<^verbatim>\<open>*insn_consumed\<close> and calls exactly three collaborators, in this
  order: \<^verbatim>\<open>EMIT_FlushPC\<close>, \<^verbatim>\<open>EMIT_InjectDebugString\<close> with the opcode and the position of the
  opcode, and \<^verbatim>\<open>EMIT_Exception\<close> with the illegal-instruction vector.  The only host word it
  writes itself is one \<^verbatim>\<open>0xffffffff\<close>, and that is the last word of the code.  No handler
  runs: every handler calls \<^verbatim>\<open>EMIT_AdvancePC\<close>, which is not among the three calls, and the
  program counter and the allocator are as before.
\<close>

theorem EMIT_lineE_unmapped:
  assumes tab: "InsnTable (unat (m (m68k_ptr s) AND 0xfff)) = Some od"
    and h: "od_Emit od = None"
  shows "fst (run_state (EMIT_lineE e m) s) = Some 1 \<and>
    trace (exec (EMIT_lineE e m) s) = trace s @
      [(''EMIT_FlushPC'', []),
       (''EMIT_InjectDebugString [JIT] opcode %04x at %08x not implemented'',
          [I (uint (m (m68k_ptr s))), I (m68k_ptr s)]),
       (''EMIT_Exception'', [I VECTOR_ILLEGAL_INSTRUCTION, I 0])] \<and>
    own_words (emitted (EMIT_lineE e m) s) = [Raw 0xffffffff] \<and>
    last (code (exec (EMIT_lineE e m) s)) = Raw 0xffffffff \<and>
    pc_adv (exec (EMIT_lineE e m) s) = pc_adv s \<and>
    ra_next (exec (EMIT_lineE e m) s) = ra_next s"
proof -
  have np: "\<not> rev_pattern m (m68k_ptr s)"
    using rot8_mapped [of "m (m68k_ptr s)"] tab h by (auto simp: rev_pattern_def)
  have "wp (EMIT_lineE e m) (\<lambda>x s'. x = Some 1 \<and>
    trace s' = trace s @
      [(''EMIT_FlushPC'', []),
       (''EMIT_InjectDebugString [JIT] opcode %04x at %08x not implemented'',
          [I (uint (m (m68k_ptr s))), I (m68k_ptr s)]),
       (''EMIT_Exception'', [I VECTOR_ILLEGAL_INSTRUCTION, I 0])] \<and>
    own_words (drop (length (code s)) (code s')) = [Raw 0xffffffff] \<and>
    last (code s') = Raw 0xffffffff \<and>
    pc_adv s' = pc_adv s \<and> ra_next s' = ra_next s) s"
    unfolding EMIT_lineE_trap [OF np tab h]
    by (simp add: prim_defs wp_rules)
  then show ?thesis
    unfolding wp_run emitted_def .
qed

theorem EMIT_lineE_unmapped_witness:
  "fst (run_state (EMIT_lineE env0 (stream [0xE0C0])) s0) = Some 1 \<and>
   trace (exec (EMIT_lineE env0 (stream [0xE0C0])) s0) =
     [(''EMIT_FlushPC'', []),
      (''EMIT_InjectDebugString [JIT] opcode %04x at %08x not implemented'', [I 0xE0C0, I 0]),
      (''EMIT_Exception'', [I 0x10, I 0])] \<and>
   own_words (emitted (EMIT_lineE env0 (stream [0xE0C0])) s0) = [Raw 0xffffffff]"
proof -
  have p: "m68k_ptr s0 = 0" "trace s0 = []"
    by (simp_all add: s0_def)
  have op: "stream [0xE0C0] 0 = 0xE0C0"
    by (simp add: stream_def)
  have t: "InsnTable (unat (stream [0xE0C0] (m68k_ptr s0) AND 0xfff)) = Some od_zero"
    by (simp add: p op InsnTable_192)
  have h: "od_Emit od_zero = None"
    by (simp add: od_zero_def)
  show ?thesis
    using EMIT_lineE_unmapped [where m = "stream [0xE0C0]" and s = s0 and e = env0, OF t h]
    by (simp add: p op VECTOR_ILLEGAL_INSTRUCTION_def)
qed

text \<open>
  C1, as the code has it.  \<open>EMIT_lineE\<close> stores 3 in \<^verbatim>\<open>*insn_consumed\<close> exactly when
  \<open>rev_pattern\<close> holds at the opcode: the opcode is a word rotate by eight of a data register,
  the next word is \<^verbatim>\<open>SWAP\<close> of the same register, and the third word equals the opcode in every
  bit but the direction bit, so it is a rotate by eight of the same register in either
  direction.  No flag-update policy is compared.  In every other case it stores 1.  On the
  fused path the first host word it writes itself is \<^verbatim>\<open>rev\<close> on the register, and the only one
  when no flag is live at the opcode.
\<close>

theorem EMIT_lineE_consumed:
  "fst (run_state (EMIT_lineE e m) s) = Some (if rev_pattern m (m68k_ptr s) then 3 else 1) \<and>
   (rev_pattern m (m68k_ptr s) \<longrightarrow>
      (\<exists>rest. own_words (code (exec (EMIT_lineE e m) s)) = own_words (code s) @
         Insn ''rev'' [R (Guest (uint (m (m68k_ptr s) AND 7))), R (Guest (uint (m (m68k_ptr s) AND 7)))] # rest) \<and>
      (M68K_GetSRMask e m (m68k_ptr s) = 0 \<longrightarrow>
         own_words (code (exec (EMIT_lineE e m) s)) = own_words (code s) @
         [Insn ''rev'' [R (Guest (uint (m (m68k_ptr s) AND 7))), R (Guest (uint (m (m68k_ptr s) AND 7)))]]))"
proof (cases "rev_pattern m (m68k_ptr s)")
  case True
  from EMIT_lineE_fused_code [OF True refl, of e]
  have "(\<exists>rest. own_words (code (exec (EMIT_lineE e m) s)) = own_words (code s) @
         Insn ''rev'' [R (Guest (uint (m (m68k_ptr s) AND 7))), R (Guest (uint (m (m68k_ptr s) AND 7)))] # rest) \<and>
      (M68K_GetSRMask e m (m68k_ptr s) = 0 \<longrightarrow>
         own_words (code (exec (EMIT_lineE e m) s)) = own_words (code s) @
         [Insn ''rev'' [R (Guest (uint (m (m68k_ptr s) AND 7))), R (Guest (uint (m (m68k_ptr s) AND 7)))]])"
    unfolding wp_run .
  with True EMIT_lineE_fused_result [OF True, of e] show ?thesis
    by simp
next
  case False
  with EMIT_lineE_unfused_result [OF False, of e] show ?thesis
    by simp
qed

theorem EMIT_lineE_consumed_witness:
  "fst (run_state (EMIT_lineE env_dead (stream [0xE158, 0x4840, 0xE058])) s0) = Some 3 \<and>
   own_words (code (exec (EMIT_lineE env_dead (stream [0xE158, 0x4840, 0xE058])) s0)) =
     [Insn ''rev'' [R (Guest 0), R (Guest 0)]] \<and>
   fst (run_state (EMIT_lineE env_dead (stream [0xE158, 0x4840, 0xE059])) s0) = Some 1"
proof -
  have p: "m68k_ptr s0 = 0" "code s0 = []"
    by (simp_all add: s0_def)
  have y: "rev_pattern (stream [0xE158, 0x4840, 0xE058]) 0"
    and n: "\<not> rev_pattern (stream [0xE158, 0x4840, 0xE059]) 0"
    by (simp_all add: rev_pattern_def stream_def)
  show ?thesis
    using EMIT_lineE_consumed [of env_dead "stream [0xE158, 0x4840, 0xE058]" s0]
      EMIT_lineE_consumed [of env_dead "stream [0xE158, 0x4840, 0xE059]" s0]
    by (simp add: p y n env_dead_def env0_def stream_def)
qed

text \<open>
  C1 as stated fails for \<^verbatim>\<open>ROR.W #8,D0; SWAP D0; ROR.W #8,D0\<close> with flags dead at the first
  rotate and live at the second: the third word is the same rotate, not the complementary
  one, and the flag-update policies differ, yet \<open>EMIT_lineE\<close> stores 3.
\<close>

theorem EMIT_lineE_fuses_same_direction:
  "fst (run_state (EMIT_lineE env_split (stream [0xE058, 0x4840, 0xE058])) s0) = Some 3 \<and>
   \<not> spec_rev_triple env_split (stream [0xE058, 0x4840, 0xE058]) (m68k_ptr s0) \<and>
   stream [0xE058, 0x4840, 0xE058] 2 = stream [0xE058, 0x4840, 0xE058] 0 \<and>
   M68K_GetSRMask env_split (stream [0xE058, 0x4840, 0xE058]) 0 \<noteq>
     M68K_GetSRMask env_split (stream [0xE058, 0x4840, 0xE058]) 2"
proof -
  have p: "m68k_ptr s0 = 0"
    by (simp add: s0_def)
  have y: "rev_pattern (stream [0xE058, 0x4840, 0xE058]) (m68k_ptr s0)"
    by (simp add: p rev_pattern_def stream_def)
  show ?thesis
    using EMIT_lineE_fused_result [OF y, of env_split]
    by (simp add: p spec_rev_triple_def stream_def env_split_def env0_def)
qed

text \<open>
  C8.  For every handler of a shift or rotate of a memory operand, every opcode, stream,
  environment and state, the loads and stores the handler adds to the code are exactly two:
  one halfword load and then one halfword store, both on the register the resolver handed
  back.  In mode \<open>-(An)\<close> the load is the pre-indexed form with offset -2 and the store has
  offset 0; in mode \<open>(An)+\<close> the load has offset 0 and the store is the post-indexed form with
  offset 2; in every other mode both have offset 0.
\<close>

theorem mem_shift_load_store:
  assumes "kind_of f = MemShift"
  shows "mem_accesses (code (exec (call f e m opcode) s)) = mem_accesses (code s) @
    mem_shift_accesses (if f = fp_EMIT_ASL_mem \<or> f = fp_EMIT_ASR_mem then ''ldrsh'' else ''ldrh'')
      e opcode (ra_next s)"
  using call_mem_acc [OF assms, of e m opcode s] unfolding wp_exec .

theorem mem_shift_load_store_witness:
  "mem_accesses (code (exec (call fp_EMIT_ASL_mem env0 (stream [0xE1E0]) 0xE1E0) (s0\<lparr>m68k_ptr := 1\<rparr>))) =
     [Insn ''ldrsh_offset_preindex'' [R (Scratch 1), R (Scratch 0), I (- 2)],
      Insn ''strh_offset'' [R (Scratch 1), R (Scratch 0), I 0]] \<and>
   mem_accesses (code (exec (call fp_EMIT_ROR_mem env0 (stream [0xE6D8]) 0xE6D8) (s0\<lparr>m68k_ptr := 1\<rparr>))) =
     [Insn ''ldrh_offset'' [R (Scratch 1), R (Scratch 0), I 0],
      Insn ''strh_offset_postindex'' [R (Scratch 1), R (Scratch 0), I 2]] \<and>
   mem_accesses (code (exec (call fp_EMIT_LSL_mem env0 (stream [0xE3D0]) 0xE3D0) (s0\<lparr>m68k_ptr := 1\<rparr>))) =
     [Insn ''ldrh_offset'' [R (Guest 8), R (Scratch 0), I 0],
      Insn ''strh_offset'' [R (Guest 8), R (Scratch 0), I 0]]"
  using mem_shift_load_store [of fp_EMIT_ASL_mem env0 "stream [0xE1E0]" "0xE1E0" "s0\<lparr>m68k_ptr := 1\<rparr>"]
    mem_shift_load_store [of fp_EMIT_ROR_mem env0 "stream [0xE6D8]" "0xE6D8" "s0\<lparr>m68k_ptr := 1\<rparr>"]
    mem_shift_load_store [of fp_EMIT_LSL_mem env0 "stream [0xE3D0]" "0xE3D0" "s0\<lparr>m68k_ptr := 1\<rparr>"]
  by (simp add: kind_of_def mem_shift_accesses_def env0_def s0_def Let_def)

text \<open>
  C4 fails on one path of \<open>EMIT_BFFFO_reg\<close>.  For \<^verbatim>\<open>BFFFO D0{0:32},D1\<close> (opcode \<^verbatim>\<open>0xEDC0\<close>,
  extension word \<^verbatim>\<open>0x1000\<close>) with no flag live, \<open>EMIT_lineE\<close> writes no host word of its own:
  the destination register is not written.  With the flags live it writes the
  \<^verbatim>\<open>clz\<close> into the destination, and for offset 1 and width 1 it writes \<^verbatim>\<open>clz64\<close> and the
  addition of the offset into the destination although no flag is live.
\<close>

theorem BFFFO_reg_dead_flags_no_write:
  "own_words (code (exec (EMIT_lineE env_dead (stream [0xEDC0, 0x1000])) s0)) = [] \<and>
   own_words (code (exec (EMIT_lineE env0 (stream [0xEDC0, 0x1000])) s0)) =
     [Insn ''cmn_reg'' [I 31, R (Guest 0), I 0, I 0], Insn ''clz'' [R (Guest 1), R (Guest 0)]] \<and>
   own_words (code (exec (EMIT_lineE env_dead (stream [0xEDC0, 0x1041])) s0)) =
     [Insn ''lsl64'' [R (Scratch 0), R (Guest 0), I 33],
      Insn ''orr64_reg'' [R (Scratch 0), R (Scratch 0), R (Guest 0), I 0, I 1],
      Insn ''ands64_immed'' [R (Scratch 0), R (Scratch 0), I 1, I 1, I 1],
      Insn ''orr64_immed'' [R (Scratch 0), R (Scratch 0), I 63, I 0, I 1],
      Insn ''clz64'' [R (Guest 1), R (Scratch 0)],
      Insn ''add_immed'' [R (Guest 1), R (Guest 1), I 1]]"
proof -
  have p: "m68k_ptr s0 = 0" "code s0 = []" "ra_next s0 = 0"
    by (simp_all add: s0_def)
  have a: "stream [0xEDC0, 0x1000] (m68k_ptr s0) = 0xEDC0"
    "stream [0xEDC0, 0x1000] (m68k_ptr s0 + 1) AND 0x0820 = 0"
    "stream [0xEDC0, 0x1041] (m68k_ptr s0) = 0xEDC0"
    "stream [0xEDC0, 0x1041] (m68k_ptr s0 + 1) AND 0x0820 = 0"
    by (simp_all add: p stream_def)
  have r1: "BFFFO_reg_imm env_dead (stream [0xEDC0, 0x1000]) 0xEDC0
      (s0\<lparr>m68k_ptr := m68k_ptr s0 + 1\<rparr>) = []"
    by (simp add: p BFFFO_reg_imm_def Let_def stream_def env_dead_def env0_def)
  have r2: "BFFFO_reg_imm env0 (stream [0xEDC0, 0x1000]) 0xEDC0
      (s0\<lparr>m68k_ptr := m68k_ptr s0 + 1\<rparr>) =
     [Insn ''cmn_reg'' [I 31, R (Guest 0), I 0, I 0], Insn ''clz'' [R (Guest 1), R (Guest 0)]]"
    by (simp add: p BFFFO_reg_imm_def Let_def stream_def env0_def LSL_def)
  have r3: "BFFFO_reg_imm env_dead (stream [0xEDC0, 0x1041]) 0xEDC0
      (s0\<lparr>m68k_ptr := m68k_ptr s0 + 1\<rparr>) =
     [Insn ''lsl64'' [R (Scratch 0), R (Guest 0), I 33],
      Insn ''orr64_reg'' [R (Scratch 0), R (Scratch 0), R (Guest 0), I 0, I 1],
      Insn ''ands64_immed'' [R (Scratch 0), R (Scratch 0), I 1, I 1, I 1],
      Insn ''orr64_immed'' [R (Scratch 0), R (Scratch 0), I 63, I 0, I 1],
      Insn ''clz64'' [R (Guest 1), R (Scratch 0)],
      Insn ''add_immed'' [R (Guest 1), R (Guest 1), I 1]]"
    by (simp add: p BFFFO_reg_imm_def Let_def stream_def env_dead_def env0_def LSL_def)
  show ?thesis
    using EMIT_lineE_BFFFO_reg_code [OF a(1,2), of env_dead]
      EMIT_lineE_BFFFO_reg_code [OF a(1,2), of env0]
      EMIT_lineE_BFFFO_reg_code [OF a(3,4), of env_dead]
    by (simp only: r1 r2 r3 p(2) append_Nil own_words_simps simp_thms)
qed

end
